theory Spec2Isabelle
  imports Complex_Main "HOL-Library.Word"
begin

section \<open>The uplink demodulation stage (DoDemul::Launch)\<close>

text \<open>
  A shallow embedding of \<^verbatim>\<open>DoDemul::Launch\<close> of \<^verbatim>\<open>src/agora/dodemul.cc\<close>:
  the gather of one cache line of subcarriers, the equalization, the pilot phase
  tracker, the transposition per user and the dispatch to the soft demodulator;
  and of its older variant, \<^verbatim>\<open>DoDemul::launch\<close> of \<^verbatim>\<open>src/millipede/dodemul.cpp\<close>.

  Conventions of the model.
  \<^item> A C buffer is a function from the element index to the element; the source does
    no bounds check, and neither does the model.
  \<^item> \<^verbatim>\<open>size_t\<close> values are natural numbers; the two subtractions of the source
    that can wrap (\<^verbatim>\<open>OfdmDataNum() - base_sc_id\<close> and \<^verbatim>\<open>frame_id - 1\<close>)
    are written with their wrap-around modulo \<open>2^64\<close>. The cycle counters are
    64-bit words.
  \<^item> A \<^verbatim>\<open>complex_float\<close> is a complex number: single-precision rounding is not
    modelled. The gather functions move samples without arithmetic and are
    polymorphic in the sample type.
  \<^item> A member of the source whose name ends in an underscore has that name without
    the underscore (\<open>frame_id\<close> for \<^verbatim>\<open>frame_id_\<close>).
  \<^item> The constants and accessors that the source takes from headers outside the
    repository files at hand (\<^verbatim>\<open>kFrameWnd\<close>, \<^verbatim>\<open>kTransposeBlockSize\<close>,
    \<^verbatim>\<open>kUsePartialTrans\<close>, \<^verbatim>\<open>kExportConstellation\<close>, the \<^verbatim>\<open>CommsLib\<close>
    modulation constants, the accessors of \<^verbatim>\<open>Config\<close>, the demodulation kernels)
    are fields of the record \<open>config\<close>, and so is the compile-time choice
    \<^verbatim>\<open>__AVX512F__\<close>.
\<close>

subsection \<open>Loops and machine arithmetic\<close>

text \<open>
  \<^verbatim>\<open>for (size_t k = i; k < n; k += d) body(k)\<close>. Every stride of the source is a
  positive constant; with \<open>d = 0\<close> the C loop would not end, and the model returns
  the state unchanged.
\<close>

function for_loop :: "nat \<Rightarrow> nat \<Rightarrow> nat \<Rightarrow> (nat \<Rightarrow> 's \<Rightarrow> 's) \<Rightarrow> 's \<Rightarrow> 's" where
  "for_loop i n d body s =
     (if i < n \<and> 0 < d then for_loop (i + d) n d body (body i s) else s)"
  by pat_completeness auto
termination
  by (relation "measure (\<lambda>(i, n, d, body, s). n - i)") auto

declare for_loop.simps [simp del]

text \<open>Subtraction of two \<^verbatim>\<open>size_t\<close> values (64 bits), with its wrap-around.\<close>

definition size_t_sub :: "nat \<Rightarrow> nat \<Rightarrow> nat" where
  "size_t_sub a b = (a + 2 ^ 64 - b) mod 2 ^ 64"

subsection \<open>Configuration, task tag, completion event\<close>

text \<open>
  The width of a cache line in subcarriers, \<^verbatim>\<open>kSCsPerCacheline\<close>: the 64 bytes of
  a cache line over the 8 bytes of a \<^verbatim>\<open>complex_float\<close>. The source says so where
  it gathers (``Gather data for all antennas and 8 subcarriers in the same cache
  line'') and the older variant \<^verbatim>\<open>millipede/dodemul.cpp\<close> writes the literal 8.
\<close>

definition kSCsPerCacheline :: nat where
  "kSCsPerCacheline = 8"

text \<open>\<^verbatim>\<open>static constexpr bool kUseSIMDGather = true;\<close>\<close>

definition kUseSIMDGather :: bool where
  "kUseSIMDGather = True"

record config =
  tid :: int
  BsAntNum :: nat
  UeNum :: nat
  OfdmDataNum :: nat
  DemulBlockSize :: nat
  ClientUlPilotSymbols :: nat
  ModOrderBits :: nat
  Modulation :: string
  GetULSymbolIdx :: "nat \<Rightarrow> nat"
  GetTotalDataSymbolIdxUl :: "nat \<Rightarrow> nat \<Rightarrow> nat"
  GetZfScId :: "nat \<Rightarrow> nat"
  kFrameWnd :: nat
  kTransposeBlockSize :: nat
  kUsePartialTrans :: bool
  kExportConstellation :: bool
  kDebugPrintInTask :: bool
  kPrintPhyStats :: bool
  AVX512F :: bool
  kQpsk :: nat
  kQaM16 :: nat
  kQaM64 :: nat
  DemodQpskSoftSse :: "complex list \<Rightarrow> 8 word list"
  Demod16qamSoftAvx2 :: "complex list \<Rightarrow> 8 word list"
  Demod64qamSoftAvx2 :: "complex list \<Rightarrow> 8 word list"

text \<open>
  The fields that \<^verbatim>\<open>gen_tag_t(tag)\<close> unpacks from a task tag. The bit packing is
  declared outside the files at hand; a tag is identified with its fields.
\<close>

record gen_tag_t =
  frame_id :: nat
  symbol_id :: nat
  sc_id :: nat

datatype EventType = kDemul

record EventData =
  event_type :: EventType
  tags :: gen_tag_t

text \<open>
  \<^verbatim>\<open>std::min(cfg_->DemulBlockSize(), cfg_->OfdmDataNum() - base_sc_id)\<close>, the
  number of subcarriers one task covers.
\<close>

definition max_sc_ite :: "config \<Rightarrow> nat \<Rightarrow> nat" where
  "max_sc_ite c base_sc_id =
     min (DemulBlockSize c) (size_t_sub (OfdmDataNum c) base_sc_id)"

subsection \<open>Step 1: the gather of one cache line\<close>

text \<open>
  The start, in the received symbol, of the partial transpose block that holds
  subcarrier \<open>base_sc_id + i\<close>. \<^verbatim>\<open>kTransposeBlockSize\<close> is a positive constant.
\<close>

definition partial_transpose_block_base :: "config \<Rightarrow> nat \<Rightarrow> nat \<Rightarrow> nat" where
  "partial_transpose_block_base c base_sc_id i =
     ((base_sc_id + i) div kTransposeBlockSize c) * (kTransposeBlockSize c * BsAntNum c)"

text \<open>
  The scalar loop (the \<^verbatim>\<open>else\<close> branch): \<^verbatim>\<open>*dst++ = ...\<close> for every row \<open>j\<close> of
  the cache line and every antenna from \<open>ant_start\<close> on; \<open>dst\<close> starts at
  \<^verbatim>\<open>data_gather_buffer_ + ant_start\<close> and is carried through both loops.
\<close>

definition gather_sample :: "config \<Rightarrow> (nat \<Rightarrow> 'a) \<Rightarrow> nat \<Rightarrow> nat \<Rightarrow> nat \<Rightarrow> nat \<Rightarrow> 'a" where
  "gather_sample c data_buf base_sc_id i j ant_i =
     (if kUsePartialTrans c
      then data_buf (partial_transpose_block_base c base_sc_id i
                      + ant_i * kTransposeBlockSize c
                      + (base_sc_id + i + j) mod kTransposeBlockSize c)
      else data_buf (ant_i * OfdmDataNum c + base_sc_id + i + j))"

definition gather_scalar ::
  "config \<Rightarrow> (nat \<Rightarrow> 'a) \<Rightarrow> nat \<Rightarrow> nat \<Rightarrow> nat \<Rightarrow> (nat \<Rightarrow> 'a) \<Rightarrow> (nat \<Rightarrow> 'a)" where
  "gather_scalar c data_buf base_sc_id i ant_start gbuf =
     snd (for_loop 0 kSCsPerCacheline 1
            (\<lambda>j. for_loop ant_start (BsAntNum c) 1
                    (\<lambda>ant_i (dst, g).
                       (dst + 1, g(dst := gather_sample c data_buf base_sc_id i j ant_i))))
            (ant_start, gbuf))"

text \<open>
  The vector loop. One pass moves, for each of the rows \<open>j\<close>, the samples of
  \<open>ant_num_per_simd\<close> antennas: 4 with AVX2, 8 with AVX512. Pointers and indices are
  counted in complex samples here (the source counts floats, two per sample):
  lane \<open>k\<close> of \<^verbatim>\<open>_mm256_i32gather_ps(src + j * 2, index, 4)\<close> is the sample at
  \<open>src + j + k * kTransposeBlockSize\<close>, and the AVX512 build loads contiguously when
  \<^verbatim>\<open>kTransposeBlockSize == 1\<close>. The store writes the lanes at
  \<open>dst + j * BsAntNum\<close>; \<open>src\<close> and \<open>dst\<close> advance after each pass.
\<close>

definition ant_num_per_simd :: "config \<Rightarrow> nat" where
  "ant_num_per_simd c = (if AVX512F c then 8 else 4)"

definition data_rx :: "config \<Rightarrow> (nat \<Rightarrow> 'a) \<Rightarrow> nat \<Rightarrow> nat \<Rightarrow> nat \<Rightarrow> 'a" where
  "data_rx c data_buf src j k =
     (if AVX512F c \<and> kTransposeBlockSize c = 1
      then data_buf (src + j * BsAntNum c + k)
      else data_buf (src + j + k * kTransposeBlockSize c))"

definition mm_store_ps :: "nat \<Rightarrow> nat \<Rightarrow> (nat \<Rightarrow> 'a) \<Rightarrow> (nat \<Rightarrow> 'a) \<Rightarrow> (nat \<Rightarrow> 'a)" where
  "mm_store_ps w p lanes g = (\<lambda>q. if p \<le> q \<and> q < p + w then lanes (q - p) else g q)"

definition gather_simd ::
  "config \<Rightarrow> (nat \<Rightarrow> 'a) \<Rightarrow> nat \<Rightarrow> nat \<Rightarrow> (nat \<Rightarrow> 'a) \<Rightarrow> (nat \<Rightarrow> 'a)" where
  "gather_simd c data_buf base_sc_id i gbuf =
     (let cur_sc_offset = partial_transpose_block_base c base_sc_id i
                            + (base_sc_id + i) mod kTransposeBlockSize c
      in snd (snd (for_loop 0 (BsAntNum c) (ant_num_per_simd c)
            (\<lambda>ant_i (src, dst, g).
               (src + ant_num_per_simd c * kTransposeBlockSize c,
                dst + ant_num_per_simd c,
                for_loop 0 kSCsPerCacheline 1
                  (\<lambda>j. mm_store_ps (ant_num_per_simd c) (dst + j * BsAntNum c)
                          (data_rx c data_buf src j))
                  g))
            (cur_sc_offset, 0, gbuf))))"

text \<open>
  Step 1 of the loop body. After the vector loop the source sets
  \<^verbatim>\<open>ant_start = BsAntNum() % 4\<close> ``for non-SIMD gather'', but the scalar loop is the
  \<^verbatim>\<open>else\<close> branch and does not run after the vector loop: the assignment has no
  effect, and the scalar loop always starts at antenna 0.
\<close>

definition gather_stage ::
  "config \<Rightarrow> (nat \<Rightarrow> 'a) \<Rightarrow> nat \<Rightarrow> nat \<Rightarrow> (nat \<Rightarrow> 'a) \<Rightarrow> (nat \<Rightarrow> 'a)" where
  "gather_stage c data_buf base_sc_id i gbuf =
     (if kUseSIMDGather \<and> BsAntNum c mod 4 = 0 \<and> kUsePartialTrans c
      then gather_simd c data_buf base_sc_id i gbuf
      else gather_scalar c data_buf base_sc_id i 0 gbuf)"

subsection \<open>The state of a worker\<close>

text \<open>
  The buffers that \<^verbatim>\<open>DoDemul\<close> holds by reference or owns, the statistics it updates
  and what it prints. \<^verbatim>\<open>ue_pilot_data_\<close> is the matrix the constructor builds (row:
  user, column: subcarrier). A call of \<^verbatim>\<open>phy_stats_\<close> and a line printed are
  recorded in the order they happen. \<^verbatim>\<open>GetTime::WorkerRdtsc()\<close> reads the next
  value of the cycle counter \<open>tsc\<close>.
\<close>

datatype phy_stats_call =
    UpdateEvmStats nat nat "complex list"
  | PrintEvmStats nat

datatype printed =
    InDoDemul int nat nat nat nat nat
  | ModulationNotSupported string

record demul_state =
  data_buffer :: "nat \<Rightarrow> nat \<Rightarrow> complex"
  ul_zf_matrices :: "nat \<Rightarrow> nat \<Rightarrow> nat \<Rightarrow> complex"
  ue_spec_pilot_buffer :: "nat \<Rightarrow> nat \<Rightarrow> complex"
  equal_buffer :: "nat \<Rightarrow> nat \<Rightarrow> complex"
  demod_buffers :: "nat \<Rightarrow> nat \<Rightarrow> nat \<Rightarrow> nat \<Rightarrow> 8 word"
  ue_pilot_data :: "nat \<Rightarrow> nat \<Rightarrow> complex"
  data_gather_buffer :: "nat \<Rightarrow> complex"
  equaled_buffer_temp :: "nat \<Rightarrow> complex"
  equaled_buffer_temp_transposed :: "nat \<Rightarrow> complex"
  task_duration :: "nat \<Rightarrow> 64 word"
  task_count :: "64 word"
  phy_stats :: "phy_stats_call list"
  stdout :: "printed list"
  tsc :: "nat \<Rightarrow> 64 word"
  tsc_reads :: nat

datatype error = AssertionFailed

definition WorkerRdtsc :: "demul_state \<Rightarrow> 64 word \<times> demul_state" where
  "WorkerRdtsc s = (tsc s (tsc_reads s), s\<lparr>tsc_reads := Suc (tsc_reads s)\<rparr>)"

definition add_task_duration :: "nat \<Rightarrow> 64 word \<Rightarrow> demul_state \<Rightarrow> demul_state" where
  "add_task_duration k t s =
     s\<lparr>task_duration := (task_duration s)(k := task_duration s k + t)\<rparr>"

definition symbol_idx_ul :: "config \<Rightarrow> gen_tag_t \<Rightarrow> nat" where
  "symbol_idx_ul c tag = GetULSymbolIdx c (symbol_id tag)"

definition total_data_symbol_idx_ul :: "config \<Rightarrow> gen_tag_t \<Rightarrow> nat" where
  "total_data_symbol_idx_ul c tag =
     GetTotalDataSymbolIdxUl c (frame_id tag) (symbol_idx_ul c tag)"

definition frame_slot :: "config \<Rightarrow> gen_tag_t \<Rightarrow> nat" where
  "frame_slot c tag = frame_id tag mod kFrameWnd c"

text \<open>
  Step 1 with its cycle count: the gather reads the received symbol
  \<^verbatim>\<open>data_buffer_[total_data_symbol_idx_ul]\<close>.
\<close>

definition gather_step :: "config \<Rightarrow> gen_tag_t \<Rightarrow> nat \<Rightarrow> demul_state \<Rightarrow> demul_state" where
  "gather_step c tag i s =
     (let (start_tsc0, s) = WorkerRdtsc s;
          s = s\<lparr>data_gather_buffer :=
                  gather_stage c (data_buffer s (total_data_symbol_idx_ul c tag))
                    (sc_id tag) i (data_gather_buffer s)\<rparr>;
          (now, s) = WorkerRdtsc s
      in add_task_duration 1 (now - start_tsc0) s)"

subsection \<open>Step 2: equalization and the pilot phase tracker\<close>

text \<open>
  \<^verbatim>\<open>mat_equaled\<close> is a view of \<^verbatim>\<open>UeNum\<close> samples: in the exported
  \<^verbatim>\<open>equal_buffer_\<close> at \<open>cur_sc_id * UeNum\<close> when \<^verbatim>\<open>kExportConstellation\<close> is
  set, in the scratch \<^verbatim>\<open>equaled_buffer_temp_\<close> at
  \<open>(cur_sc_id - base_sc_id) * UeNum\<close> otherwise.
\<close>

definition store_vec :: "(nat \<Rightarrow> 'a) \<Rightarrow> nat \<Rightarrow> nat \<Rightarrow> (nat \<Rightarrow> 'a) \<Rightarrow> (nat \<Rightarrow> 'a)" where
  "store_vec buf off n v = (\<lambda>q. if off \<le> q \<and> q < off + n then v (q - off) else buf q)"

definition mat_equaled :: "config \<Rightarrow> gen_tag_t \<Rightarrow> nat \<Rightarrow> demul_state \<Rightarrow> nat \<Rightarrow> complex" where
  "mat_equaled c tag cur_sc_id s u =
     (if kExportConstellation c
      then equal_buffer s (total_data_symbol_idx_ul c tag) (cur_sc_id * UeNum c + u)
      else equaled_buffer_temp s ((cur_sc_id - sc_id tag) * UeNum c + u))"

definition set_mat_equaled ::
  "config \<Rightarrow> gen_tag_t \<Rightarrow> nat \<Rightarrow> (nat \<Rightarrow> complex) \<Rightarrow> demul_state \<Rightarrow> demul_state" where
  "set_mat_equaled c tag cur_sc_id v s =
     (if kExportConstellation c
      then s\<lparr>equal_buffer := (equal_buffer s)
               (total_data_symbol_idx_ul c tag :=
                  store_vec (equal_buffer s (total_data_symbol_idx_ul c tag))
                    (cur_sc_id * UeNum c) (UeNum c) v)\<rparr>
      else s\<lparr>equaled_buffer_temp :=
                  store_vec (equaled_buffer_temp s)
                    ((cur_sc_id - sc_id tag) * UeNum c) (UeNum c) v\<rparr>)"

text \<open>
  \<^verbatim>\<open>mat_ul_zf * mat_data\<close>: the \<^verbatim>\<open>UeNum\<close> by \<^verbatim>\<open>BsAntNum\<close> matrix, stored by
  columns, times the antenna vector. The JIT kernel of the other build
  (\<^verbatim>\<open>USE_MKL_JIT\<close>) is created for the same product with the same dimensions.
\<close>

definition mat_mult_vec :: "nat \<Rightarrow> nat \<Rightarrow> (nat \<Rightarrow> complex) \<Rightarrow> (nat \<Rightarrow> complex) \<Rightarrow> nat \<Rightarrow> complex" where
  "mat_mult_vec ue_num bs_ant_num ul_zf mat_data u =
     (\<Sum>a\<leftarrow>[0..<bs_ant_num]. ul_zf (a * ue_num + u) * mat_data a)"

text \<open>\<^verbatim>\<open>static_cast<int>\<close> of a \<^verbatim>\<open>size_t\<close>: the low 32 bits, read as signed.\<close>

definition static_cast_int :: "nat \<Rightarrow> int" where
  "static_cast_int n =
     (if n mod 2 ^ 32 < 2 ^ 31 then int (n mod 2 ^ 32) else int (n mod 2 ^ 32) - 2 ^ 32)"

text \<open>
  The accumulation branch (\<^verbatim>\<open>symbol_idx_ul < ClientUlPilotSymbols()\<close>). At the first
  pilot symbol and subcarrier 0 the accumulators of the slot of frame
  \<^verbatim>\<open>frame_id - 1\<close> are filled with zero (``Reset previous frame''); then the
  direction of \<^verbatim>\<open>mat_equaled % conj(ue_pilot_data_.col(cur_sc_id))\<close> is added to the
  accumulators of this frame's slot for this pilot symbol.
\<close>

definition calc_phase_shift :: "config \<Rightarrow> gen_tag_t \<Rightarrow> nat \<Rightarrow> demul_state \<Rightarrow> demul_state" where
  "calc_phase_shift c tag cur_sc_id s =
     (let s = (if symbol_idx_ul c tag = 0 \<and> cur_sc_id = 0
               then let prev = size_t_sub (frame_id tag) 1 mod kFrameWnd c
                    in s\<lparr>ue_spec_pilot_buffer := (ue_spec_pilot_buffer s)
                          (prev := store_vec (ue_spec_pilot_buffer s prev) 0
                                     (UeNum c * ClientUlPilotSymbols c) (\<lambda>_. 0))\<rparr>
               else s);
          slot = frame_id tag mod kFrameWnd c;
          shift_sc = (\<lambda>u. sgn (mat_equaled c tag cur_sc_id s u * cnj (ue_pilot_data s u cur_sc_id)))
      in s\<lparr>ue_spec_pilot_buffer := (ue_spec_pilot_buffer s)
            (slot := store_vec (ue_spec_pilot_buffer s slot)
                       (symbol_idx_ul c tag * UeNum c) (UeNum c)
                       (\<lambda>u. ue_spec_pilot_buffer s slot (symbol_idx_ul c tag * UeNum c + u)
                              + shift_sc u))\<rparr>)"

text \<open>
  The correction branch. \<open>theta_mat u p\<close> is the angle of the accumulator of user
  \<open>u\<close> and pilot symbol \<open>p\<close>; the loop adds the differences of successive angles.
\<close>

definition theta_mat :: "config \<Rightarrow> gen_tag_t \<Rightarrow> demul_state \<Rightarrow> nat \<Rightarrow> nat \<Rightarrow> real" where
  "theta_mat c tag s u p =
     Arg (ue_spec_pilot_buffer s (frame_id tag mod kFrameWnd c) (p * UeNum c + u))"

definition theta_inc :: "config \<Rightarrow> gen_tag_t \<Rightarrow> demul_state \<Rightarrow> nat \<Rightarrow> real" where
  "theta_inc c tag s =
     (let inc = for_loop 1 (ClientUlPilotSymbols c) 1
                  (\<lambda>p inc. (\<lambda>u. inc u + (theta_mat c tag s u p - theta_mat c tag s u (p - 1))))
                  (\<lambda>u. 0)
      in (\<lambda>u. inc u / real_of_int (max 1 (static_cast_int (ClientUlPilotSymbols c - 1)))))"

definition cur_theta :: "config \<Rightarrow> gen_tag_t \<Rightarrow> demul_state \<Rightarrow> nat \<Rightarrow> real" where
  "cur_theta c tag s u = theta_mat c tag s u 0 + real (symbol_idx_ul c tag) * theta_inc c tag s u"

definition mat_phase_correct :: "config \<Rightarrow> gen_tag_t \<Rightarrow> demul_state \<Rightarrow> nat \<Rightarrow> complex" where
  "mat_phase_correct c tag s u = Complex (cos (- cur_theta c tag s u)) (sin (- cur_theta c tag s u))"

definition apply_phase_shift :: "config \<Rightarrow> gen_tag_t \<Rightarrow> nat \<Rightarrow> demul_state \<Rightarrow> demul_state" where
  "apply_phase_shift c tag cur_sc_id s =
     (let s = set_mat_equaled c tag cur_sc_id
                (\<lambda>u. mat_equaled c tag cur_sc_id s u * mat_phase_correct c tag s u) s
      in if symbol_idx_ul c tag = ClientUlPilotSymbols c
         then let s = s\<lparr>phy_stats := phy_stats s @
                          [UpdateEvmStats (frame_id tag) cur_sc_id
                             (map (mat_equaled c tag cur_sc_id s) [0..<UeNum c])]\<rparr>
              in if kPrintPhyStats c \<and> cur_sc_id = 0
                 then s\<lparr>phy_stats := phy_stats s @ [PrintEvmStats (size_t_sub (frame_id tag) 1)]\<rparr>
                 else s
         else s)"

definition phase_tracker :: "config \<Rightarrow> gen_tag_t \<Rightarrow> nat \<Rightarrow> demul_state \<Rightarrow> demul_state" where
  "phase_tracker c tag cur_sc_id s =
     (if symbol_idx_ul c tag < ClientUlPilotSymbols c then calc_phase_shift c tag cur_sc_id s
      else if 0 < ClientUlPilotSymbols c then apply_phase_shift c tag cur_sc_id s
      else s)"

text \<open>The body of the loop over the subcarriers \<open>j\<close> of cache line \<open>i\<close>.\<close>

definition equalize_sc :: "config \<Rightarrow> gen_tag_t \<Rightarrow> nat \<Rightarrow> nat \<Rightarrow> demul_state \<Rightarrow> demul_state" where
  "equalize_sc c tag i j s =
     (let cur_sc_id = sc_id tag + i + j;
          data_ptr = (\<lambda>a. data_gather_buffer s (j * BsAntNum c + a));
          ul_zf_ptr = ul_zf_matrices s (frame_slot c tag) (GetZfScId c cur_sc_id);
          (start_tsc2, s) = WorkerRdtsc s;
          s = set_mat_equaled c tag cur_sc_id
                (mat_mult_vec (UeNum c) (BsAntNum c) ul_zf_ptr data_ptr) s;
          s = phase_tracker c tag cur_sc_id s;
          (start_tsc3, s) = WorkerRdtsc s;
          s = add_task_duration 2 (start_tsc3 - start_tsc2) s
      in s\<lparr>task_count := task_count s + 1\<rparr>)"

text \<open>
  The loop body up to the multiplication (lines 184 to 212): the state in which the
  phase tracker finds the equalized samples of subcarrier \<open>j\<close> of cache line \<open>i\<close>.
\<close>

definition equalization :: "config \<Rightarrow> gen_tag_t \<Rightarrow> nat \<Rightarrow> nat \<Rightarrow> demul_state \<Rightarrow> demul_state" where
  "equalization c tag i j s =
     (let cur_sc_id = sc_id tag + i + j;
          data_ptr = (\<lambda>a. data_gather_buffer s (j * BsAntNum c + a));
          ul_zf_ptr = ul_zf_matrices s (frame_slot c tag) (GetZfScId c cur_sc_id);
          (start_tsc2, s) = WorkerRdtsc s
      in set_mat_equaled c tag cur_sc_id
           (mat_mult_vec (UeNum c) (BsAntNum c) ul_zf_ptr data_ptr) s)"

definition cacheline :: "config \<Rightarrow> gen_tag_t \<Rightarrow> nat \<Rightarrow> demul_state \<Rightarrow> demul_state" where
  "cacheline c tag i s =
     for_loop 0 kSCsPerCacheline 1 (equalize_sc c tag i) (gather_step c tag i s)"

subsection \<open>Step 3: transposition per user and soft demodulation\<close>

text \<open>
  For user \<open>i\<close>, the loop over \<open>j\<close> gathers four subcarriers at a time (lane \<open>k\<close>
  of \<^verbatim>\<open>_mm256_i32gather_ps(equal_ptr, index2, 4)\<close> is the sample at
  \<open>equal_ptr + k * UeNum\<close>) into \<^verbatim>\<open>equaled_buffer_temp_transposed_\<close>;
  \<open>equal_ptr\<close> is an index into the exported row or into the scratch buffer, as
  \<^verbatim>\<open>kExportConstellation\<close> says, and \<open>equal_t_ptr\<close> is set back to the start of the
  transposed buffer after the loop. \<^verbatim>\<open>k_num_double_in_sim_d256\<close> is
  \<^verbatim>\<open>sizeof(__m256) / sizeof(double)\<close>, that is 4.
\<close>

definition k_num_double_in_sim_d256 :: nat where
  "k_num_double_in_sim_d256 = 4"

definition equal_src :: "config \<Rightarrow> gen_tag_t \<Rightarrow> demul_state \<Rightarrow> nat \<Rightarrow> complex" where
  "equal_src c tag s =
     (if kExportConstellation c then equal_buffer s (total_data_symbol_idx_ul c tag)
      else equaled_buffer_temp s)"

definition transpose_ue :: "config \<Rightarrow> gen_tag_t \<Rightarrow> nat \<Rightarrow> demul_state \<Rightarrow> demul_state" where
  "transpose_ue c tag i s =
     (let equal_ptr0 = (if kExportConstellation c then sc_id tag * UeNum c + i else i);
          (equal_t_ptr, equal_ptr, t) =
            for_loop 0 (max_sc_ite c (sc_id tag) div k_num_double_in_sim_d256) 1
              (\<lambda>j (equal_t_ptr, equal_ptr, t).
                 (equal_t_ptr + 4,
                  equal_ptr + UeNum c * k_num_double_in_sim_d256,
                  mm_store_ps 4 equal_t_ptr (\<lambda>k. equal_src c tag s (equal_ptr + k * UeNum c)) t))
              (0, equal_ptr0, equaled_buffer_temp_transposed s)
      in s\<lparr>equaled_buffer_temp_transposed := t\<rparr>)"

text \<open>
  A demodulation kernel reads \<open>max_sc_ite\<close> samples at \<open>equal_t_ptr\<close> and writes its
  bytes at \<open>demod_ptr\<close>, which is
  \<^verbatim>\<open>demod_buffers_[frame_slot][symbol_idx_ul][i] + ModOrderBits() * base_sc_id\<close>. The
  kernels themselves are outside the files at hand: each is a function from the
  samples read to the bytes written.
\<close>

definition run_kernel ::
  "(complex list \<Rightarrow> 8 word list) \<Rightarrow> config \<Rightarrow> gen_tag_t \<Rightarrow> nat \<Rightarrow> demul_state \<Rightarrow> demul_state" where
  "run_kernel kern c tag i s =
     (let llr = kern (map (equaled_buffer_temp_transposed s) [0..<max_sc_ite c (sc_id tag)]);
          demod_ptr = ModOrderBits c * sc_id tag;
          row = demod_buffers s (frame_slot c tag) (symbol_idx_ul c tag) i
      in s\<lparr>demod_buffers := (demod_buffers s)
            (frame_slot c tag := (demod_buffers s (frame_slot c tag))
               (symbol_idx_ul c tag := (demod_buffers s (frame_slot c tag) (symbol_idx_ul c tag))
                  (i := store_vec row demod_ptr (length llr) (\<lambda>k. llr ! k))))\<rparr>)"

text \<open>
  The \<^verbatim>\<open>switch (cfg_->ModOrderBits())\<close>; its \<^verbatim>\<open>default\<close> prints a line and goes on.
\<close>

definition demod_switch :: "config \<Rightarrow> gen_tag_t \<Rightarrow> nat \<Rightarrow> demul_state \<Rightarrow> demul_state" where
  "demod_switch c tag i s =
     (if ModOrderBits c = kQpsk c then run_kernel (DemodQpskSoftSse c) c tag i s
      else if ModOrderBits c = kQaM16 c then run_kernel (Demod16qamSoftAvx2 c) c tag i s
      else if ModOrderBits c = kQaM64 c then run_kernel (Demod64qamSoftAvx2 c) c tag i s
      else s\<lparr>stdout := stdout s @ [ModulationNotSupported (Modulation c)]\<rparr>)"

definition demod_ue :: "config \<Rightarrow> gen_tag_t \<Rightarrow> nat \<Rightarrow> demul_state \<Rightarrow> demul_state" where
  "demod_ue c tag i s = demod_switch c tag i (transpose_ue c tag i s)"

subsection \<open>The task\<close>

text \<open>
  The loop over the cache lines of the task's subcarriers, then the loop over the
  users. \<^verbatim>\<open>assert(max_sc_ite % kSCsPerCacheline == 0)\<close> ends the task when it fails.
\<close>

definition demul_cachelines :: "config \<Rightarrow> gen_tag_t \<Rightarrow> demul_state \<Rightarrow> demul_state" where
  "demul_cachelines c tag s =
     for_loop 0 (max_sc_ite c (sc_id tag)) kSCsPerCacheline (cacheline c tag) s"

definition demul_users :: "config \<Rightarrow> gen_tag_t \<Rightarrow> demul_state \<Rightarrow> demul_state" where
  "demul_users c tag s = for_loop 0 (UeNum c) 1 (demod_ue c tag) s"

definition debug_print_in_task :: "config \<Rightarrow> gen_tag_t \<Rightarrow> demul_state \<Rightarrow> demul_state" where
  "debug_print_in_task c tag s =
     (if kDebugPrintInTask c
      then s\<lparr>stdout := stdout s @
             [InDoDemul (tid c) (frame_id tag) (symbol_id tag) (symbol_idx_ul c tag)
                (sc_id tag) (total_data_symbol_idx_ul c tag)]\<rparr>
      else s)"

definition Launch :: "config \<Rightarrow> gen_tag_t \<Rightarrow> demul_state \<Rightarrow> error + demul_state \<times> EventData" where
  "Launch c tag s =
     (let (start_tsc, s) = WorkerRdtsc s;
          s = debug_print_in_task c tag s
      in if max_sc_ite c (sc_id tag) mod kSCsPerCacheline \<noteq> 0 then Inl AssertionFailed
         else
           let s = demul_cachelines c tag s;
               (start_tsc3, s) = WorkerRdtsc s;
               s = demul_users c tag s;
               (now3, s) = WorkerRdtsc s;
               s = add_task_duration 3 (now3 - start_tsc3) s;
               (now0, s) = WorkerRdtsc s;
               s = add_task_duration 0 (now0 - start_tsc) s
           in Inr (s, \<lparr>event_type = kDemul, tags = tag\<rparr>))"

text \<open>A worker runs its tasks one after the other, each to completion.\<close>

fun run_tasks :: "config \<Rightarrow> gen_tag_t list \<Rightarrow> demul_state \<Rightarrow> error + demul_state" where
  "run_tasks c [] s = Inr s"
| "run_tasks c (tag # rest) s =
     (case Launch c tag s of Inl e \<Rightarrow> Inl e | Inr (s', ev) \<Rightarrow> run_tasks c rest s')"

subsection \<open>A small configuration\<close>

text \<open>
  Four antennas, two users, sixteen data subcarriers in blocks of eight, QPSK; the
  concrete inputs below vary it.
\<close>

definition example_config :: config where
  "example_config =
     \<lparr>tid = 0, BsAntNum = 4, UeNum = 2, OfdmDataNum = 16, DemulBlockSize = 8,
      ClientUlPilotSymbols = 0, ModOrderBits = 2, Modulation = ''QPSK'',
      GetULSymbolIdx = (\<lambda>symbol_id. symbol_id),
      GetTotalDataSymbolIdxUl = (\<lambda>frame_id idx. (frame_id mod 40) * 70 + idx),
      GetZfScId = (\<lambda>sc. sc),
      kFrameWnd = 40, kTransposeBlockSize = 8, kUsePartialTrans = True,
      kExportConstellation = False, kDebugPrintInTask = False, kPrintPhyStats = False,
      AVX512F = False, kQpsk = 2, kQaM16 = 4, kQaM64 = 6,
      DemodQpskSoftSse = (\<lambda>xs. map (\<lambda>z. if Re z < 0 then - 1 else 1) xs),
      Demod16qamSoftAvx2 = (\<lambda>xs. replicate (4 * length xs) 0),
      Demod64qamSoftAvx2 = (\<lambda>xs. replicate (6 * length xs) 0)\<rparr>"

definition example_state :: demul_state where
  "example_state =
     \<lparr>data_buffer = (\<lambda>row k. of_nat k),
      ul_zf_matrices = (\<lambda>slot sc k. 1),
      ue_spec_pilot_buffer = (\<lambda>slot k. 0),
      equal_buffer = (\<lambda>row k. 0),
      demod_buffers = (\<lambda>slot idx ue k. 0),
      ue_pilot_data = (\<lambda>u sc. 1),
      data_gather_buffer = (\<lambda>k. 0),
      equaled_buffer_temp = (\<lambda>k. 0),
      equaled_buffer_temp_transposed = (\<lambda>k. 0),
      task_duration = (\<lambda>k. 0),
      task_count = 0,
      phy_stats = [],
      stdout = [],
      tsc = (\<lambda>n. of_nat n),
      tsc_reads = 0\<rparr>"

definition example_tag :: gen_tag_t where
  "example_tag = \<lparr>frame_id = 2, symbol_id = 0, sc_id = 8\<rparr>"

text \<open>Inputs for the phase tracker: one or two pilot symbols, a data symbol, and
  pilot accumulators that are not zero.\<close>

definition single_pilot_config :: config where
  "single_pilot_config = example_config\<lparr>ClientUlPilotSymbols := 1\<rparr>"

definition two_pilot_config :: config where
  "two_pilot_config = example_config\<lparr>ClientUlPilotSymbols := 2\<rparr>"

definition data_symbol_tag :: gen_tag_t where
  "data_symbol_tag = \<lparr>frame_id = 2, symbol_id = 2, sc_id = 8\<rparr>"

definition drifted_state :: demul_state where
  "drifted_state = example_state
     \<lparr>ue_spec_pilot_buffer := (\<lambda>slot k. if k < 2 then \<i> else - \<i>),
      equaled_buffer_temp := (\<lambda>k. 1)\<rparr>"

definition two_pilot_state :: demul_state where
  "two_pilot_state = example_state
     \<lparr>ue_spec_pilot_buffer := (\<lambda>slot k. if k < 2 then - \<i> else \<i>),
      equaled_buffer_temp := (\<lambda>k. 1)\<rparr>"

text \<open>A modulation order outside the three the \<^verbatim>\<open>switch\<close> knows.\<close>

definition unsupported_config :: config where
  "unsupported_config = example_config\<lparr>ModOrderBits := 3, Modulation := ''8PSK''\<rparr>"

text \<open>
  The state a task leaves when its assertion holds (lemma \<open>Launch_unfold\<close> below).
\<close>

definition Launch_state :: "config \<Rightarrow> gen_tag_t \<Rightarrow> demul_state \<Rightarrow> demul_state" where
  "Launch_state c tag s =
     (let s0 = debug_print_in_task c tag (snd (WorkerRdtsc s));
          s1 = demul_cachelines c tag s0;
          s2 = demul_users c tag (snd (WorkerRdtsc s1));
          s3 = add_task_duration 3 (fst (WorkerRdtsc s2) - fst (WorkerRdtsc s1)) (snd (WorkerRdtsc s2))
      in add_task_duration 0 (fst (WorkerRdtsc s3) - fst (WorkerRdtsc s)) (snd (WorkerRdtsc s3)))"

text \<open>
  Two operations on the accumulators of one slot of the frame window, to state what
  a later frame finds there: \<open>d\<close> added to every accumulator, and the slot cleared.
\<close>

definition add_to_slot :: "nat \<Rightarrow> (nat \<Rightarrow> complex) \<Rightarrow> demul_state \<Rightarrow> demul_state" where
  "add_to_slot slot d s =
     s\<lparr>ue_spec_pilot_buffer := (ue_spec_pilot_buffer s)
          (slot := (\<lambda>k. ue_spec_pilot_buffer s slot k + d k))\<rparr>"

definition clear_slot :: "nat \<Rightarrow> demul_state \<Rightarrow> demul_state" where
  "clear_slot slot s =
     s\<lparr>ue_spec_pilot_buffer := (ue_spec_pilot_buffer s)(slot := (\<lambda>k. 0))\<rparr>"

text \<open>
  The pilot tasks of frame 42, which has slot 2 of a window of 40 frames as frame 2
  had, with one pilot symbol; and a state in which the accumulators of slot 2 still
  hold what an earlier frame left there.
\<close>

definition frame42_pilot_tasks :: "gen_tag_t list" where
  "frame42_pilot_tasks =
     [\<lparr>frame_id = 42, symbol_id = 0, sc_id = 0\<rparr>, \<lparr>frame_id = 42, symbol_id = 0, sc_id = 8\<rparr>]"

definition stale_state :: demul_state where
  "stale_state = example_state\<lparr>ue_spec_pilot_buffer := (\<lambda>slot k. if slot = 2 then 5 else 0)\<rparr>"

text \<open>The accumulators of the slot of frame \<open>N - 1\<close> are zero.\<close>

definition prev_slot_zero :: "config \<Rightarrow> nat \<Rightarrow> demul_state \<Rightarrow> bool" where
  "prev_slot_zero c N s =
     (\<forall>k. k < UeNum c * ClientUlPilotSymbols c \<longrightarrow>
        ue_spec_pilot_buffer s (size_t_sub N 1 mod kFrameWnd c) k = 0)"

text \<open>
  Two states of the same task, one run with the exported buffer and one with the
  scratch buffer, after \<open>n\<close> subcarriers of the task: they agree on everything but
  the two buffers of equalized samples, and the \<open>n * UeNum\<close> samples written so far
  are the same, at \<open>base_sc_id * UeNum + q\<close> in the row of the exported buffer and at
  \<open>q\<close> in the scratch buffer.
\<close>

definition same_but_equalized :: "demul_state \<Rightarrow> demul_state \<Rightarrow> bool" where
  "same_but_equalized s t =
     (data_buffer s = data_buffer t \<and> ul_zf_matrices s = ul_zf_matrices t
      \<and> ue_spec_pilot_buffer s = ue_spec_pilot_buffer t \<and> demod_buffers s = demod_buffers t
      \<and> ue_pilot_data s = ue_pilot_data t \<and> data_gather_buffer s = data_gather_buffer t
      \<and> equaled_buffer_temp_transposed s = equaled_buffer_temp_transposed t
      \<and> task_duration s = task_duration t \<and> task_count s = task_count t
      \<and> phy_stats s = phy_stats t \<and> stdout s = stdout t
      \<and> tsc s = tsc t \<and> tsc_reads s = tsc_reads t)"

definition export_rel :: "config \<Rightarrow> gen_tag_t \<Rightarrow> nat \<Rightarrow> demul_state \<Rightarrow> demul_state \<Rightarrow> bool" where
  "export_rel c tag n s t =
     (same_but_equalized s t
      \<and> (\<forall>q. q < n * UeNum c \<longrightarrow>
            equal_buffer s (total_data_symbol_idx_ul c tag) (sc_id tag * UeNum c + q)
            = equaled_buffer_temp t q))"

abbreviation exported :: "config \<Rightarrow> config" where
  "exported c \<equiv> c\<lparr>kExportConstellation := True\<rparr>"

abbreviation scratch :: "config \<Rightarrow> config" where
  "scratch c \<equiv> c\<lparr>kExportConstellation := False\<rparr>"

subsection \<open>The older variant (millipede/dodemul.cpp)\<close>

text \<open>
  The older variant of the stage, \<^verbatim>\<open>DoDemul::launch\<close> of
  \<^verbatim>\<open>src/millipede/dodemul.cpp\<close>, with the same conventions. A name that the two
  variants share carries the suffix \<open>_m\<close> here. The older variant counts in
  \<^verbatim>\<open>int\<close> where the newer one counts in \<^verbatim>\<open>size_t\<close>; the model identifies an
  \<^verbatim>\<open>int\<close> with the natural number it holds. The members of \<^verbatim>\<open>cfg\<close>, the constants
  \<^verbatim>\<open>TASK_BUFFER_FRAME_NUM\<close> and \<^verbatim>\<open>double_num_in_simd256\<close>, the three demodulation
  kernels and the compile-time choices \<^verbatim>\<open>EXPORT_CONSTELLATION\<close> and \<^verbatim>\<open>USE_LDPC\<close>
  are fields of the record \<open>millipede_config\<close>.
\<close>

record millipede_config =
  tid_m :: int
  BS_ANT_NUM :: nat
  UE_NUM :: nat
  OFDM_DATA_NUM :: nat
  demul_block_size :: nat
  transpose_block_size :: nat
  freq_orthogonal_pilot :: bool
  mod_type :: nat
  get_total_data_symbol_idx_ul :: "nat \<Rightarrow> nat \<Rightarrow> nat"
  TASK_BUFFER_FRAME_NUM :: nat
  double_num_in_simd256 :: nat
  kDebugPrintInTask_m :: bool
  EXPORT_CONSTELLATION :: bool
  USE_LDPC :: bool
  demod_16qam_hard_avx2 :: "complex list \<Rightarrow> 8 word list"
  demod_16qam_soft_avx2 :: "complex list \<Rightarrow> 8 word list"
  demod_16qam_soft_sse :: "complex list \<Rightarrow> 8 word list"

datatype printed_m = InDoDemulTid int nat nat nat

record millipede_state =
  data_buffer_m :: "nat \<Rightarrow> nat \<Rightarrow> complex"
  precoder_buffer :: "nat \<Rightarrow> nat \<Rightarrow> complex"
  equal_buffer_m :: "nat \<Rightarrow> nat \<Rightarrow> complex"
  demod_hard_buffer :: "nat \<Rightarrow> nat \<Rightarrow> 8 word"
  demod_soft_buffer :: "nat \<Rightarrow> nat \<Rightarrow> 8 word"
  spm_buffer :: "nat \<Rightarrow> complex"
  equaled_buffer_temp_m :: "nat \<Rightarrow> complex"
  equaled_buffer_temp_transposed_m :: "nat \<Rightarrow> complex"
  task_duration_m :: "nat \<Rightarrow> 64 word"
  task_count_m :: "64 word"
  stdout_m :: "printed_m list"
  tsc_m :: "nat \<Rightarrow> 64 word"
  tsc_reads_m :: nat

definition worker_rdtsc :: "millipede_state \<Rightarrow> 64 word \<times> millipede_state" where
  "worker_rdtsc s = (tsc_m s (tsc_reads_m s), s\<lparr>tsc_reads_m := Suc (tsc_reads_m s)\<rparr>)"

definition add_task_duration_m :: "nat \<Rightarrow> 64 word \<Rightarrow> millipede_state \<Rightarrow> millipede_state" where
  "add_task_duration_m k t s =
     s\<lparr>task_duration_m := (task_duration_m s)(k := task_duration_m s k + t)\<rparr>"

definition total_data_symbol_idx :: "millipede_config \<Rightarrow> gen_tag_t \<Rightarrow> nat" where
  "total_data_symbol_idx c tag = get_total_data_symbol_idx_ul c (frame_id tag) (symbol_id tag)"

definition max_sc_ite_m :: "millipede_config \<Rightarrow> nat \<Rightarrow> nat" where
  "max_sc_ite_m c base_sc_id =
     min (demul_block_size c) (size_t_sub (OFDM_DATA_NUM c) base_sc_id)"

text \<open>
  The gather of cache line \<open>i\<close> (subcarriers \<open>base_sc_id + i * 8\<close> and the seven after
  it) into \<^verbatim>\<open>spm_buffer\<close>: always the vector loop, four antennas a pass, from the
  partial-transpose layout. Indices count complex samples: lane \<open>k\<close> of
  \<^verbatim>\<open>_mm256_i32gather_ps(src_data_ptr + j * 2, index, 4)\<close> is the sample at
  \<open>src + j + k * transpose_block_size\<close>, and \<^verbatim>\<open>gather_step_size\<close> floats are
  \<open>4 * transpose_block_size\<close> samples.
\<close>

definition gather_m ::
  "millipede_config \<Rightarrow> (nat \<Rightarrow> 'a) \<Rightarrow> nat \<Rightarrow> nat \<Rightarrow> (nat \<Rightarrow> 'a) \<Rightarrow> (nat \<Rightarrow> 'a)" where
  "gather_m c data_buf base_sc_id i spm =
     (let cur_block_id = (base_sc_id + i * 8) div transpose_block_size c;
          sc_inblock_idx = (base_sc_id + i * 8) mod transpose_block_size c;
          cur_sc_offset = cur_block_id * transpose_block_size c * BS_ANT_NUM c + sc_inblock_idx
      in snd (snd (for_loop 0 (BS_ANT_NUM c) 4
            (\<lambda>ant_idx (src, tar, g).
               (src + 4 * transpose_block_size c,
                tar + 4,
                for_loop 0 8 1
                  (\<lambda>j. mm_store_ps 4 (tar + j * BS_ANT_NUM c)
                          (\<lambda>k. data_buf (src + j + k * transpose_block_size c)))
                  g))
            (cur_sc_offset, 0, spm))))"

text \<open>
  The equalization of subcarrier \<open>j\<close> of cache line \<open>i\<close>:
  \<^verbatim>\<open>mat_equaled = mat_precoder * mat_data\<close>, stored in the exported buffer under
  \<^verbatim>\<open>EXPORT_CONSTELLATION\<close> and in the scratch buffer otherwise, and then, in a
  build without \<^verbatim>\<open>USE_LDPC\<close>, the hard decision on the \<^verbatim>\<open>UE_NUM\<close> samples just
  stored.
\<close>

definition precoder_offset :: "millipede_config \<Rightarrow> gen_tag_t \<Rightarrow> nat \<Rightarrow> nat" where
  "precoder_offset c tag cur_sc_id =
     (let off = (frame_id tag mod TASK_BUFFER_FRAME_NUM c) * OFDM_DATA_NUM c + cur_sc_id
      in if freq_orthogonal_pilot c then off - cur_sc_id mod UE_NUM c else off)"

definition mat_equaled_m ::
  "millipede_config \<Rightarrow> gen_tag_t \<Rightarrow> nat \<Rightarrow> millipede_state \<Rightarrow> nat \<Rightarrow> complex" where
  "mat_equaled_m c tag cur_sc_id s u =
     (if EXPORT_CONSTELLATION c
      then equal_buffer_m s (total_data_symbol_idx c tag) (cur_sc_id * UE_NUM c + u)
      else equaled_buffer_temp_m s ((cur_sc_id - sc_id tag) * UE_NUM c + u))"

definition set_mat_equaled_m ::
  "millipede_config \<Rightarrow> gen_tag_t \<Rightarrow> nat \<Rightarrow> (nat \<Rightarrow> complex) \<Rightarrow> millipede_state \<Rightarrow> millipede_state" where
  "set_mat_equaled_m c tag cur_sc_id v s =
     (if EXPORT_CONSTELLATION c
      then s\<lparr>equal_buffer_m := (equal_buffer_m s)
               (total_data_symbol_idx c tag :=
                  store_vec (equal_buffer_m s (total_data_symbol_idx c tag))
                    (cur_sc_id * UE_NUM c) (UE_NUM c) v)\<rparr>
      else s\<lparr>equaled_buffer_temp_m :=
                  store_vec (equaled_buffer_temp_m s)
                    ((cur_sc_id - sc_id tag) * UE_NUM c) (UE_NUM c) v\<rparr>)"

definition hard_demod :: "millipede_config \<Rightarrow> gen_tag_t \<Rightarrow> nat \<Rightarrow> millipede_state \<Rightarrow> millipede_state" where
  "hard_demod c tag cur_sc_id s =
     (let bytes = demod_16qam_hard_avx2 c (map (mat_equaled_m c tag cur_sc_id s) [0..<UE_NUM c]);
          row = demod_hard_buffer s (total_data_symbol_idx c tag)
      in s\<lparr>demod_hard_buffer := (demod_hard_buffer s)
            (total_data_symbol_idx c tag :=
               store_vec row (cur_sc_id * UE_NUM c) (length bytes) (\<lambda>k. bytes ! k))\<rparr>)"

definition equalize_sc_m ::
  "millipede_config \<Rightarrow> gen_tag_t \<Rightarrow> nat \<Rightarrow> nat \<Rightarrow> millipede_state \<Rightarrow> millipede_state" where
  "equalize_sc_m c tag i j s =
     (let cur_sc_id = i * 8 + j + sc_id tag;
          data_ptr = (\<lambda>a. spm_buffer s (j * BS_ANT_NUM c + a));
          precoder_ptr = precoder_buffer s (precoder_offset c tag cur_sc_id);
          (start_tsc2, s) = worker_rdtsc s;
          s = set_mat_equaled_m c tag cur_sc_id
                (mat_mult_vec (UE_NUM c) (BS_ANT_NUM c) precoder_ptr data_ptr) s;
          (start_tsc3, s) = worker_rdtsc s;
          s = add_task_duration_m 2 (start_tsc3 - start_tsc2) s;
          s = (if USE_LDPC c then s else hard_demod c tag cur_sc_id s);
          (now, s) = worker_rdtsc s;
          s = add_task_duration_m 3 (now - start_tsc3) s
      in s\<lparr>task_count_m := task_count_m s + 1\<rparr>)"

definition cacheline_m :: "millipede_config \<Rightarrow> gen_tag_t \<Rightarrow> nat \<Rightarrow> millipede_state \<Rightarrow> millipede_state" where
  "cacheline_m c tag i s =
     (let (start_tsc1, s) = worker_rdtsc s;
          s = s\<lparr>spm_buffer :=
                  gather_m c (data_buffer_m s (total_data_symbol_idx c tag))
                    (sc_id tag) i (spm_buffer s)\<rparr>;
          (now, s) = worker_rdtsc s;
          s = add_task_duration_m 1 (now - start_tsc1) s
      in for_loop 0 8 1 (equalize_sc_m c tag i) s)"

text \<open>
  The soft demodulation of a build with \<^verbatim>\<open>USE_LDPC\<close>, for user \<open>i\<close>. The
  transposition reads \<^verbatim>\<open>equaled_buffer_temp + i\<close>, whatever
  \<^verbatim>\<open>EXPORT_CONSTELLATION\<close> says, and \<open>equal_T_ptr\<close> is carried from one user to the
  next. The kernels read at \<^verbatim>\<open>equal_T_ptr - max_sc_ite * 2\<close> (floats); when
  \<open>max_sc_ite\<close> is not a multiple of 4 that lies before what the loop wrote, and for
  the first user before the buffer, where the model reads from its start. A kernel
  is a function from the samples read to the bytes written at \<open>demul_ptr\<close>.
\<close>

definition run_soft_kernel ::
  "(complex list \<Rightarrow> 8 word list) \<Rightarrow> millipede_config \<Rightarrow> gen_tag_t \<Rightarrow> nat \<Rightarrow> nat \<Rightarrow> nat
     \<Rightarrow> millipede_state \<Rightarrow> millipede_state" where
  "run_soft_kernel kern c tag src demul_ptr num s =
     (let llr = kern (map (\<lambda>k. equaled_buffer_temp_transposed_m s (src + k)) [0..<num]);
          row = demod_soft_buffer s (total_data_symbol_idx c tag)
      in s\<lparr>demod_soft_buffer := (demod_soft_buffer s)
            (total_data_symbol_idx c tag :=
               store_vec row demul_ptr (length llr) (\<lambda>k. llr ! k))\<rparr>)"

definition soft_demod_ue ::
  "millipede_config \<Rightarrow> gen_tag_t \<Rightarrow> nat \<Rightarrow> nat \<times> millipede_state \<Rightarrow> nat \<times> millipede_state" where
  "soft_demod_ue c tag i = (\<lambda>(equal_T_ptr, s).
     (let demul_ptr = (OFDM_DATA_NUM c * i + sc_id tag) * mod_type c;
          (equal_T_ptr, equal_ptr, t) =
            for_loop 0 (max_sc_ite_m c (sc_id tag) div double_num_in_simd256 c) 1
              (\<lambda>j (equal_T_ptr, equal_ptr, t).
                 (equal_T_ptr + 4,
                  equal_ptr + UE_NUM c * double_num_in_simd256 c,
                  mm_store_ps 4 equal_T_ptr
                    (\<lambda>k. equaled_buffer_temp_m s (equal_ptr + k * UE_NUM c)) t))
              (equal_T_ptr, i, equaled_buffer_temp_transposed_m s);
          s = s\<lparr>equaled_buffer_temp_transposed_m := t\<rparr>;
          num_sc_avx2 = (max_sc_ite_m c (sc_id tag) div 16) * 16;
          rest = max_sc_ite_m c (sc_id tag) mod 16;
          s = run_soft_kernel (demod_16qam_soft_avx2 c) c tag
                (equal_T_ptr - max_sc_ite_m c (sc_id tag)) demul_ptr num_sc_avx2 s;
          s = (if 0 < rest
               then run_soft_kernel (demod_16qam_soft_sse c) c tag
                      (equal_T_ptr - max_sc_ite_m c (sc_id tag) + num_sc_avx2)
                      (demul_ptr + mod_type c * num_sc_avx2) rest s
               else s)
      in (equal_T_ptr, s)))"

text \<open>
  The task of the older variant. It has no assertion and always returns.
\<close>

definition launch :: "millipede_config \<Rightarrow> gen_tag_t \<Rightarrow> millipede_state \<Rightarrow> millipede_state \<times> EventData" where
  "launch c tag s =
     (let (start_tsc, s) = worker_rdtsc s;
          s = (if kDebugPrintInTask_m c
               then s\<lparr>stdout_m := stdout_m s @
                      [InDoDemulTid (tid_m c) (frame_id tag) (symbol_id tag) (sc_id tag)]\<rparr>
               else s);
          s = for_loop 0 (max_sc_ite_m c (sc_id tag) div 8) 1 (cacheline_m c tag) s;
          s = (if USE_LDPC c then snd (for_loop 0 (UE_NUM c) 1 (soft_demod_ue c tag) (0, s)) else s);
          (now, s) = worker_rdtsc s;
          s = add_task_duration_m 0 (now - start_tsc) s
      in (s, \<lparr>event_type = kDemul, tags = tag\<rparr>))"

text \<open>
  A small input for the older variant: four antennas, two users, blocks of eight
  subcarriers, a build with \<^verbatim>\<open>USE_LDPC\<close>. The received samples are \<open>0, 1, 2, \<dots>\<close>
  and every entry of the precoders is \<open>- 1\<close>, so that an equalized sample is minus
  the sum of the four antennas' samples; the scratch buffer holds zeros. The kernels
  stand for the ones outside the files at hand: one byte per sample, chosen by the
  sign of its real part.
\<close>

definition millipede_example_config :: millipede_config where
  "millipede_example_config =
     \<lparr>tid_m = 0, BS_ANT_NUM = 4, UE_NUM = 2, OFDM_DATA_NUM = 16, demul_block_size = 8,
      transpose_block_size = 8, freq_orthogonal_pilot = False, mod_type = 4,
      get_total_data_symbol_idx_ul = (\<lambda>frame_id symbol_id. (frame_id mod 40) * 70 + symbol_id),
      TASK_BUFFER_FRAME_NUM = 40, double_num_in_simd256 = 4,
      kDebugPrintInTask_m = False, EXPORT_CONSTELLATION = False, USE_LDPC = True,
      demod_16qam_hard_avx2 = (\<lambda>xs. map (\<lambda>z. if Re z < 0 then 0 else 1) xs),
      demod_16qam_soft_avx2 = (\<lambda>xs. map (\<lambda>z. if Re z < 0 then - 1 else 1) xs),
      demod_16qam_soft_sse = (\<lambda>xs. map (\<lambda>z. if Re z < 0 then - 1 else 1) xs)\<rparr>"

definition millipede_example_state :: millipede_state where
  "millipede_example_state =
     \<lparr>data_buffer_m = (\<lambda>row k. of_nat k),
      precoder_buffer = (\<lambda>off k. - 1),
      equal_buffer_m = (\<lambda>row k. 0),
      demod_hard_buffer = (\<lambda>row k. 0),
      demod_soft_buffer = (\<lambda>row k. 0),
      spm_buffer = (\<lambda>k. 0),
      equaled_buffer_temp_m = (\<lambda>k. 0),
      equaled_buffer_temp_transposed_m = (\<lambda>k. 0),
      task_duration_m = (\<lambda>k. 0),
      task_count_m = 0,
      stdout_m = [],
      tsc_m = (\<lambda>n. of_nat n),
      tsc_reads_m = 0\<rparr>"

definition millipede_example_tag :: gen_tag_t where
  "millipede_example_tag = \<lparr>frame_id = 2, symbol_id = 0, sc_id = 0\<rparr>"

subsection \<open>Further inputs\<close>

text \<open>
  The build and the task of the gather's failing input: AVX512, twelve antennas,
  the first block of subcarriers.
\<close>

definition avx512_twelve_config :: config where
  "avx512_twelve_config = example_config\<lparr>AVX512F := True, BsAntNum := 12\<rparr>"

definition first_block_tag :: gen_tag_t where
  "first_block_tag = \<lparr>frame_id = 2, symbol_id = 0, sc_id = 0\<rparr>"

section \<open>Properties\<close>

subsection \<open>Loops\<close>

lemma for_loop_done: "\<not> i < n \<Longrightarrow> for_loop i n d body s = s"
  by (simp add: for_loop.simps)

lemma for_loop_step:
  "i < n \<Longrightarrow> 0 < d \<Longrightarrow> for_loop i n d body s = for_loop (i + d) n d body (body i s)"
  by (subst for_loop.simps) simp

text \<open>An invariant of a loop of stride 1 holds at the bound when the loop ends.\<close>

lemma for_loop_upto_inv:
  assumes "P i s" and "i \<le> n"
    and "\<And>k t. i \<le> k \<Longrightarrow> k < n \<Longrightarrow> P k t \<Longrightarrow> P (Suc k) (body k t)"
  shows "P n (for_loop i n 1 body s)"
  using assms
proof (induction "n - i" arbitrary: i s)
  case 0
  then show ?case by (simp add: for_loop_done)
next
  case (Suc m)
  then have lt: "i < n" by simp
  have "P n (for_loop (Suc i) n 1 body (body i s))"
  proof (rule Suc.hyps(1))
    show "m = n - Suc i" using Suc.hyps(2) by simp
    show "P (Suc i) (body i s)" using Suc.prems(1,3) lt by simp
    show "Suc i \<le> n" using lt by simp
    show "\<And>k t. Suc i \<le> k \<Longrightarrow> k < n \<Longrightarrow> P k t \<Longrightarrow> P (Suc k) (body k t)"
      using Suc.prems(3) by simp
  qed
  then show ?case using lt by (simp add: for_loop_step)
qed

text \<open>The same for a stride \<open>d\<close> that divides the distance to the bound.\<close>

lemma for_loop_stride_inv:
  assumes "P 0 s" and "0 < d"
    and "\<And>k t. k < m \<Longrightarrow> P k t \<Longrightarrow> P (Suc k) (body (k * d) t)"
  shows "P m (for_loop 0 (m * d) d body s)"
proof -
  have "j \<le> m \<Longrightarrow> P j t \<Longrightarrow> P m (for_loop (j * d) (m * d) d body t)" for j t
  proof (induction "m - j" arbitrary: j t)
    case 0
    then show ?case by (simp add: for_loop_done)
  next
    case (Suc x)
    then have lt: "j < m" by simp
    then have lt': "j * d < m * d" using assms(2) by simp
    have "P m (for_loop (Suc j * d) (m * d) d body (body (j * d) t))"
      using Suc.hyps(1) [of "Suc j" "body (j * d) t"] Suc.hyps(2) lt assms(3) Suc.prems(2)
      by simp
    then show ?case using lt' assms(2) by (simp add: for_loop_step add.commute)
  qed
  from this [of 0 s] assms(1) show ?thesis by simp
qed

lemma for_loop_stop: "\<not> (i < n \<and> 0 < d) \<Longrightarrow> for_loop i n d body s = s"
  by (subst for_loop.simps) (rule if_not_P)

lemma for_loop_commute:
  assumes "\<And>k t. body k (h t) = h (body k t)"
  shows "for_loop i n d body (h s) = h (for_loop i n d body s)"
  using assms
proof (induction i n d body s rule: for_loop.induct)
  case (1 i n d body s)
  show ?case
  proof (cases "i < n \<and> 0 < d")
    case True
    then have "for_loop i n d body (h s) = for_loop (i + d) n d body (body i (h s))"
      by (simp add: for_loop_step)
    also have "\<dots> = for_loop (i + d) n d body (h (body i s))" by (simp add: "1.prems")
    also have "\<dots> = h (for_loop (i + d) n d body (body i s))"
      using True "1.prems" by (intro "1.IH") auto
    finally show ?thesis using True by (simp add: for_loop_step)
  next
    case False
    then show ?thesis by (simp add: for_loop_stop)
  qed
qed

lemma for_loop_cong_body:
  assumes "\<And>k t. f k t = g k t"
  shows "for_loop i n d f s = for_loop i n d g s"
proof -
  have "f = g" using assms by (simp add: fun_eq_iff)
  then show ?thesis by simp
qed

lemma for_loop_pair:
  "for_loop i n d (\<lambda>k (s, t). (f k s, g k t)) (s, t)
     = (for_loop i n d f s, for_loop i n d g t)"
proof (induction i n d f s arbitrary: t rule: for_loop.induct)
  case (1 i n d f s)
  show ?case
  proof (cases "i < n \<and> 0 < d")
    case True
    then show ?thesis
      using "1.IH" [of "g i t"] by (simp add: for_loop_step)
  next
    case False
    then show ?thesis by (simp add: for_loop_stop)
  qed
qed

lemma for_loop_preserves:
  assumes "\<And>k t. f (body k t) = f t"
  shows "f (for_loop i n d body s) = f s"
  using assms
proof (induction i n d body s rule: for_loop.induct)
  case (1 i n d body s)
  show ?case
  proof (cases "i < n \<and> 0 < d")
    case True
    then have "f (for_loop i n d body s) = f (for_loop (i + d) n d body (body i s))"
      by (simp add: for_loop_step)
    also have "\<dots> = f (body i s)" using True "1.prems" by (intro "1.IH") auto
    finally show ?thesis by (simp add: "1.prems")
  next
    case False
    then show ?thesis by (simp add: for_loop_stop)
  qed
qed

subsection \<open>The gather\<close>

lemma row_index:
  fixes A :: nat
  assumes "j * A \<le> q" "q < j * A + A"
  shows "q div A = j" "q mod A = q - j * A"
proof -
  have A: "0 < A" using assms by (cases A) auto
  obtain r where q: "q = j * A + r" and r: "r < A"
    using assms by (metis le_Suc_ex nat_add_left_cancel_less)
  show "q div A = j" using A r unfolding q by simp
  show "q mod A = q - j * A" using A r unfolding q by simp
qed

text \<open>A store of \<open>w\<close> lanes at column \<open>dst\<close> of row \<open>j\<close> stays within the row.\<close>

lemma in_row_iff:
  fixes A :: nat
  assumes "dst + w \<le> A"
  shows "(dst + j * A \<le> q \<and> q < dst + j * A + w)
     \<longleftrightarrow> (q div A = j \<and> dst \<le> q mod A \<and> q mod A < dst + w)"
proof
  assume h: "dst + j * A \<le> q \<and> q < dst + j * A + w"
  then have "j * A \<le> q" "q < j * A + A" using assms by auto
  then have "q div A = j" "q mod A = q - j * A" by (rule row_index)+
  then show "q div A = j \<and> dst \<le> q mod A \<and> q mod A < dst + w" using h by auto
next
  assume h: "q div A = j \<and> dst \<le> q mod A \<and> q mod A < dst + w"
  have "q = q div A * A + q mod A" by simp
  then have "q = j * A + q mod A" using h by simp
  then show "dst + j * A \<le> q \<and> q < dst + j * A + w" using h by linarith
qed

lemma in_row_offset:
  fixes A :: nat
  assumes "dst + w \<le> A" "dst + j * A \<le> q" "q < dst + j * A + w"
  shows "q - (dst + j * A) = q mod A - dst"
proof -
  have "j * A \<le> q" "q < j * A + A" using assms by auto
  then have "q mod A = q - j * A" by (rule row_index)
  then show ?thesis by simp
qed

lemma store_rows:
  fixes A :: nat
  assumes "dst + w \<le> A"
  shows "for_loop 0 n 1 (\<lambda>j. mm_store_ps w (dst + j * A) (lanes j)) g
     = (\<lambda>q. if q div A < n \<and> dst \<le> q mod A \<and> q mod A < dst + w
             then lanes (q div A) (q mod A - dst) else g q)"
proof -
  define G where "G = (\<lambda>k q. if q div A < k \<and> dst \<le> q mod A \<and> q mod A < dst + w
             then lanes (q div A) (q mod A - dst) else g q)"
  define P where "P = (\<lambda>k (t::nat \<Rightarrow> 'a). t = G k)"
  have "P n (for_loop 0 n 1 (\<lambda>j. mm_store_ps w (dst + j * A) (lanes j)) g)"
  proof (rule for_loop_upto_inv [where P = P])
    show "P 0 g" by (simp add: P_def G_def)
    show "0 \<le> n" by simp
    fix k t assume "P k t"
    then have t: "t = G k" by (simp add: P_def)
    have "mm_store_ps w (dst + k * A) (lanes k) (G k) = G (Suc k)"
    proof (rule ext)
      fix q
      show "mm_store_ps w (dst + k * A) (lanes k) (G k) q = G (Suc k) q"
      proof (cases "dst + k * A \<le> q \<and> q < dst + k * A + w")
        case True
        then have r: "q div A = k \<and> dst \<le> q mod A \<and> q mod A < dst + w"
          using in_row_iff [OF assms] by blast
        have o: "q - (dst + k * A) = q mod A - dst"
          using in_row_offset [OF assms] True by blast
        show ?thesis using True r o by (simp add: mm_store_ps_def G_def)
      next
        case False
        then have "\<not> (q div A = k \<and> dst \<le> q mod A \<and> q mod A < dst + w)"
          using in_row_iff [OF assms] by blast
        then have "(q div A < Suc k \<and> dst \<le> q mod A \<and> q mod A < dst + w)
            \<longleftrightarrow> (q div A < k \<and> dst \<le> q mod A \<and> q mod A < dst + w)"
          by (auto simp: less_Suc_eq)
        then have "G (Suc k) q = G k q" unfolding G_def by (rule if_cong) simp_all
        moreover have "mm_store_ps w (dst + k * A) (lanes k) (G k) q = G k q"
          unfolding mm_store_ps_def using False by (rule if_not_P)
        ultimately show ?thesis by simp
      qed
    qed
    then show "P (Suc k) (mm_store_ps w (dst + k * A) (lanes k) t)"
      by (simp add: P_def t)
  qed
  then show ?thesis by (simp add: P_def G_def)
qed

lemma gather_simd_closed:
  assumes "ant_num_per_simd c dvd BsAntNum c"
  shows "gather_simd c data_buf base_sc_id i g0 =
     (\<lambda>q. if q < kSCsPerCacheline * BsAntNum c
          then data_rx c data_buf
                 (partial_transpose_block_base c base_sc_id i
                    + (base_sc_id + i) mod kTransposeBlockSize c
                    + (q mod BsAntNum c) div ant_num_per_simd c
                        * (ant_num_per_simd c * kTransposeBlockSize c))
                 (q div BsAntNum c) ((q mod BsAntNum c) mod ant_num_per_simd c)
          else g0 q)"
proof -
  let ?A = "BsAntNum c" and ?w = "ant_num_per_simd c" and ?T = "kTransposeBlockSize c"
  let ?cur = "partial_transpose_block_base c base_sc_id i + (base_sc_id + i) mod ?T"
  have w: "0 < ?w" by (simp add: ant_num_per_simd_def)
  obtain m where A: "?A = m * ?w" using assms by (auto simp: dvd_def mult.commute)
  let ?val = "\<lambda>j a. data_rx c data_buf (?cur + a div ?w * (?w * ?T)) j (a mod ?w)"
  let ?body = "\<lambda>(ant_i::nat) (src, dst, g).
               (src + ?w * ?T, dst + ?w,
                for_loop 0 kSCsPerCacheline 1
                  (\<lambda>j. mm_store_ps ?w (dst + j * ?A) (data_rx c data_buf src j)) g)"
  define G where "G = (\<lambda>k q. if q div ?A < kSCsPerCacheline \<and> q mod ?A < k * ?w
                             then ?val (q div ?A) (q mod ?A) else g0 q)"
  define P where "P = (\<lambda>k (st :: nat \<times> nat \<times> (nat \<Rightarrow> 'a)).
                         st = (?cur + k * (?w * ?T), k * ?w, G k))"
  have "P m (for_loop 0 (m * ?w) ?w ?body (?cur, 0, g0))"
  proof (rule for_loop_stride_inv [where P = P])
    show "P 0 (?cur, 0, g0)" by (simp add: P_def G_def)
    show "0 < ?w" by (rule w)
    fix k st assume km: "k < m" and "P k st"
    then have st: "st = (?cur + k * (?w * ?T), k * ?w, G k)" by (simp add: P_def)
    have fit: "k * ?w + ?w \<le> ?A"
    proof -
      have "Suc k * ?w \<le> m * ?w" using km by (intro mult_le_mono1) simp
      then show ?thesis by (simp add: A)
    qed
    have "for_loop 0 kSCsPerCacheline 1
            (\<lambda>j. mm_store_ps ?w (k * ?w + j * ?A)
                    (data_rx c data_buf (?cur + k * (?w * ?T)) j)) (G k)
          = G (Suc k)"
      unfolding store_rows [OF fit]
    proof (rule ext)
      fix q
      show "(if q div ?A < kSCsPerCacheline \<and> k * ?w \<le> q mod ?A \<and> q mod ?A < k * ?w + ?w
             then data_rx c data_buf (?cur + k * (?w * ?T)) (q div ?A) (q mod ?A - k * ?w)
             else G k q) = G (Suc k) q"
      proof (cases "k * ?w \<le> q mod ?A \<and> q mod ?A < k * ?w + ?w")
        case True
        then have "(q mod ?A) div ?w = k" "(q mod ?A) mod ?w = q mod ?A - k * ?w"
          by (simp_all add: row_index)
        moreover have "q mod ?A < Suc k * ?w" using True by simp
        ultimately show ?thesis using True by (simp add: G_def)
      next
        case False
        then have "(q div ?A < kSCsPerCacheline \<and> q mod ?A < Suc k * ?w)
             \<longleftrightarrow> (q div ?A < kSCsPerCacheline \<and> q mod ?A < k * ?w)" by auto
        then have "G (Suc k) q = G k q" unfolding G_def by (rule if_cong) simp_all
        moreover have "\<not> (q div ?A < kSCsPerCacheline \<and> k * ?w \<le> q mod ?A \<and> q mod ?A < k * ?w + ?w)"
          using False by blast
        ultimately show ?thesis by (simp only: if_False)
      qed
    qed
    then show "P (Suc k) (?body (k * ?w) st)"
      by (simp add: P_def st add.assoc)
  qed
  then have r: "gather_simd c data_buf base_sc_id i g0 = G m"
    by (simp add: gather_simd_def Let_def P_def A [symmetric])
  have "G m = (\<lambda>q. if q < kSCsPerCacheline * ?A then ?val (q div ?A) (q mod ?A) else g0 q)"
  proof (rule ext)
    fix q
    show "G m q = (if q < kSCsPerCacheline * ?A then ?val (q div ?A) (q mod ?A) else g0 q)"
    proof (cases "?A = 0")
      case True
      then have "m = 0" using A w by simp
      then show ?thesis using True by (simp add: G_def)
    next
      case False
      then have "q mod ?A < m * ?w" using A by simp
      moreover have "q div ?A < kSCsPerCacheline \<longleftrightarrow> q < kSCsPerCacheline * ?A"
        using False by (simp add: div_less_iff_less_mult)
      ultimately show ?thesis by (simp add: G_def)
    qed
  qed
  with r show ?thesis by simp
qed

lemma store_row:
  "for_loop a n 1 (\<lambda>ant_i (dst, g). (dst + 1, g(dst := f ant_i))) (p, g0)
   = (p + (n - a), (\<lambda>q. if p \<le> q \<and> q < p + (n - a) then f (a + (q - p)) else g0 q))"
proof (cases "a \<le> n")
  case True
  define P where "P = (\<lambda>k (s::nat \<times> (nat \<Rightarrow> 'a)).
      s = (p + (k - a), (\<lambda>q. if p \<le> q \<and> q < p + (k - a) then f (a + (q - p)) else g0 q)))"
  have "P n (for_loop a n 1 (\<lambda>ant_i (dst, g). (dst + 1, g(dst := f ant_i))) (p, g0))"
  proof (rule for_loop_upto_inv)
    show "P a (p, g0)" by (auto simp add: P_def fun_eq_iff)
    show "a \<le> n" by (rule True)
    fix k t assume ak: "a \<le> k" and "k < n" and "P k t"
    then have t: "t = (p + (k - a), (\<lambda>q. if p \<le> q \<and> q < p + (k - a) then f (a + (q - p)) else g0 q))"
      by (simp add: P_def)
    have e: "Suc k - a = Suc (k - a)" using ak by simp
    have "(\<lambda>q. if p \<le> q \<and> q < p + (k - a) then f (a + (q - p)) else g0 q)(p + (k - a) := f k)
        = (\<lambda>q. if p \<le> q \<and> q < p + Suc (k - a) then f (a + (q - p)) else g0 q)"
    proof (rule ext)
      fix q
      show "((\<lambda>q. if p \<le> q \<and> q < p + (k - a) then f (a + (q - p)) else g0 q)(p + (k - a) := f k)) q
        = (if p \<le> q \<and> q < p + Suc (k - a) then f (a + (q - p)) else g0 q)"
      proof (cases "q = p + (k - a)")
        case True
        have "p \<le> q" "q < p + Suc (k - a)" "a + (q - p) = k"
          using True ak by arith+
        then show ?thesis using True by simp
      next
        case False
        then have "q < p + Suc (k - a) \<longleftrightarrow> q < p + (k - a)" by arith
        then show ?thesis using False by simp
      qed
    qed
    then show "P (Suc k) (case t of (dst, g) \<Rightarrow> (dst + 1, g(dst := f k)))"
      unfolding t P_def e by simp
  qed
  then show ?thesis by (simp add: P_def)
next
  case False
  then show ?thesis by (auto simp add: for_loop_done fun_eq_iff)
qed

lemma store_row0:
  "for_loop 0 n 1 (\<lambda>ant_i (dst, g). (dst + 1, g(dst := f ant_i))) (p, g0)
   = (p + n, (\<lambda>q. if p \<le> q \<and> q < p + n then f (q - p) else g0 q))"
  using store_row [of 0 n f p g0] by (simp cong: if_cong)

lemma gather_scalar_closed:
  "gather_scalar c data_buf base_sc_id i 0 g0 =
     (\<lambda>q. if q < kSCsPerCacheline * BsAntNum c
          then gather_sample c data_buf base_sc_id i (q div BsAntNum c) (q mod BsAntNum c)
          else g0 q)"
proof -
  let ?A = "BsAntNum c"
  let ?f = "gather_sample c data_buf base_sc_id i"
  let ?body = "\<lambda>j. for_loop 0 ?A 1 (\<lambda>ant_i (dst, g). (dst + 1, g(dst := ?f j ant_i)))"
  define P where "P = (\<lambda>j (s::nat \<times> (nat \<Rightarrow> 'a)).
      s = (j * ?A, (\<lambda>q. if q < j * ?A then ?f (q div ?A) (q mod ?A) else g0 q)))"
  have "P kSCsPerCacheline (for_loop 0 kSCsPerCacheline 1 ?body (0, g0))"
  proof (rule for_loop_upto_inv)
    show "P 0 (0, g0)" by (simp add: P_def)
    show "0 \<le> kSCsPerCacheline" by simp
    fix j t assume "P j t"
    then have t: "t = (j * ?A, (\<lambda>q. if q < j * ?A then ?f (q div ?A) (q mod ?A) else g0 q))"
      by (simp add: P_def)
    have "(\<lambda>q. if j * ?A \<le> q \<and> q < j * ?A + ?A then ?f j (q - j * ?A)
             else if q < j * ?A then ?f (q div ?A) (q mod ?A) else g0 q)
        = (\<lambda>q. if q < Suc j * ?A then ?f (q div ?A) (q mod ?A) else g0 q)"
    proof (rule ext)
      fix q
      show "(if j * ?A \<le> q \<and> q < j * ?A + ?A then ?f j (q - j * ?A)
             else if q < j * ?A then ?f (q div ?A) (q mod ?A) else g0 q)
        = (if q < Suc j * ?A then ?f (q div ?A) (q mod ?A) else g0 q)"
      proof (cases "j * ?A \<le> q \<and> q < j * ?A + ?A")
        case True
        then have "q div ?A = j" "q mod ?A = q - j * ?A" by (simp_all add: row_index)
        moreover have "q < Suc j * ?A" using True by simp
        ultimately show ?thesis using True by simp
      next
        case False
        then have "q < Suc j * ?A \<longleftrightarrow> q < j * ?A" by auto
        then show ?thesis using False by simp
      qed
    qed
    then show "P (Suc j) (?body j t)"
      unfolding t P_def store_row0 by simp
  qed
  then show ?thesis by (simp add: gather_scalar_def P_def mult.commute)
qed

lemma same_block:
  fixes T :: nat
  assumes "0 < T" "kSCsPerCacheline dvd T" "kSCsPerCacheline dvd x" "j < kSCsPerCacheline"
  shows "(x + j) div T = x div T" and "(x + j) mod T = x mod T + j"
proof -
  have "kSCsPerCacheline dvd x mod T" using assms(2,3) by (simp add: dvd_mod)
  then have "kSCsPerCacheline dvd T - x mod T" using assms(2) by (rule dvd_diff_nat [rotated])
  moreover have "0 < T - x mod T" using assms(1) by simp
  ultimately have "kSCsPerCacheline \<le> T - x mod T" by (rule dvd_imp_le)
  then have lt: "x mod T + j < T" using assms(4) by linarith
  have "x + j = x div T * T + (x mod T + j)" by simp
  then show "(x + j) div T = x div T" using lt
    by (metis add.commute div_mult_self3 div_less add.right_neutral assms(1) less_numeral_extra(3))
  have "(x + j) mod T = (x mod T + j) mod T" by (simp add: mod_add_left_eq)
  then show "(x + j) mod T = x mod T + j" using lt by simp
qed

text \<open>
  Where the number of antennas is a multiple of the vector width, or not a multiple
  of 4, step 1 is the scalar gather of all antennas.
\<close>

lemma gather_stage_scalar:
  assumes "ant_num_per_simd c dvd BsAntNum c \<or> BsAntNum c mod 4 \<noteq> 0"
    and "0 < kTransposeBlockSize c"
    and "kSCsPerCacheline dvd kTransposeBlockSize c"
    and "kSCsPerCacheline dvd base_sc_id + i"
  shows "gather_stage c data_buf base_sc_id i g0 = gather_scalar c data_buf base_sc_id i 0 g0"
proof (cases "BsAntNum c mod 4 = 0 \<and> kUsePartialTrans c")
  case False
  then show ?thesis by (auto simp add: gather_stage_def)
next
  case True
  let ?A = "BsAntNum c" and ?w = "ant_num_per_simd c" and ?T = "kTransposeBlockSize c"
  have w: "?w dvd ?A" "0 < ?w" using assms(1) True by (auto simp: ant_num_per_simd_def)
  have T1: "?T \<noteq> 1"
    using assms(2,3) by (auto simp: kSCsPerCacheline_def)
  have "gather_simd c data_buf base_sc_id i g0 = gather_scalar c data_buf base_sc_id i 0 g0"
    unfolding gather_simd_closed [OF w(1)] gather_scalar_closed
  proof (rule ext)
    fix q
    let ?j = "q div ?A" and ?a = "q mod ?A"
    show "(if q < kSCsPerCacheline * ?A
           then data_rx c data_buf
                 (partial_transpose_block_base c base_sc_id i + (base_sc_id + i) mod ?T
                    + ?a div ?w * (?w * ?T)) ?j (?a mod ?w)
           else g0 q)
        = (if q < kSCsPerCacheline * ?A then gather_sample c data_buf base_sc_id i ?j ?a else g0 q)"
    proof (cases "q < kSCsPerCacheline * ?A")
      case False
      then show ?thesis by simp
    next
      case q: True
      then have A0: "0 < ?A" by (cases "?A") auto
      have j: "?j < kSCsPerCacheline" using q A0 by (simp add: div_less_iff_less_mult)
      have m: "(base_sc_id + i + ?j) mod ?T = (base_sc_id + i) mod ?T + ?j"
        using assms(2,3,4) j by (rule same_block(2))
      have "?a div ?w * (?w * ?T) + ?a mod ?w * ?T = (?a div ?w * ?w + ?a mod ?w) * ?T"
        by (simp only: add_mult_distrib mult.assoc)
      then have a: "?a div ?w * (?w * ?T) + ?a mod ?w * ?T = ?a * ?T"
        by (simp only: div_mult_mod_eq)
      have "data_rx c data_buf
                 (partial_transpose_block_base c base_sc_id i + (base_sc_id + i) mod ?T
                    + ?a div ?w * (?w * ?T)) ?j (?a mod ?w)
          = data_buf (partial_transpose_block_base c base_sc_id i + (base_sc_id + i) mod ?T
                    + ?a div ?w * (?w * ?T) + ?j + ?a mod ?w * ?T)"
        using T1 by (simp add: data_rx_def)
      also have "partial_transpose_block_base c base_sc_id i + (base_sc_id + i) mod ?T
                    + ?a div ?w * (?w * ?T) + ?j + ?a mod ?w * ?T
          = partial_transpose_block_base c base_sc_id i + ?a * ?T + (base_sc_id + i + ?j) mod ?T"
        unfolding m using a by linarith
      also have "data_buf (partial_transpose_block_base c base_sc_id i + ?a * ?T
                    + (base_sc_id + i + ?j) mod ?T) = gather_sample c data_buf base_sc_id i ?j ?a"
        using True by (simp add: gather_sample_def)
      finally show ?thesis using q by simp
    qed
  qed
  then show ?thesis using True by (simp add: gather_stage_def)
qed

text \<open>
  The scalar gather loop (the one \<^verbatim>\<open>Launch\<close> runs when it does not take the vector
  path, with \<open>ant_start = 0\<close>) fills row \<open>j\<close>, column \<open>ant\<close> of the gather buffer with
  the sample of antenna \<open>ant\<close> and subcarrier \<open>s = base_sc_id + i + j\<close>: the one at
  offset \<open>ant * OfdmDataNum + s\<close> in the contiguous layout, and the one at offset
  \<open>block_base + ant * T + s mod T\<close> in the partial-transpose layout, where
  \<open>block_base = (s div T) * (T * BsAntNum)\<close> is the start of the block of \<open>s\<close>. For the
  partial-transpose layout the cache line lies within one transpose block, as the
  source requires: the cache-line width divides \<open>T\<close> and the first subcarrier of the
  cache line.
\<close>

lemma gather_scalar_layout:
  assumes "j < kSCsPerCacheline" and "ant < BsAntNum c"
    and "kUsePartialTrans c \<Longrightarrow> 0 < kTransposeBlockSize c"
    and "kUsePartialTrans c \<Longrightarrow> kSCsPerCacheline dvd kTransposeBlockSize c"
    and "kUsePartialTrans c \<Longrightarrow> kSCsPerCacheline dvd base_sc_id + i"
  shows "gather_scalar c data_buf base_sc_id i 0 g0 (j * BsAntNum c + ant) =
     (if kUsePartialTrans c
      then data_buf ((base_sc_id + i + j) div kTransposeBlockSize c
                        * (kTransposeBlockSize c * BsAntNum c)
                      + ant * kTransposeBlockSize c
                      + (base_sc_id + i + j) mod kTransposeBlockSize c)
      else data_buf (ant * OfdmDataNum c + (base_sc_id + i + j)))"
proof -
  let ?A = "BsAntNum c"
  let ?q = "j * ?A + ant"
  have q: "?q < kSCsPerCacheline * ?A"
  proof -
    have "?q < Suc j * ?A" using assms(2) by simp
    also have "\<dots> \<le> kSCsPerCacheline * ?A" using assms(1) by (intro mult_le_mono1) simp
    finally show ?thesis .
  qed
  have d: "?q div ?A = j" "?q mod ?A = ant" using assms(2) by simp_all
  have g: "gather_scalar c data_buf base_sc_id i 0 g0 ?q = gather_sample c data_buf base_sc_id i j ant"
    unfolding gather_scalar_closed using q d by simp
  show ?thesis
  proof (cases "kUsePartialTrans c")
    case False
    then show ?thesis unfolding g by (simp add: gather_sample_def add.assoc)
  next
    case True
    have "(base_sc_id + i + j) div kTransposeBlockSize c = (base_sc_id + i) div kTransposeBlockSize c"
      using assms(3-5) [OF True] assms(1) by (rule same_block(1))
    then show ?thesis unfolding g using True
      by (simp add: gather_sample_def partial_transpose_block_base_def)
  qed
qed

text \<open>
  Claim C5, at a concrete input. An AVX512 build with 12 antennas takes the vector
  path (\<open>12 mod 4 = 0\<close>), whose passes move 8 antennas each: the second pass reads
  antennas 8 to 15 and stores them over columns 0 to 3 of the next row, and no scalar
  loop runs after it. With the received symbol \<open>data_buf k = k\<close>, entry 12 of the
  gather buffer (row 1, antenna 0) is sample 96, where the scalar gather of the same
  input puts sample 1. (The model does not trap on the misaligned
  \<^verbatim>\<open>_mm512_store_ps\<close> of row 1.)
\<close>

theorem C5_gather_avx512_twelve_antennas:
  "gather_stage (example_config\<lparr>AVX512F := True, BsAntNum := 12\<rparr>) (\<lambda>k. k) 0 0 (\<lambda>k. 0) 12 = (96::nat)
   \<and> gather_scalar (example_config\<lparr>AVX512F := True, BsAntNum := 12\<rparr>) (\<lambda>k. k) 0 0 0 (\<lambda>k. 0) 12 = (1::nat)"
  by code_simp

subsection \<open>The view of the equalized samples\<close>

lemma store_vec_read: "u < n \<Longrightarrow> store_vec buf off n v (off + u) = v u"
  by (simp add: store_vec_def)

lemma mat_equaled_set:
  "u < UeNum c \<Longrightarrow> mat_equaled c tag cur_sc_id (set_mat_equaled c tag cur_sc_id v s) u = v u"
  by (simp add: mat_equaled_def set_mat_equaled_def store_vec_read)

lemma pilot_set_mat_equaled [simp]:
  "ue_spec_pilot_buffer (set_mat_equaled c tag cur_sc_id v s) = ue_spec_pilot_buffer s"
  by (simp add: set_mat_equaled_def)

lemma mat_equaled_cong:
  "equal_buffer s = equal_buffer t \<Longrightarrow> equaled_buffer_temp s = equaled_buffer_temp t \<Longrightarrow>
   mat_equaled c tag cur_sc_id s = mat_equaled c tag cur_sc_id t"
  by (simp add: mat_equaled_def fun_eq_iff)

subsection \<open>The phase tracker\<close>

lemma theta_sum:
  fixes f :: "nat \<Rightarrow> nat \<Rightarrow> real"
  assumes "1 \<le> n"
  shows "for_loop 1 n 1 (\<lambda>p inc. (\<lambda>u. inc u + (f u p - f u (p - 1)))) (\<lambda>u. 0)
       = (\<lambda>u. \<Sum>p = 1..<n. f u p - f u (p - 1 :: nat) :: real)"
proof -
  define P where "P = (\<lambda>k (inc :: nat \<Rightarrow> real). inc = (\<lambda>u. \<Sum>p = 1..<k. f u p - f u (p - 1)))"
  have "P n (for_loop 1 n 1 (\<lambda>p inc. (\<lambda>u. inc u + (f u p - f u (p - 1)))) (\<lambda>u. 0))"
  proof (rule for_loop_upto_inv [where P = P])
    show "P 1 (\<lambda>u. 0)" by (simp add: P_def)
    show "1 \<le> n" by (rule assms)
    fix k t assume "1 \<le> k" and "P k t"
    then show "P (Suc k) (\<lambda>u. t u + (f u k - f u (k - 1)))"
      by (simp add: P_def)
  qed
  then show ?thesis by (simp add: P_def)
qed

lemma static_cast_int_small: "n < 2 ^ 31 \<Longrightarrow> static_cast_int n = int n"
  by (simp add: static_cast_int_def)

lemma theta_inc_mean:
  assumes "0 < ClientUlPilotSymbols c" "ClientUlPilotSymbols c \<le> 2 ^ 31"
  shows "theta_inc c tag s u =
     (\<Sum>p = 1..<ClientUlPilotSymbols c. theta_mat c tag s u p - theta_mat c tag s u (p - 1))
       / real (max 1 (ClientUlPilotSymbols c - 1))"
proof -
  have "ClientUlPilotSymbols c - 1 < 2 ^ 31" using assms by linarith
  then have "static_cast_int (ClientUlPilotSymbols c - 1) = int (ClientUlPilotSymbols c - 1)"
    by (rule static_cast_int_small)
  then have ce: "real_of_int (max 1 (static_cast_int (ClientUlPilotSymbols c - 1)))
      = real (max 1 (ClientUlPilotSymbols c - 1))"
    by (simp add: max_def)
  have "1 \<le> ClientUlPilotSymbols c" using assms(1) by simp
  then have loop: "for_loop 1 (ClientUlPilotSymbols c) 1
       (\<lambda>p inc. (\<lambda>u. inc u + (theta_mat c tag s u p - theta_mat c tag s u (p - 1)))) (\<lambda>u. 0)
     = (\<lambda>u. \<Sum>p = 1..<ClientUlPilotSymbols c. theta_mat c tag s u p - theta_mat c tag s u (p - 1))"
    by (rule theta_sum)
  show ?thesis unfolding theta_inc_def Let_def loop ce by (rule refl)
qed

lemma theta_inc_single_pilot:
  assumes "ClientUlPilotSymbols c = 1"
  shows "theta_inc c tag s u = 0"
  using assms by (simp add: theta_inc_def Let_def for_loop_done)

lemma mat_phase_correct_exp:
  "mat_phase_correct c tag s u = exp (- (\<i> * complex_of_real (cur_theta c tag s u)))"
proof -
  have "mat_phase_correct c tag s u = cis (- cur_theta c tag s u)"
    by (simp add: mat_phase_correct_def complex_eq_iff)
  then show ?thesis by (simp add: cis_conv_exp)
qed

lemma mat_equaled_apply_phase_shift:
  assumes "u < UeNum c"
  shows "mat_equaled c tag cur_sc_id (apply_phase_shift c tag cur_sc_id s) u
       = mat_equaled c tag cur_sc_id s u * mat_phase_correct c tag s u"
proof -
  let ?s1 = "set_mat_equaled c tag cur_sc_id
                (\<lambda>u. mat_equaled c tag cur_sc_id s u * mat_phase_correct c tag s u) s"
  have "mat_equaled c tag cur_sc_id (apply_phase_shift c tag cur_sc_id s)
      = mat_equaled c tag cur_sc_id ?s1"
    by (rule mat_equaled_cong) (simp_all add: apply_phase_shift_def Let_def)
  then show ?thesis using assms by (simp add: mat_equaled_set)
qed

lemma pilot_apply_phase_shift [simp]:
  "ue_spec_pilot_buffer (apply_phase_shift c tag cur_sc_id s) = ue_spec_pilot_buffer s"
  by (simp add: apply_phase_shift_def Let_def)

lemma phase_tracker_correction:
  assumes "ClientUlPilotSymbols c \<le> symbol_idx_ul c tag"
    and "0 < ClientUlPilotSymbols c"
    and "u < UeNum c"
  shows "mat_equaled c tag cur_sc_id (phase_tracker c tag cur_sc_id s) u
       = mat_equaled c tag cur_sc_id s u * exp (- (\<i> * complex_of_real (cur_theta c tag s u)))"
proof -
  have "phase_tracker c tag cur_sc_id s = apply_phase_shift c tag cur_sc_id s"
    using assms(1,2) by (simp add: phase_tracker_def)
  then show ?thesis
    using assms(3) by (simp add: mat_equaled_apply_phase_shift mat_phase_correct_exp)
qed

text \<open>
  Claim C4. On a data symbol (\<open>symbol_idx_ul \<ge> P\<close> with \<open>P > 0\<close> pilot symbols) the phase
  tracker multiplies the equalized value of every user \<open>u\<close> by \<open>exp (- \<i> * theta)\<close>, where
  \<open>theta = theta 0 + symbol_idx_ul * avg_increment\<close>, \<open>theta p\<close> is the angle of the
  accumulator of user \<open>u\<close> for pilot symbol \<open>p\<close>, and \<open>avg_increment\<close> is the sum of the
  differences of successive angles over \<open>max 1 (P - 1)\<close>. (\<open>P\<close> is within the range of
  the \<^verbatim>\<open>int\<close> to which the source casts \<open>P - 1\<close>.)
\<close>

theorem C4_phase_correction:
  assumes "ClientUlPilotSymbols c \<le> symbol_idx_ul c tag"
    and "0 < ClientUlPilotSymbols c"
    and "ClientUlPilotSymbols c \<le> 2 ^ 31"
    and "u < UeNum c"
  shows "(let acc = (\<lambda>p. ue_spec_pilot_buffer s (frame_id tag mod kFrameWnd c) (p * UeNum c + u));
              theta = (\<lambda>p. Arg (acc p));
              avg_increment = (\<Sum>p = 1..<ClientUlPilotSymbols c. theta p - theta (p - 1))
                                / real (max 1 (ClientUlPilotSymbols c - 1))
          in mat_equaled c tag cur_sc_id (phase_tracker c tag cur_sc_id s) u
             = mat_equaled c tag cur_sc_id s u
               * exp (- (\<i> * complex_of_real
                           (theta 0 + real (symbol_idx_ul c tag) * avg_increment))))"
proof -
  have "cur_theta c tag s u
      = Arg (ue_spec_pilot_buffer s (frame_id tag mod kFrameWnd c) (0 * UeNum c + u))
        + real (symbol_idx_ul c tag)
          * ((\<Sum>p = 1..<ClientUlPilotSymbols c.
                Arg (ue_spec_pilot_buffer s (frame_id tag mod kFrameWnd c) (p * UeNum c + u))
                - Arg (ue_spec_pilot_buffer s (frame_id tag mod kFrameWnd c) ((p - 1) * UeNum c + u)))
             / real (max 1 (ClientUlPilotSymbols c - 1)))"
    unfolding cur_theta_def theta_inc_mean [OF assms(2,3)] theta_mat_def by (rule refl)
  then show ?thesis
    unfolding Let_def using phase_tracker_correction [OF assms(1,2,4), of cur_sc_id s] by simp
qed

text \<open>
  Claim C7 says that with a zero average increment, as with a single pilot symbol,
  the correction leaves the equalized samples as they are. With one pilot symbol
  whose accumulator is \<open>\<i>\<close> the average increment is zero, and the correction turns
  the equalized sample 1 into \<open>- \<i>\<close>: the rotation is by the angle of the first
  accumulator, not by zero.
\<close>

theorem C7_counterexample:
  "ClientUlPilotSymbols single_pilot_config = 1
   \<and> theta_inc single_pilot_config data_symbol_tag drifted_state 0 = 0
   \<and> mat_equaled single_pilot_config data_symbol_tag 8 drifted_state 0 = 1
   \<and> mat_equaled single_pilot_config data_symbol_tag 8
        (phase_tracker single_pilot_config data_symbol_tag 8 drifted_state) 0 = - \<i>"
proof -
  have p: "ClientUlPilotSymbols single_pilot_config = 1"
    by (simp add: single_pilot_config_def example_config_def)
  have i: "theta_inc single_pilot_config data_symbol_tag drifted_state 0 = 0"
    using p by (rule theta_inc_single_pilot)
  have e: "mat_equaled single_pilot_config data_symbol_tag 8 drifted_state 0 = 1"
    by (simp add: mat_equaled_def single_pilot_config_def example_config_def drifted_state_def
        example_state_def)
  have t: "cur_theta single_pilot_config data_symbol_tag drifted_state 0 = pi / 2"
    unfolding cur_theta_def i
    by (simp add: theta_mat_def drifted_state_def example_state_def)
  have "mat_equaled single_pilot_config data_symbol_tag 8
        (phase_tracker single_pilot_config data_symbol_tag 8 drifted_state) 0
      = mat_equaled single_pilot_config data_symbol_tag 8 drifted_state 0
          * exp (- (\<i> * complex_of_real (cur_theta single_pilot_config data_symbol_tag drifted_state 0)))"
    by (rule phase_tracker_correction)
       (simp_all add: single_pilot_config_def example_config_def data_symbol_tag_def symbol_idx_ul_def)
  also have "\<dots> = - \<i>"
    unfolding e t using cis_minus_pi_half by (simp add: cis_conv_exp)
  finally show ?thesis using p i e by simp
qed

text \<open>
  Claim C7, amended. A single pilot symbol gives a zero average increment. With a
  zero average increment the correction multiplies the equalized value of user \<open>u\<close>
  by \<open>exp (- \<i> * theta 0)\<close>, the same rotation for every data symbol, where
  \<open>theta 0\<close> is the angle of the first pilot accumulator of \<open>u\<close>; the corrected value is
  the uncorrected one when this angle is zero as well.
\<close>

theorem C7_zero_increment:
  assumes "ClientUlPilotSymbols c \<le> symbol_idx_ul c tag"
    and "0 < ClientUlPilotSymbols c"
    and "u < UeNum c"
  shows "(ClientUlPilotSymbols c = 1 \<longrightarrow> theta_inc c tag s u = 0)
     \<and> (theta_inc c tag s u = 0 \<longrightarrow>
          mat_equaled c tag cur_sc_id (phase_tracker c tag cur_sc_id s) u
          = mat_equaled c tag cur_sc_id s u
            * exp (- (\<i> * complex_of_real
                 (Arg (ue_spec_pilot_buffer s (frame_id tag mod kFrameWnd c) u)))))
     \<and> (theta_inc c tag s u = 0
          \<and> Arg (ue_spec_pilot_buffer s (frame_id tag mod kFrameWnd c) u) = 0 \<longrightarrow>
          mat_equaled c tag cur_sc_id (phase_tracker c tag cur_sc_id s) u
          = mat_equaled c tag cur_sc_id s u)"
proof -
  have r: "mat_equaled c tag cur_sc_id (phase_tracker c tag cur_sc_id s) u
       = mat_equaled c tag cur_sc_id s u * exp (- (\<i> * complex_of_real (cur_theta c tag s u)))"
    using assms by (rule phase_tracker_correction)
  have z: "theta_inc c tag s u = 0 \<Longrightarrow>
      cur_theta c tag s u = Arg (ue_spec_pilot_buffer s (frame_id tag mod kFrameWnd c) u)"
    by (simp add: cur_theta_def theta_mat_def)
  show ?thesis using r z by (auto simp: theta_inc_single_pilot)
qed

theorem C7_zero_increment_witness:
  "ClientUlPilotSymbols single_pilot_config \<le> symbol_idx_ul single_pilot_config data_symbol_tag
   \<and> 0 < ClientUlPilotSymbols single_pilot_config
   \<and> (0::nat) < UeNum single_pilot_config
   \<and> ClientUlPilotSymbols single_pilot_config = 1
   \<and> theta_inc single_pilot_config data_symbol_tag drifted_state 0 = 0
   \<and> mat_equaled single_pilot_config data_symbol_tag 8
        (phase_tracker single_pilot_config data_symbol_tag 8 drifted_state) 0
      = mat_equaled single_pilot_config data_symbol_tag 8 drifted_state 0
        * exp (- (\<i> * complex_of_real (pi / 2)))
   \<and> Arg (ue_spec_pilot_buffer example_state (frame_id data_symbol_tag mod kFrameWnd single_pilot_config) 0) = 0
   \<and> mat_equaled single_pilot_config data_symbol_tag 8
        (phase_tracker single_pilot_config data_symbol_tag 8 example_state) 0
      = mat_equaled single_pilot_config data_symbol_tag 8 example_state 0"
proof -
  have h: "ClientUlPilotSymbols single_pilot_config \<le> symbol_idx_ul single_pilot_config data_symbol_tag"
    "0 < ClientUlPilotSymbols single_pilot_config"
    "(0::nat) < UeNum single_pilot_config"
    and p: "ClientUlPilotSymbols single_pilot_config = 1"
    by (simp_all add: single_pilot_config_def example_config_def data_symbol_tag_def symbol_idx_ul_def)
  have a: "Arg (ue_spec_pilot_buffer drifted_state (frame_id data_symbol_tag mod kFrameWnd single_pilot_config) 0) = pi / 2"
    by (simp add: drifted_state_def example_state_def)
  have b: "Arg (ue_spec_pilot_buffer example_state (frame_id data_symbol_tag mod kFrameWnd single_pilot_config) 0) = 0"
    by (simp add: example_state_def Arg_zero)
  note d = C7_zero_increment [OF h, of drifted_state 8]
  note e = C7_zero_increment [OF h, of example_state 8]
  have i1: "theta_inc single_pilot_config data_symbol_tag drifted_state 0 = 0" using d p by blast
  have i2: "theta_inc single_pilot_config data_symbol_tag example_state 0 = 0" using e p by blast
  have c1: "mat_equaled single_pilot_config data_symbol_tag 8
        (phase_tracker single_pilot_config data_symbol_tag 8 drifted_state) 0
      = mat_equaled single_pilot_config data_symbol_tag 8 drifted_state 0
        * exp (- (\<i> * complex_of_real (pi / 2)))"
    using d i1 unfolding a by blast
  have c2: "mat_equaled single_pilot_config data_symbol_tag 8
        (phase_tracker single_pilot_config data_symbol_tag 8 example_state) 0
      = mat_equaled single_pilot_config data_symbol_tag 8 example_state 0"
    using e i2 b by blast
  from h p i1 c1 b c2 show ?thesis by blast
qed

theorem C4_phase_correction_witness:
  "ClientUlPilotSymbols two_pilot_config \<le> symbol_idx_ul two_pilot_config data_symbol_tag
   \<and> 0 < ClientUlPilotSymbols two_pilot_config
   \<and> ClientUlPilotSymbols two_pilot_config \<le> 2 ^ 31
   \<and> (1::nat) < UeNum two_pilot_config
   \<and> mat_equaled two_pilot_config data_symbol_tag 8
        (phase_tracker two_pilot_config data_symbol_tag 8 two_pilot_state) 1
      = mat_equaled two_pilot_config data_symbol_tag 8 two_pilot_state 1
        * exp (- (\<i> * complex_of_real (- pi / 2 + 2 * pi)))"
proof -
  have h: "ClientUlPilotSymbols two_pilot_config \<le> symbol_idx_ul two_pilot_config data_symbol_tag"
    "0 < ClientUlPilotSymbols two_pilot_config"
    "ClientUlPilotSymbols two_pilot_config \<le> 2 ^ 31"
    "(1::nat) < UeNum two_pilot_config"
    by (simp_all add: two_pilot_config_def example_config_def data_symbol_tag_def symbol_idx_ul_def)
  have v: "ClientUlPilotSymbols two_pilot_config = 2" "UeNum two_pilot_config = 2"
    "symbol_idx_ul two_pilot_config data_symbol_tag = 2"
    by (simp_all add: two_pilot_config_def example_config_def data_symbol_tag_def symbol_idx_ul_def)
  have s: "{1..<2::nat} = {1}" by auto
  have "mat_equaled two_pilot_config data_symbol_tag 8
        (phase_tracker two_pilot_config data_symbol_tag 8 two_pilot_state) 1
      = mat_equaled two_pilot_config data_symbol_tag 8 two_pilot_state 1
        * exp (- (\<i> * complex_of_real (- pi / 2 + 2 * pi)))"
    using C4_phase_correction [OF h, of two_pilot_state 8]
    unfolding Let_def v s by (simp add: two_pilot_state_def example_state_def)
  with h show ?thesis by blast
qed

subsection \<open>The task block and the alignment assertion\<close>

lemma max_sc_ite_aligned:
  assumes "kSCsPerCacheline dvd DemulBlockSize c"
    and "kSCsPerCacheline dvd OfdmDataNum c"
    and "DemulBlockSize c dvd base_sc_id"
  shows "max_sc_ite c base_sc_id mod kSCsPerCacheline = 0"
proof -
  have b: "8 dvd base_sc_id" using assms(1,3) unfolding kSCsPerCacheline_def by (rule dvd_trans)
  have d: "8 dvd OfdmDataNum c" using assms(2) by (simp add: kSCsPerCacheline_def)
  have p: "(8::nat) dvd 2 ^ 64" by simp
  have "8 dvd OfdmDataNum c + 2 ^ 64 - base_sc_id"
    using b d p by (intro dvd_diff_nat dvd_add)
  then have "8 dvd size_t_sub (OfdmDataNum c) base_sc_id"
    unfolding size_t_sub_def using p by (rule dvd_mod)
  then show ?thesis using assms(1)
    by (simp add: max_sc_ite_def kSCsPerCacheline_def min_def dvd_eq_mod_eq_0)
qed

lemma Launch_assert_fails:
  "max_sc_ite c (sc_id tag) mod kSCsPerCacheline \<noteq> 0 \<Longrightarrow> Launch c tag s = Inl AssertionFailed"
  by (simp add: Launch_def Let_def split_def)

lemma Launch_returns:
  "max_sc_ite c (sc_id tag) mod kSCsPerCacheline = 0 \<Longrightarrow>
   \<exists>s'. Launch c tag s = Inr (s', \<lparr>event_type = kDemul, tags = tag\<rparr>)"
  by (simp add: Launch_def Let_def split_def)

text \<open>
  Claim C9. When the block size and the number of data subcarriers are multiples of
  the cache-line width and the base subcarrier of the task is a multiple of the
  block size, the number of subcarriers of the task,
  \<open>min (DemulBlockSize) (OfdmDataNum - base_sc_id)\<close> (the subtraction as the machine
  does it), is a multiple of the cache-line width, and the assertion of
  \<^verbatim>\<open>Launch\<close> does not fail.
\<close>

theorem C9_alignment_assertion:
  assumes "kSCsPerCacheline dvd DemulBlockSize c"
    and "kSCsPerCacheline dvd OfdmDataNum c"
    and "DemulBlockSize c dvd sc_id tag"
  shows "max_sc_ite c (sc_id tag) = min (DemulBlockSize c) (size_t_sub (OfdmDataNum c) (sc_id tag))
       \<and> max_sc_ite c (sc_id tag) mod kSCsPerCacheline = 0
       \<and> Launch c tag s \<noteq> Inl AssertionFailed"
proof -
  have m: "max_sc_ite c (sc_id tag) mod kSCsPerCacheline = 0"
    using assms by (rule max_sc_ite_aligned)
  from Launch_returns [OF m, of s] have "Launch c tag s \<noteq> Inl AssertionFailed" by auto
  with m show ?thesis by (simp add: max_sc_ite_def)
qed

theorem C9_alignment_assertion_witness:
  "kSCsPerCacheline dvd DemulBlockSize example_config
   \<and> kSCsPerCacheline dvd OfdmDataNum example_config
   \<and> DemulBlockSize example_config dvd sc_id example_tag
   \<and> max_sc_ite example_config (sc_id example_tag) = 8
   \<and> max_sc_ite example_config (sc_id example_tag) mod kSCsPerCacheline = 0
   \<and> Launch example_config example_tag example_state \<noteq> Inl AssertionFailed"
proof -
  have h1: "kSCsPerCacheline dvd DemulBlockSize example_config"
    and h2: "kSCsPerCacheline dvd OfdmDataNum example_config"
    and h3: "DemulBlockSize example_config dvd sc_id example_tag"
    by (simp_all add: example_config_def example_tag_def kSCsPerCacheline_def)
  have v: "max_sc_ite example_config (sc_id example_tag) = 8"
    by (simp add: example_config_def example_tag_def max_sc_ite_def size_t_sub_def)
  from C9_alignment_assertion [OF h1 h2 h3, of example_state] h1 h2 h3 v show ?thesis by simp
qed

subsection \<open>The clock and the counters\<close>

lemma WorkerRdtsc_fields [simp]:
  "data_buffer (snd (WorkerRdtsc s)) = data_buffer s"
  "ul_zf_matrices (snd (WorkerRdtsc s)) = ul_zf_matrices s"
  "ue_spec_pilot_buffer (snd (WorkerRdtsc s)) = ue_spec_pilot_buffer s"
  "equal_buffer (snd (WorkerRdtsc s)) = equal_buffer s"
  "demod_buffers (snd (WorkerRdtsc s)) = demod_buffers s"
  "ue_pilot_data (snd (WorkerRdtsc s)) = ue_pilot_data s"
  "data_gather_buffer (snd (WorkerRdtsc s)) = data_gather_buffer s"
  "equaled_buffer_temp (snd (WorkerRdtsc s)) = equaled_buffer_temp s"
  "equaled_buffer_temp_transposed (snd (WorkerRdtsc s)) = equaled_buffer_temp_transposed s"
  "task_duration (snd (WorkerRdtsc s)) = task_duration s"
  "task_count (snd (WorkerRdtsc s)) = task_count s"
  "phy_stats (snd (WorkerRdtsc s)) = phy_stats s"
  "stdout (snd (WorkerRdtsc s)) = stdout s"
  "tsc (snd (WorkerRdtsc s)) = tsc s"
  by (simp_all add: WorkerRdtsc_def)

lemma add_task_duration_fields [simp]:
  "data_buffer (add_task_duration k t s) = data_buffer s"
  "ul_zf_matrices (add_task_duration k t s) = ul_zf_matrices s"
  "ue_spec_pilot_buffer (add_task_duration k t s) = ue_spec_pilot_buffer s"
  "equal_buffer (add_task_duration k t s) = equal_buffer s"
  "demod_buffers (add_task_duration k t s) = demod_buffers s"
  "ue_pilot_data (add_task_duration k t s) = ue_pilot_data s"
  "data_gather_buffer (add_task_duration k t s) = data_gather_buffer s"
  "equaled_buffer_temp (add_task_duration k t s) = equaled_buffer_temp s"
  "equaled_buffer_temp_transposed (add_task_duration k t s) = equaled_buffer_temp_transposed s"
  "task_count (add_task_duration k t s) = task_count s"
  "phy_stats (add_task_duration k t s) = phy_stats s"
  "stdout (add_task_duration k t s) = stdout s"
  "tsc (add_task_duration k t s) = tsc s"
  "tsc_reads (add_task_duration k t s) = tsc_reads s"
  by (simp_all add: add_task_duration_def)

lemma add_task_duration_other:
  "j \<noteq> k \<Longrightarrow> task_duration (add_task_duration k t s) j = task_duration s j"
  by (simp add: add_task_duration_def)

subsection \<open>The loop over the users\<close>

lemma transpose_ue_fields [simp]:
  "data_buffer (transpose_ue c tag i s) = data_buffer s"
  "ul_zf_matrices (transpose_ue c tag i s) = ul_zf_matrices s"
  "ue_spec_pilot_buffer (transpose_ue c tag i s) = ue_spec_pilot_buffer s"
  "equal_buffer (transpose_ue c tag i s) = equal_buffer s"
  "demod_buffers (transpose_ue c tag i s) = demod_buffers s"
  "ue_pilot_data (transpose_ue c tag i s) = ue_pilot_data s"
  "data_gather_buffer (transpose_ue c tag i s) = data_gather_buffer s"
  "equaled_buffer_temp (transpose_ue c tag i s) = equaled_buffer_temp s"
  "task_duration (transpose_ue c tag i s) = task_duration s"
  "task_count (transpose_ue c tag i s) = task_count s"
  "phy_stats (transpose_ue c tag i s) = phy_stats s"
  "stdout (transpose_ue c tag i s) = stdout s"
  "tsc (transpose_ue c tag i s) = tsc s"
  "tsc_reads (transpose_ue c tag i s) = tsc_reads s"
  by (simp_all add: transpose_ue_def Let_def split_def)

lemma demod_switch_unsupported:
  assumes "ModOrderBits c \<noteq> kQpsk c" "ModOrderBits c \<noteq> kQaM16 c" "ModOrderBits c \<noteq> kQaM64 c"
  shows "demod_switch c tag i s = s\<lparr>stdout := stdout s @ [ModulationNotSupported (Modulation c)]\<rparr>"
  using assms by (simp add: demod_switch_def)

lemma demul_users_unsupported_fields:
  assumes "ModOrderBits c \<noteq> kQpsk c" "ModOrderBits c \<noteq> kQaM16 c" "ModOrderBits c \<noteq> kQaM64 c"
  shows "demod_buffers (demul_users c tag s) = demod_buffers s"
    and "ue_spec_pilot_buffer (demul_users c tag s) = ue_spec_pilot_buffer s"
    and "equal_buffer (demul_users c tag s) = equal_buffer s"
    and "equaled_buffer_temp (demul_users c tag s) = equaled_buffer_temp s"
    and "data_gather_buffer (demul_users c tag s) = data_gather_buffer s"
    and "task_duration (demul_users c tag s) = task_duration s"
    and "task_count (demul_users c tag s) = task_count s"
    and "phy_stats (demul_users c tag s) = phy_stats s"
    and "tsc (demul_users c tag s) = tsc s"
    and "tsc_reads (demul_users c tag s) = tsc_reads s"
  unfolding demul_users_def
  by (rule for_loop_preserves, simp add: demod_ue_def demod_switch_unsupported [OF assms])+

lemma demul_users_unsupported_stdout:
  assumes "ModOrderBits c \<noteq> kQpsk c" "ModOrderBits c \<noteq> kQaM16 c" "ModOrderBits c \<noteq> kQaM64 c"
  shows "stdout (demul_users c tag s)
       = stdout s @ replicate (UeNum c) (ModulationNotSupported (Modulation c))"
proof -
  define P where "P = (\<lambda>k (t::demul_state). stdout t = stdout s @ replicate k (ModulationNotSupported (Modulation c)))"
  have "P (UeNum c) (for_loop 0 (UeNum c) 1 (demod_ue c tag) s)"
  proof (rule for_loop_upto_inv [where P = P])
    show "P 0 s" by (simp add: P_def)
    show "0 \<le> UeNum c" by simp
    fix k t assume "P k t"
    then show "P (Suc k) (demod_ue c tag k t)"
      by (simp add: P_def demod_ue_def demod_switch_unsupported [OF assms] replicate_append_same)
  qed
  then show ?thesis by (simp add: P_def demul_users_def)
qed

subsection \<open>The task as a whole\<close>

lemma Launch_unfold:
  "Launch c tag s =
     (if max_sc_ite c (sc_id tag) mod kSCsPerCacheline \<noteq> 0 then Inl AssertionFailed
      else Inr (Launch_state c tag s, \<lparr>event_type = kDemul, tags = tag\<rparr>))"
  by (simp add: Launch_def Launch_state_def Let_def split_def)

subsection \<open>The loop over the cache lines\<close>

lemma set_mat_equaled_fields [simp]:
  "data_buffer (set_mat_equaled c tag cur v s) = data_buffer s"
  "ul_zf_matrices (set_mat_equaled c tag cur v s) = ul_zf_matrices s"
  "demod_buffers (set_mat_equaled c tag cur v s) = demod_buffers s"
  "ue_pilot_data (set_mat_equaled c tag cur v s) = ue_pilot_data s"
  "data_gather_buffer (set_mat_equaled c tag cur v s) = data_gather_buffer s"
  "equaled_buffer_temp_transposed (set_mat_equaled c tag cur v s) = equaled_buffer_temp_transposed s"
  "task_duration (set_mat_equaled c tag cur v s) = task_duration s"
  "task_count (set_mat_equaled c tag cur v s) = task_count s"
  "phy_stats (set_mat_equaled c tag cur v s) = phy_stats s"
  "stdout (set_mat_equaled c tag cur v s) = stdout s"
  "tsc (set_mat_equaled c tag cur v s) = tsc s"
  "tsc_reads (set_mat_equaled c tag cur v s) = tsc_reads s"
  by (simp_all add: set_mat_equaled_def)

lemma phase_tracker_fields [simp]:
  "data_buffer (phase_tracker c tag cur s) = data_buffer s"
  "ul_zf_matrices (phase_tracker c tag cur s) = ul_zf_matrices s"
  "demod_buffers (phase_tracker c tag cur s) = demod_buffers s"
  "ue_pilot_data (phase_tracker c tag cur s) = ue_pilot_data s"
  "data_gather_buffer (phase_tracker c tag cur s) = data_gather_buffer s"
  "equaled_buffer_temp_transposed (phase_tracker c tag cur s) = equaled_buffer_temp_transposed s"
  "task_duration (phase_tracker c tag cur s) = task_duration s"
  "task_count (phase_tracker c tag cur s) = task_count s"
  "stdout (phase_tracker c tag cur s) = stdout s"
  "tsc (phase_tracker c tag cur s) = tsc s"
  "tsc_reads (phase_tracker c tag cur s) = tsc_reads s"
  by (simp_all add: phase_tracker_def calc_phase_shift_def apply_phase_shift_def Let_def)

lemma equalize_sc_fields [simp]:
  "data_buffer (equalize_sc c tag i j s) = data_buffer s"
  "ul_zf_matrices (equalize_sc c tag i j s) = ul_zf_matrices s"
  "demod_buffers (equalize_sc c tag i j s) = demod_buffers s"
  "ue_pilot_data (equalize_sc c tag i j s) = ue_pilot_data s"
  "data_gather_buffer (equalize_sc c tag i j s) = data_gather_buffer s"
  "equaled_buffer_temp_transposed (equalize_sc c tag i j s) = equaled_buffer_temp_transposed s"
  "stdout (equalize_sc c tag i j s) = stdout s"
  "tsc (equalize_sc c tag i j s) = tsc s"
  "task_count (equalize_sc c tag i j s) = task_count s + 1"
  by (simp_all add: equalize_sc_def Let_def split_def)

lemma gather_step_fields [simp]:
  "data_buffer (gather_step c tag i s) = data_buffer s"
  "ul_zf_matrices (gather_step c tag i s) = ul_zf_matrices s"
  "ue_spec_pilot_buffer (gather_step c tag i s) = ue_spec_pilot_buffer s"
  "equal_buffer (gather_step c tag i s) = equal_buffer s"
  "demod_buffers (gather_step c tag i s) = demod_buffers s"
  "ue_pilot_data (gather_step c tag i s) = ue_pilot_data s"
  "equaled_buffer_temp (gather_step c tag i s) = equaled_buffer_temp s"
  "equaled_buffer_temp_transposed (gather_step c tag i s) = equaled_buffer_temp_transposed s"
  "task_count (gather_step c tag i s) = task_count s"
  "phy_stats (gather_step c tag i s) = phy_stats s"
  "stdout (gather_step c tag i s) = stdout s"
  "tsc (gather_step c tag i s) = tsc s"
  by (simp_all add: gather_step_def Let_def split_def)

lemma cacheline_fields [simp]:
  "data_buffer (cacheline c tag i s) = data_buffer s"
  "ul_zf_matrices (cacheline c tag i s) = ul_zf_matrices s"
  "demod_buffers (cacheline c tag i s) = demod_buffers s"
  "ue_pilot_data (cacheline c tag i s) = ue_pilot_data s"
  "equaled_buffer_temp_transposed (cacheline c tag i s) = equaled_buffer_temp_transposed s"
  "stdout (cacheline c tag i s) = stdout s"
  "tsc (cacheline c tag i s) = tsc s"
  unfolding cacheline_def
  by (subst for_loop_preserves, simp, simp)+

lemma demul_cachelines_fields [simp]:
  "data_buffer (demul_cachelines c tag s) = data_buffer s"
  "ul_zf_matrices (demul_cachelines c tag s) = ul_zf_matrices s"
  "demod_buffers (demul_cachelines c tag s) = demod_buffers s"
  "ue_pilot_data (demul_cachelines c tag s) = ue_pilot_data s"
  "equaled_buffer_temp_transposed (demul_cachelines c tag s) = equaled_buffer_temp_transposed s"
  "stdout (demul_cachelines c tag s) = stdout s"
  "tsc (demul_cachelines c tag s) = tsc s"
  unfolding demul_cachelines_def
  by (rule for_loop_preserves, simp)+

lemma cacheline_task_count:
  "task_count (cacheline c tag i s) = task_count s + of_nat kSCsPerCacheline"
proof -
  define P where "P = (\<lambda>k (t::demul_state). task_count t = task_count s + of_nat k)"
  have "P kSCsPerCacheline (for_loop 0 kSCsPerCacheline 1 (equalize_sc c tag i) (gather_step c tag i s))"
  proof (rule for_loop_upto_inv [where P = P])
    show "P 0 (gather_step c tag i s)" by (simp add: P_def)
    show "0 \<le> kSCsPerCacheline" by simp
    fix k t assume "P k t"
    then show "P (Suc k) (equalize_sc c tag i k t)" by (simp add: P_def)
  qed
  then show ?thesis by (simp add: P_def cacheline_def)
qed

lemma demul_cachelines_task_count:
  assumes "max_sc_ite c (sc_id tag) mod kSCsPerCacheline = 0"
  shows "task_count (demul_cachelines c tag s) = task_count s + of_nat (max_sc_ite c (sc_id tag))"
proof -
  obtain m where m: "max_sc_ite c (sc_id tag) = m * kSCsPerCacheline"
    using assms by (auto simp: mod_eq_0_iff_dvd dvd_def mult.commute)
  define P where "P = (\<lambda>k (t::demul_state). task_count t = task_count s + of_nat (k * kSCsPerCacheline))"
  have "P m (for_loop 0 (m * kSCsPerCacheline) kSCsPerCacheline (cacheline c tag) s)"
  proof (rule for_loop_stride_inv [where P = P])
    show "P 0 s" by (simp add: P_def)
    show "0 < kSCsPerCacheline" by (simp add: kSCsPerCacheline_def)
    fix k t assume "P k t"
    then show "P (Suc k) (cacheline c tag (k * kSCsPerCacheline) t)"
      by (simp add: P_def cacheline_task_count algebra_simps)
  qed
  then show ?thesis by (simp add: P_def demul_cachelines_def m)
qed

subsection \<open>An unsupported modulation order\<close>

lemma Launch_unsupported:
  assumes "ModOrderBits c \<noteq> kQpsk c" "ModOrderBits c \<noteq> kQaM16 c" "ModOrderBits c \<noteq> kQaM64 c"
  shows "demod_buffers (Launch_state c tag s) = demod_buffers s"
    and "stdout (Launch_state c tag s)
         = stdout (debug_print_in_task c tag s)
           @ replicate (UeNum c) (ModulationNotSupported (Modulation c))"
  by (simp_all add: Launch_state_def Let_def demul_users_unsupported_fields [OF assms]
      demul_users_unsupported_stdout [OF assms] debug_print_in_task_def)

text \<open>
  Claim C3 says that a modulation order that is none of QPSK, 16-QAM and 64-QAM
  stops the task with a fatal error. With \<^verbatim>\<open>ModOrderBits() = 3\<close> the task is not
  stopped: it returns the completion event \<^verbatim>\<open>kDemul\<close> with its tag.
\<close>

theorem C3_counterexample:
  "ModOrderBits unsupported_config \<noteq> kQpsk unsupported_config
   \<and> ModOrderBits unsupported_config \<noteq> kQaM16 unsupported_config
   \<and> ModOrderBits unsupported_config \<noteq> kQaM64 unsupported_config
   \<and> \<not> isl (Launch unsupported_config example_tag example_state)
   \<and> snd (projr (Launch unsupported_config example_tag example_state))
       = \<lparr>event_type = kDemul, tags = example_tag\<rparr>"
proof -
  have "max_sc_ite unsupported_config (sc_id example_tag) mod kSCsPerCacheline = 0"
    by (simp add: unsupported_config_def example_config_def example_tag_def max_sc_ite_def
        size_t_sub_def kSCsPerCacheline_def)
  then have "Launch unsupported_config example_tag example_state
      = Inr (Launch_state unsupported_config example_tag example_state,
             \<lparr>event_type = kDemul, tags = example_tag\<rparr>)"
    by (simp add: Launch_unfold)
  then show ?thesis by (simp add: unsupported_config_def example_config_def)
qed

text \<open>
  Claim C3, amended. When the modulation order is none of QPSK, 16-QAM and 64-QAM
  (and the block is aligned, so that the assertion holds), the task is not stopped:
  it prints ``modulation type not supported'' once per user and returns the
  completion event \<^verbatim>\<open>kDemul\<close> with its tag. It writes no LLR byte: the buffer is
  neither zero-filled nor partly written, it keeps the contents it had.
\<close>

theorem C3_unsupported_modulation_logs:
  assumes "ModOrderBits c \<noteq> kQpsk c" "ModOrderBits c \<noteq> kQaM16 c" "ModOrderBits c \<noteq> kQaM64 c"
    and "max_sc_ite c (sc_id tag) mod kSCsPerCacheline = 0"
  shows "\<exists>s'. Launch c tag s = Inr (s', \<lparr>event_type = kDemul, tags = tag\<rparr>)
          \<and> stdout s' = stdout (debug_print_in_task c tag s)
                          @ replicate (UeNum c) (ModulationNotSupported (Modulation c))
          \<and> demod_buffers s' = demod_buffers s"
  using assms(4) Launch_unsupported [OF assms(1-3)] by (simp add: Launch_unfold)

theorem C3_unsupported_modulation_logs_witness:
  "ModOrderBits unsupported_config \<noteq> kQpsk unsupported_config
   \<and> ModOrderBits unsupported_config \<noteq> kQaM16 unsupported_config
   \<and> ModOrderBits unsupported_config \<noteq> kQaM64 unsupported_config
   \<and> max_sc_ite unsupported_config (sc_id example_tag) mod kSCsPerCacheline = 0
   \<and> (\<exists>s'. Launch unsupported_config example_tag example_state
              = Inr (s', \<lparr>event_type = kDemul, tags = example_tag\<rparr>)
          \<and> stdout s' = [ModulationNotSupported ''8PSK'', ModulationNotSupported ''8PSK'']
          \<and> demod_buffers s' = (\<lambda>slot idx ue k. 0))"
proof -
  have h: "ModOrderBits unsupported_config \<noteq> kQpsk unsupported_config"
    "ModOrderBits unsupported_config \<noteq> kQaM16 unsupported_config"
    "ModOrderBits unsupported_config \<noteq> kQaM64 unsupported_config"
    "max_sc_ite unsupported_config (sc_id example_tag) mod kSCsPerCacheline = 0"
    by (simp_all add: unsupported_config_def example_config_def example_tag_def max_sc_ite_def
        size_t_sub_def kSCsPerCacheline_def)
  have v: "stdout (debug_print_in_task unsupported_config example_tag example_state)
         @ replicate (UeNum unsupported_config) (ModulationNotSupported (Modulation unsupported_config))
       = [ModulationNotSupported ''8PSK'', ModulationNotSupported ''8PSK'']"
    "demod_buffers example_state = (\<lambda>slot idx ue k. 0)"
    by (simp_all add: debug_print_in_task_def unsupported_config_def example_config_def
        example_state_def numeral_2_eq_2)
  from C3_unsupported_modulation_logs [OF h, of example_state] h show ?thesis
    unfolding v by blast
qed

text \<open>
  Claim C10. When the modulation order matches no kernel (and the block is aligned,
  so that the assertion holds), \<^verbatim>\<open>Launch\<close> returns the completion event
  \<^verbatim>\<open>kDemul\<close> with the tag it was given and leaves every LLR buffer as it was,
  while the effects of the earlier stages stay: the gather buffer, the equalized
  samples, the pilot accumulators, the statistics calls and the counters of steps 1
  and 2 are those of the state after the loop over the cache lines, and the task
  counter has advanced by the number of subcarriers of the task.
\<close>

theorem C10_unsupported_modulation_completes:
  assumes "ModOrderBits c \<noteq> kQpsk c" "ModOrderBits c \<noteq> kQaM16 c" "ModOrderBits c \<noteq> kQaM64 c"
    and "max_sc_ite c (sc_id tag) mod kSCsPerCacheline = 0"
  shows "\<exists>s'. Launch c tag s = Inr (s', \<lparr>event_type = kDemul, tags = tag\<rparr>)
          \<and> demod_buffers s' = demod_buffers s
          \<and> task_count s' = task_count s + of_nat (max_sc_ite c (sc_id tag))
          \<and> (let s1 = demul_cachelines c tag (debug_print_in_task c tag (snd (WorkerRdtsc s)))
              in data_gather_buffer s' = data_gather_buffer s1
               \<and> equal_buffer s' = equal_buffer s1
               \<and> equaled_buffer_temp s' = equaled_buffer_temp s1
               \<and> ue_spec_pilot_buffer s' = ue_spec_pilot_buffer s1
               \<and> phy_stats s' = phy_stats s1
               \<and> task_count s' = task_count s1
               \<and> task_duration s' 1 = task_duration s1 1
               \<and> task_duration s' 2 = task_duration s1 2)"
proof -
  let ?s1 = "demul_cachelines c tag (debug_print_in_task c tag (snd (WorkerRdtsc s)))"
  let ?s' = "Launch_state c tag s"
  note u = demul_users_unsupported_fields [OF assms(1-3)]
  have l: "Launch c tag s = Inr (?s', \<lparr>event_type = kDemul, tags = tag\<rparr>)"
    using assms(4) by (simp add: Launch_unfold)
  have d: "demod_buffers ?s' = demod_buffers s"
    by (rule Launch_unsupported(1) [OF assms(1-3)])
  have f: "data_gather_buffer ?s' = data_gather_buffer ?s1"
    "equal_buffer ?s' = equal_buffer ?s1"
    "equaled_buffer_temp ?s' = equaled_buffer_temp ?s1"
    "ue_spec_pilot_buffer ?s' = ue_spec_pilot_buffer ?s1"
    "phy_stats ?s' = phy_stats ?s1"
    "task_count ?s' = task_count ?s1"
    by (simp_all add: Launch_state_def Let_def u)
  have t: "task_duration ?s' 1 = task_duration ?s1 1" "task_duration ?s' 2 = task_duration ?s1 2"
    by (simp_all add: Launch_state_def Let_def u add_task_duration_other)
  have "task_count ?s1 = task_count s + of_nat (max_sc_ite c (sc_id tag))"
    by (simp add: demul_cachelines_task_count [OF assms(4)] debug_print_in_task_def)
  then have n: "task_count ?s' = task_count s + of_nat (max_sc_ite c (sc_id tag))"
    using f(6) by simp
  show ?thesis unfolding Let_def using l d f t n by blast
qed

theorem C10_unsupported_modulation_completes_witness:
  "ModOrderBits unsupported_config \<noteq> kQpsk unsupported_config
   \<and> ModOrderBits unsupported_config \<noteq> kQaM16 unsupported_config
   \<and> ModOrderBits unsupported_config \<noteq> kQaM64 unsupported_config
   \<and> max_sc_ite unsupported_config (sc_id example_tag) mod kSCsPerCacheline = 0
   \<and> (\<exists>s'. Launch unsupported_config example_tag example_state
              = Inr (s', \<lparr>event_type = kDemul, tags = example_tag\<rparr>)
          \<and> demod_buffers s' = demod_buffers example_state
          \<and> task_count s' = 8)"
proof -
  have h: "ModOrderBits unsupported_config \<noteq> kQpsk unsupported_config"
    "ModOrderBits unsupported_config \<noteq> kQaM16 unsupported_config"
    "ModOrderBits unsupported_config \<noteq> kQaM64 unsupported_config"
    "max_sc_ite unsupported_config (sc_id example_tag) mod kSCsPerCacheline = 0"
    by (simp_all add: unsupported_config_def example_config_def example_tag_def max_sc_ite_def
        size_t_sub_def kSCsPerCacheline_def)
  have v: "task_count example_state + of_nat (max_sc_ite unsupported_config (sc_id example_tag)) = 8"
    by (simp add: unsupported_config_def example_config_def example_tag_def max_sc_ite_def
        size_t_sub_def example_state_def)
  from C10_unsupported_modulation_completes [OF h, of example_state] h show ?thesis
    unfolding v by blast
qed

subsection \<open>Pilot tasks add to the accumulators of their slot\<close>

lemma add_to_clear_slot: "add_to_slot slot (ue_spec_pilot_buffer s slot) (clear_slot slot s) = s"
  by (simp add: add_to_slot_def clear_slot_def)

lemma WorkerRdtsc_add_to_slot:
  "WorkerRdtsc (add_to_slot slot d s) = (fst (WorkerRdtsc s), add_to_slot slot d (snd (WorkerRdtsc s)))"
  by (simp add: WorkerRdtsc_def add_to_slot_def)

lemma add_task_duration_add_to_slot:
  "add_task_duration k t (add_to_slot slot d s) = add_to_slot slot d (add_task_duration k t s)"
  by (simp add: add_task_duration_def add_to_slot_def)

lemma debug_print_add_to_slot:
  "debug_print_in_task c tag (add_to_slot slot d s) = add_to_slot slot d (debug_print_in_task c tag s)"
  by (simp add: debug_print_in_task_def add_to_slot_def)

lemma gather_step_add_to_slot:
  "gather_step c tag i (add_to_slot slot d s) = add_to_slot slot d (gather_step c tag i s)"
  by (simp add: gather_step_def Let_def split_def WorkerRdtsc_def add_task_duration_def
      add_to_slot_def)

lemma mat_equaled_add_to_slot [simp]:
  "mat_equaled c tag cur (add_to_slot slot d s) = mat_equaled c tag cur s"
  by (rule mat_equaled_cong) (simp_all add: add_to_slot_def)

lemma set_mat_equaled_add_to_slot:
  "set_mat_equaled c tag cur v (add_to_slot slot d s) = add_to_slot slot d (set_mat_equaled c tag cur v s)"
  by (simp add: set_mat_equaled_def add_to_slot_def)

lemma store_vec_add:
  "store_vec (\<lambda>k. b k + d k) off n (\<lambda>u. b (off + u) + (d (off + u) + v u))
     = (\<lambda>k. store_vec b off n (\<lambda>u. b (off + u) + v u) k + (d k :: complex))"
  by (rule ext) (simp add: store_vec_def ac_simps)

lemma calc_phase_shift_add_to_slot:
  assumes "frame_id tag mod kFrameWnd c = slot"
    and "size_t_sub (frame_id tag) 1 mod kFrameWnd c \<noteq> slot"
  shows "calc_phase_shift c tag cur (add_to_slot slot d s) = add_to_slot slot d (calc_phase_shift c tag cur s)"
proof (rule demul_state.equality)
  show "ue_spec_pilot_buffer (calc_phase_shift c tag cur (add_to_slot slot d s))
      = ue_spec_pilot_buffer (add_to_slot slot d (calc_phase_shift c tag cur s))"
    using assms
    by (auto simp add: calc_phase_shift_def Let_def add_to_slot_def mat_equaled_def
        store_vec_def fun_eq_iff ac_simps cong: if_cong)
qed (simp_all add: calc_phase_shift_def Let_def add_to_slot_def)

lemma add_to_slot_fields [simp]:
  "data_buffer (add_to_slot slot d s) = data_buffer s"
  "ul_zf_matrices (add_to_slot slot d s) = ul_zf_matrices s"
  "equal_buffer (add_to_slot slot d s) = equal_buffer s"
  "demod_buffers (add_to_slot slot d s) = demod_buffers s"
  "ue_pilot_data (add_to_slot slot d s) = ue_pilot_data s"
  "data_gather_buffer (add_to_slot slot d s) = data_gather_buffer s"
  "equaled_buffer_temp (add_to_slot slot d s) = equaled_buffer_temp s"
  "equaled_buffer_temp_transposed (add_to_slot slot d s) = equaled_buffer_temp_transposed s"
  "task_duration (add_to_slot slot d s) = task_duration s"
  "task_count (add_to_slot slot d s) = task_count s"
  "phy_stats (add_to_slot slot d s) = phy_stats s"
  "stdout (add_to_slot slot d s) = stdout s"
  "tsc (add_to_slot slot d s) = tsc s"
  "tsc_reads (add_to_slot slot d s) = tsc_reads s"
  by (simp_all add: add_to_slot_def)

lemma task_count_add_to_slot:
  "(add_to_slot slot d s)\<lparr>task_count := n\<rparr> = add_to_slot slot d (s\<lparr>task_count := n\<rparr>)"
  by (simp add: add_to_slot_def)

lemma equalize_sc_add_to_slot:
  assumes "frame_id tag mod kFrameWnd c = slot"
    and "size_t_sub (frame_id tag) 1 mod kFrameWnd c \<noteq> slot"
    and "symbol_idx_ul c tag < ClientUlPilotSymbols c"
  shows "equalize_sc c tag i j (add_to_slot slot d s) = add_to_slot slot d (equalize_sc c tag i j s)"
  using assms(3)
  by (simp add: equalize_sc_def Let_def split_def WorkerRdtsc_add_to_slot
      set_mat_equaled_add_to_slot phase_tracker_def calc_phase_shift_add_to_slot [OF assms(1,2)]
      add_task_duration_add_to_slot task_count_add_to_slot)

lemma cacheline_add_to_slot:
  assumes "frame_id tag mod kFrameWnd c = slot"
    and "size_t_sub (frame_id tag) 1 mod kFrameWnd c \<noteq> slot"
    and "symbol_idx_ul c tag < ClientUlPilotSymbols c"
  shows "cacheline c tag i (add_to_slot slot d s) = add_to_slot slot d (cacheline c tag i s)"
  unfolding cacheline_def gather_step_add_to_slot
  by (rule for_loop_commute) (rule equalize_sc_add_to_slot [OF assms])

lemma demul_cachelines_add_to_slot:
  assumes "frame_id tag mod kFrameWnd c = slot"
    and "size_t_sub (frame_id tag) 1 mod kFrameWnd c \<noteq> slot"
    and "symbol_idx_ul c tag < ClientUlPilotSymbols c"
  shows "demul_cachelines c tag (add_to_slot slot d s) = add_to_slot slot d (demul_cachelines c tag s)"
  unfolding demul_cachelines_def
  by (rule for_loop_commute) (rule cacheline_add_to_slot [OF assms])

lemma demod_ue_add_to_slot:
  "demod_ue c tag i (add_to_slot slot d s) = add_to_slot slot d (demod_ue c tag i s)"
proof -
  have e: "equal_src c tag (add_to_slot slot d s) = equal_src c tag s"
    by (simp add: equal_src_def)
  have t: "transpose_ue c tag i (add_to_slot slot d s) = add_to_slot slot d (transpose_ue c tag i s)"
    by (simp add: transpose_ue_def Let_def split_def e) (simp add: add_to_slot_def)
  have k: "run_kernel kern c tag i (add_to_slot slot d t) = add_to_slot slot d (run_kernel kern c tag i t)"
    for kern t
    by (simp add: run_kernel_def Let_def) (simp add: add_to_slot_def)
  have "demod_switch c tag i (add_to_slot slot d t) = add_to_slot slot d (demod_switch c tag i t)" for t
    by (simp add: demod_switch_def k) (simp add: add_to_slot_def)
  then show ?thesis by (simp add: demod_ue_def t)
qed

lemma demul_users_add_to_slot:
  "demul_users c tag (add_to_slot slot d s) = add_to_slot slot d (demul_users c tag s)"
  unfolding demul_users_def by (rule for_loop_commute) (rule demod_ue_add_to_slot)

lemma Launch_state_add_to_slot:
  assumes "frame_id tag mod kFrameWnd c = slot"
    and "size_t_sub (frame_id tag) 1 mod kFrameWnd c \<noteq> slot"
    and "symbol_idx_ul c tag < ClientUlPilotSymbols c"
  shows "Launch_state c tag (add_to_slot slot d s) = add_to_slot slot d (Launch_state c tag s)"
  by (simp add: Launch_state_def Let_def WorkerRdtsc_add_to_slot debug_print_add_to_slot
      demul_cachelines_add_to_slot [OF assms] demul_users_add_to_slot
      add_task_duration_add_to_slot)

lemma Launch_add_to_slot:
  assumes "frame_id tag mod kFrameWnd c = slot"
    and "size_t_sub (frame_id tag) 1 mod kFrameWnd c \<noteq> slot"
    and "symbol_idx_ul c tag < ClientUlPilotSymbols c"
  shows "Launch c tag (add_to_slot slot d s)
       = map_sum id (map_prod (add_to_slot slot d) id) (Launch c tag s)"
  by (simp add: Launch_unfold Launch_state_add_to_slot [OF assms])

lemma run_tasks_add_to_slot:
  assumes "\<forall>tag \<in> set tasks. frame_id tag mod kFrameWnd c = slot
             \<and> size_t_sub (frame_id tag) 1 mod kFrameWnd c \<noteq> slot
             \<and> symbol_idx_ul c tag < ClientUlPilotSymbols c"
  shows "run_tasks c tasks (add_to_slot slot d s) = map_sum id (add_to_slot slot d) (run_tasks c tasks s)"
  using assms
proof (induction tasks arbitrary: s)
  case Nil
  then show ?case by simp
next
  case (Cons tag rest)
  then have l: "Launch c tag (add_to_slot slot d s)
       = map_sum id (map_prod (add_to_slot slot d) id) (Launch c tag s)"
    by (intro Launch_add_to_slot) simp_all
  show ?case
  proof (cases "Launch c tag s")
    case (Inl e)
    then show ?thesis using l by simp
  next
    case (Inr r)
    obtain s' ev where r: "r = (s', ev)" by (cases r)
    have "run_tasks c rest (add_to_slot slot d s') = map_sum id (add_to_slot slot d) (run_tasks c rest s')"
      using Cons.prems by (intro Cons.IH) simp
    then show ?thesis using l Inr r by (simp add: id_def)
  qed
qed

subsection \<open>The reset at the first pilot symbol\<close>

lemma wrap_sub_one:
  fixes N M :: nat
  assumes "1 \<le> N" "N < M"
  shows "(N + M - 1) mod M = N - 1"
proof -
  have "N + M - 1 = (N - 1) + M" using assms(1) by simp
  then have "(N + M - 1) mod M = (N - 1) mod M" by simp
  then show ?thesis using assms(2) by simp
qed

lemma size_t_sub_one: "1 \<le> N \<Longrightarrow> N < 2 ^ 64 \<Longrightarrow> size_t_sub N 1 = N - 1"
  unfolding size_t_sub_def by (rule wrap_sub_one)

lemma prev_slot_differs:
  assumes "2 \<le> kFrameWnd c" "1 \<le> N" "N < 2 ^ 64"
  shows "size_t_sub N 1 mod kFrameWnd c \<noteq> N mod kFrameWnd c"
proof
  assume "size_t_sub N 1 mod kFrameWnd c = N mod kFrameWnd c"
  then have "N mod kFrameWnd c = (N - 1) mod kFrameWnd c"
    unfolding size_t_sub_one [OF assms(2,3)] by simp
  then have "kFrameWnd c dvd N - (N - 1)"
    by (subst mod_eq_dvd_iff_nat [symmetric]) simp_all
  then have "kFrameWnd c dvd 1" using assms(2) by simp
  then show False using assms(1) by simp
qed

lemma calc_phase_shift_keeps_zero:
  assumes "size_t_sub (frame_id tag) 1 mod kFrameWnd c \<noteq> frame_id tag mod kFrameWnd c"
    and "prev_slot_zero c (frame_id tag) s"
  shows "prev_slot_zero c (frame_id tag) (calc_phase_shift c tag cur s)"
  using assms by (simp add: prev_slot_zero_def calc_phase_shift_def Let_def store_vec_def)

lemma calc_phase_shift_resets:
  assumes "size_t_sub (frame_id tag) 1 mod kFrameWnd c \<noteq> frame_id tag mod kFrameWnd c"
    and "symbol_idx_ul c tag = 0"
  shows "prev_slot_zero c (frame_id tag) (calc_phase_shift c tag 0 s)"
  using assms by (simp add: prev_slot_zero_def calc_phase_shift_def Let_def store_vec_def)

lemma prev_slot_zero_cong:
  "ue_spec_pilot_buffer t = ue_spec_pilot_buffer s \<Longrightarrow> prev_slot_zero c N t = prev_slot_zero c N s"
  by (simp add: prev_slot_zero_def)

lemma pilot_equalize_sc:
  "symbol_idx_ul c tag < ClientUlPilotSymbols c \<Longrightarrow>
   ue_spec_pilot_buffer (equalize_sc c tag i j s)
     = ue_spec_pilot_buffer (calc_phase_shift c tag (sc_id tag + i + j)
         (set_mat_equaled c tag (sc_id tag + i + j)
            (mat_mult_vec (UeNum c) (BsAntNum c)
               (ul_zf_matrices s (frame_slot c tag) (GetZfScId c (sc_id tag + i + j)))
               (\<lambda>a. data_gather_buffer s (j * BsAntNum c + a)))
            (snd (WorkerRdtsc s))))"
  by (simp add: equalize_sc_def Let_def split_def phase_tracker_def)

lemma equalize_sc_keeps_zero:
  assumes "size_t_sub (frame_id tag) 1 mod kFrameWnd c \<noteq> frame_id tag mod kFrameWnd c"
    and "symbol_idx_ul c tag < ClientUlPilotSymbols c"
    and "prev_slot_zero c (frame_id tag) s"
  shows "prev_slot_zero c (frame_id tag) (equalize_sc c tag i j s)"
proof -
  let ?t = "set_mat_equaled c tag (sc_id tag + i + j)
            (mat_mult_vec (UeNum c) (BsAntNum c)
               (ul_zf_matrices s (frame_slot c tag) (GetZfScId c (sc_id tag + i + j)))
               (\<lambda>a. data_gather_buffer s (j * BsAntNum c + a)))
            (snd (WorkerRdtsc s))"
  have "prev_slot_zero c (frame_id tag) ?t"
    using assms(3) by (simp add: prev_slot_zero_def)
  then have "prev_slot_zero c (frame_id tag) (calc_phase_shift c tag (sc_id tag + i + j) ?t)"
    by (rule calc_phase_shift_keeps_zero [OF assms(1)])
  then show ?thesis
    using pilot_equalize_sc [OF assms(2), of i j s] by (simp add: prev_slot_zero_def)
qed

lemma equalize_sc_resets:
  assumes "size_t_sub (frame_id tag) 1 mod kFrameWnd c \<noteq> frame_id tag mod kFrameWnd c"
    and "symbol_idx_ul c tag = 0" and "0 < ClientUlPilotSymbols c" and "sc_id tag = 0"
  shows "prev_slot_zero c (frame_id tag) (equalize_sc c tag 0 0 s)"
proof -
  have p: "symbol_idx_ul c tag < ClientUlPilotSymbols c" using assms(2,3) by simp
  show ?thesis
    using pilot_equalize_sc [OF p, of 0 0 s] calc_phase_shift_resets [OF assms(1,2)] assms(4)
    by (simp add: prev_slot_zero_def)
qed

lemma cacheline_keeps_zero:
  assumes "size_t_sub (frame_id tag) 1 mod kFrameWnd c \<noteq> frame_id tag mod kFrameWnd c"
    and "symbol_idx_ul c tag < ClientUlPilotSymbols c"
    and "prev_slot_zero c (frame_id tag) s
         \<or> (i = 0 \<and> symbol_idx_ul c tag = 0 \<and> sc_id tag = 0)"
  shows "prev_slot_zero c (frame_id tag) (cacheline c tag i s)"
proof -
  define P where "P = (\<lambda>(k::nat) (t::demul_state).
     prev_slot_zero c (frame_id tag) t \<or> (k = 0 \<and> i = 0 \<and> symbol_idx_ul c tag = 0 \<and> sc_id tag = 0))"
  have "P kSCsPerCacheline (for_loop 0 kSCsPerCacheline 1 (equalize_sc c tag i) (gather_step c tag i s))"
  proof (rule for_loop_upto_inv [where P = P])
    show "P 0 (gather_step c tag i s)"
      using assms(3) by (auto simp add: P_def prev_slot_zero_def)
    show "0 \<le> kSCsPerCacheline" by simp
    fix k t assume "P k t"
    then consider "prev_slot_zero c (frame_id tag) t"
      | "k = 0" "i = 0" "symbol_idx_ul c tag = 0" "sc_id tag = 0"
      by (auto simp: P_def)
    then have "prev_slot_zero c (frame_id tag) (equalize_sc c tag i k t)"
    proof cases
      case 1
      then show ?thesis by (rule equalize_sc_keeps_zero [OF assms(1,2)])
    next
      case 2
      then show ?thesis using equalize_sc_resets [OF assms(1), of t] assms(2) by simp
    qed
    then show "P (Suc k) (equalize_sc c tag i k t)" by (simp add: P_def)
  qed
  then show ?thesis by (simp add: P_def cacheline_def kSCsPerCacheline_def)
qed

lemma demul_cachelines_keeps_zero:
  assumes "size_t_sub (frame_id tag) 1 mod kFrameWnd c \<noteq> frame_id tag mod kFrameWnd c"
    and "symbol_idx_ul c tag < ClientUlPilotSymbols c"
    and "max_sc_ite c (sc_id tag) mod kSCsPerCacheline = 0"
    and "prev_slot_zero c (frame_id tag) s
         \<or> (0 < max_sc_ite c (sc_id tag) \<and> symbol_idx_ul c tag = 0 \<and> sc_id tag = 0)"
  shows "prev_slot_zero c (frame_id tag) (demul_cachelines c tag s)"
proof -
  obtain m where m: "max_sc_ite c (sc_id tag) = m * kSCsPerCacheline"
    using assms(3) by (auto simp: mod_eq_0_iff_dvd dvd_def mult.commute)
  define P where "P = (\<lambda>(k::nat) (t::demul_state).
     prev_slot_zero c (frame_id tag) t \<or> (k = 0 \<and> 0 < m \<and> symbol_idx_ul c tag = 0 \<and> sc_id tag = 0))"
  have "P m (for_loop 0 (m * kSCsPerCacheline) kSCsPerCacheline (cacheline c tag) s)"
  proof (rule for_loop_stride_inv [where P = P])
    show "P 0 s" using assms(4) m by (auto simp add: P_def)
    show "0 < kSCsPerCacheline" by (simp add: kSCsPerCacheline_def)
    fix k t assume "P k t"
    then have "prev_slot_zero c (frame_id tag) t
         \<or> (k * kSCsPerCacheline = 0 \<and> symbol_idx_ul c tag = 0 \<and> sc_id tag = 0)"
      by (auto simp: P_def)
    then have "prev_slot_zero c (frame_id tag) (cacheline c tag (k * kSCsPerCacheline) t)"
      by (rule cacheline_keeps_zero [OF assms(1,2)])
    then show "P (Suc k) (cacheline c tag (k * kSCsPerCacheline) t)" by (simp add: P_def)
  qed
  then have "prev_slot_zero c (frame_id tag) (demul_cachelines c tag s) \<or> m = 0"
    by (auto simp add: P_def demul_cachelines_def m)
  moreover have "m = 0 \<Longrightarrow> demul_cachelines c tag s = s"
    by (simp add: demul_cachelines_def m for_loop_done)
  ultimately show ?thesis using assms(4) m by auto
qed

lemma pilot_demul_users [simp]:
  "ue_spec_pilot_buffer (demul_users c tag s) = ue_spec_pilot_buffer s"
  unfolding demul_users_def
  by (rule for_loop_preserves)
     (simp add: demod_ue_def demod_switch_def run_kernel_def Let_def)

lemma Launch_state_keeps_zero:
  assumes "size_t_sub (frame_id tag) 1 mod kFrameWnd c \<noteq> frame_id tag mod kFrameWnd c"
    and "symbol_idx_ul c tag < ClientUlPilotSymbols c"
    and "max_sc_ite c (sc_id tag) mod kSCsPerCacheline = 0"
    and "prev_slot_zero c (frame_id tag) s
         \<or> (0 < max_sc_ite c (sc_id tag) \<and> symbol_idx_ul c tag = 0 \<and> sc_id tag = 0)"
  shows "prev_slot_zero c (frame_id tag) (Launch_state c tag s)"
proof -
  let ?s0 = "debug_print_in_task c tag (snd (WorkerRdtsc s))"
  have "prev_slot_zero c (frame_id tag) ?s0 = prev_slot_zero c (frame_id tag) s"
    by (rule prev_slot_zero_cong) (simp add: debug_print_in_task_def)
  then have "prev_slot_zero c (frame_id tag) (demul_cachelines c tag ?s0)"
    using assms(4) by (intro demul_cachelines_keeps_zero [OF assms(1-3)]) simp
  moreover have "ue_spec_pilot_buffer (Launch_state c tag s)
      = ue_spec_pilot_buffer (demul_cachelines c tag ?s0)"
    by (simp add: Launch_state_def Let_def)
  ultimately show ?thesis by (simp add: prev_slot_zero_def)
qed

lemma run_tasks_keeps_zero:
  assumes "\<forall>tag \<in> set tasks. frame_id tag = N \<and> symbol_idx_ul c tag < ClientUlPilotSymbols c"
    and "size_t_sub N 1 mod kFrameWnd c \<noteq> N mod kFrameWnd c"
    and "prev_slot_zero c N s
         \<or> (tasks \<noteq> [] \<and> 0 < max_sc_ite c 0 \<and> symbol_idx_ul c (hd tasks) = 0 \<and> sc_id (hd tasks) = 0)"
    and "run_tasks c tasks s = Inr s'"
  shows "prev_slot_zero c N s' \<or> tasks = []"
  using assms
proof (induction tasks arbitrary: s)
  case Nil
  then show ?case by simp
next
  case (Cons tag rest)
  have f: "frame_id tag = N" and p: "symbol_idx_ul c tag < ClientUlPilotSymbols c"
    using Cons.prems(1) by simp_all
  have a: "max_sc_ite c (sc_id tag) mod kSCsPerCacheline = 0"
    using Cons.prems(4) by (auto simp: Launch_unfold split: if_splits)
  then have l: "Launch c tag s = Inr (Launch_state c tag s, \<lparr>event_type = kDemul, tags = tag\<rparr>)"
    by (simp add: Launch_unfold)
  have "prev_slot_zero c (frame_id tag) s
         \<or> (0 < max_sc_ite c (sc_id tag) \<and> symbol_idx_ul c tag = 0 \<and> sc_id tag = 0)"
    using Cons.prems(3) f by auto
  then have z: "prev_slot_zero c N (Launch_state c tag s)"
    using Launch_state_keeps_zero [of tag c s] Cons.prems(2) p a f by simp
  have r: "run_tasks c rest (Launch_state c tag s) = Inr s'"
    using Cons.prems(4) l by simp
  show ?case
  proof (cases rest)
    case Nil
    then show ?thesis using r z by simp
  next
    case (Cons t ts)
    have "prev_slot_zero c N s' \<or> rest = []"
      using Cons.prems(1,2) z r by (intro Cons.IH) simp_all
    then show ?thesis using Cons by simp
  qed
qed

lemma run_tasks_stale:
  assumes "\<forall>tag \<in> set tasks. frame_id tag = N \<and> symbol_idx_ul c tag < ClientUlPilotSymbols c"
    and "size_t_sub N 1 mod kFrameWnd c \<noteq> N mod kFrameWnd c"
  shows "run_tasks c tasks s
       = map_sum id (add_to_slot (N mod kFrameWnd c) (ue_spec_pilot_buffer s (N mod kFrameWnd c)))
           (run_tasks c tasks (clear_slot (N mod kFrameWnd c) s))"
proof -
  let ?slot = "N mod kFrameWnd c"
  have "\<forall>tag \<in> set tasks. frame_id tag mod kFrameWnd c = ?slot
             \<and> size_t_sub (frame_id tag) 1 mod kFrameWnd c \<noteq> ?slot
             \<and> symbol_idx_ul c tag < ClientUlPilotSymbols c"
    using assms by simp
  from run_tasks_add_to_slot [OF this, of "ue_spec_pilot_buffer s ?slot" "clear_slot ?slot s"]
  show ?thesis by (simp add: add_to_clear_slot)
qed

lemma run_two_tasks:
  assumes "max_sc_ite c (sc_id t1) mod kSCsPerCacheline = 0"
    and "max_sc_ite c (sc_id t2) mod kSCsPerCacheline = 0"
  shows "run_tasks c [t1, t2] s = Inr (Launch_state c t2 (Launch_state c t1 s))"
  using assms by (simp add: Launch_unfold)

text \<open>
  Claim C1 says that after the pilot symbols of a frame whose slot an earlier frame
  used, the accumulators hold the contributions of the new frame only. Frame 42 has
  slot 2 of a window of 40; its first pilot task clears slot \<open>(42 - 1) mod 40 = 1\<close>.
  With 5 left in the accumulators of slot 2, the accumulator of user 0 after both
  pilot tasks of frame 42 is 5 more than what the same tasks accumulate from a
  cleared slot.
\<close>

theorem C1_counterexample:
  "\<not> isl (run_tasks single_pilot_config frame42_pilot_tasks stale_state)
   \<and> \<not> isl (run_tasks single_pilot_config frame42_pilot_tasks (clear_slot 2 stale_state))
   \<and> ue_spec_pilot_buffer stale_state (42 mod kFrameWnd single_pilot_config) 0 = 5
   \<and> ue_spec_pilot_buffer
        (projr (run_tasks single_pilot_config frame42_pilot_tasks stale_state)) 2 0
     = ue_spec_pilot_buffer
        (projr (run_tasks single_pilot_config frame42_pilot_tasks (clear_slot 2 stale_state))) 2 0
       + 5"
proof -
  have m: "max_sc_ite single_pilot_config 0 mod kSCsPerCacheline = 0"
    "max_sc_ite single_pilot_config 8 mod kSCsPerCacheline = 0"
    by (simp_all add: single_pilot_config_def example_config_def max_sc_ite_def size_t_sub_def
        kSCsPerCacheline_def)
  have r: "run_tasks single_pilot_config frame42_pilot_tasks s
      = Inr (Launch_state single_pilot_config \<lparr>frame_id = 42, symbol_id = 0, sc_id = 8\<rparr>
              (Launch_state single_pilot_config \<lparr>frame_id = 42, symbol_id = 0, sc_id = 0\<rparr> s))" for s
    unfolding frame42_pilot_tasks_def by (rule run_two_tasks) (simp_all add: m)
  have w: "kFrameWnd single_pilot_config = 40"
    by (simp add: single_pilot_config_def example_config_def)
  have h: "\<forall>tag \<in> set frame42_pilot_tasks.
      frame_id tag = 42 \<and> symbol_idx_ul single_pilot_config tag < ClientUlPilotSymbols single_pilot_config"
    by (simp add: frame42_pilot_tasks_def single_pilot_config_def example_config_def symbol_idx_ul_def)
  have d: "size_t_sub 42 1 mod kFrameWnd single_pilot_config \<noteq> 42 mod kFrameWnd single_pilot_config"
    by (rule prev_slot_differs) (simp_all add: w)
  have s5: "ue_spec_pilot_buffer stale_state 2 = (\<lambda>k. 5)"
    by (simp add: stale_state_def)
  have "run_tasks single_pilot_config frame42_pilot_tasks stale_state
      = map_sum id (add_to_slot 2 (\<lambda>k. 5))
          (run_tasks single_pilot_config frame42_pilot_tasks (clear_slot 2 stale_state))"
    using run_tasks_stale [OF h d, of stale_state] by (simp add: w s5)
  then have "ue_spec_pilot_buffer
        (projr (run_tasks single_pilot_config frame42_pilot_tasks stale_state)) 2 0
     = ue_spec_pilot_buffer
        (projr (run_tasks single_pilot_config frame42_pilot_tasks (clear_slot 2 stale_state))) 2 0
       + 5"
    by (simp add: r add_to_slot_def)
  then show ?thesis by (simp add: r w s5)
qed

text \<open>
  Claim C1, amended. Let \<open>tasks\<close> be tasks of pilot symbols of one frame \<open>N \<ge> 1\<close>, in a
  window of at least two frames. Running them adds to the accumulators of the slot
  of frame \<open>N\<close> and never clears them: the run from any state \<open>s\<close> is the run from
  \<open>s\<close> with that slot cleared, with what the slot held in \<open>s\<close> added back to its
  accumulators at the end. So the accumulators read by the correction of frame \<open>N\<close>
  are the contents left in the slot plus the contributions of frame \<open>N\<close>, and hold
  the contributions of frame \<open>N\<close> alone when the slot was zero before. What the first
  pilot task of frame \<open>N\<close> (pilot symbol 0, subcarrier 0) fills with zero is the slot of
  frame \<open>N - 1\<close>: after the tasks, its \<open>UeNum * ClientUlPilotSymbols\<close> accumulators are
  zero.
\<close>

theorem C1_pilot_accumulators:
  assumes "list_all (\<lambda>tag. frame_id tag = N \<and> symbol_idx_ul c tag < ClientUlPilotSymbols c) tasks"
    and "2 \<le> kFrameWnd c" and "1 \<le> N" and "N < 2 ^ 64"
  shows "run_tasks c tasks s
         = map_sum id (add_to_slot (N mod kFrameWnd c) (ue_spec_pilot_buffer s (N mod kFrameWnd c)))
             (run_tasks c tasks (clear_slot (N mod kFrameWnd c) s))
       \<and> (tasks \<noteq> [] \<and> symbol_idx_ul c (hd tasks) = 0 \<and> sc_id (hd tasks) = 0
            \<and> 0 < max_sc_ite c 0 \<and> run_tasks c tasks s = Inr s'
            \<and> k < UeNum c * ClientUlPilotSymbols c
          \<longrightarrow> ue_spec_pilot_buffer s' ((N - 1) mod kFrameWnd c) k = 0)"
proof -
  have all: "\<forall>tag \<in> set tasks. frame_id tag = N \<and> symbol_idx_ul c tag < ClientUlPilotSymbols c"
    using assms(1) by (simp add: list_all_iff)
  have d: "size_t_sub N 1 mod kFrameWnd c \<noteq> N mod kFrameWnd c"
    using assms(2-4) by (rule prev_slot_differs)
  have a: "run_tasks c tasks s
         = map_sum id (add_to_slot (N mod kFrameWnd c) (ue_spec_pilot_buffer s (N mod kFrameWnd c)))
             (run_tasks c tasks (clear_slot (N mod kFrameWnd c) s))"
    using all d by (rule run_tasks_stale)
  have b: "ue_spec_pilot_buffer s' ((N - 1) mod kFrameWnd c) k = 0"
    if "tasks \<noteq> []" "symbol_idx_ul c (hd tasks) = 0" "sc_id (hd tasks) = 0"
      "0 < max_sc_ite c 0" "run_tasks c tasks s = Inr s'" "k < UeNum c * ClientUlPilotSymbols c"
  proof -
    have "prev_slot_zero c N s' \<or> tasks = []"
      using all d _ that(5) by (rule run_tasks_keeps_zero) (simp add: that)
    then have "prev_slot_zero c N s'" using that(1) by simp
    then show ?thesis
      using that(6) unfolding prev_slot_zero_def size_t_sub_one [OF assms(3,4)] by blast
  qed
  show ?thesis using a b by blast
qed

theorem C1_pilot_accumulators_witness:
  "list_all (\<lambda>tag. frame_id tag = 42
        \<and> symbol_idx_ul single_pilot_config tag < ClientUlPilotSymbols single_pilot_config)
      frame42_pilot_tasks
   \<and> 2 \<le> kFrameWnd single_pilot_config \<and> (1::nat) \<le> 42 \<and> (42::nat) < 2 ^ 64
   \<and> run_tasks single_pilot_config frame42_pilot_tasks stale_state
       = map_sum id (add_to_slot 2 (\<lambda>k. 5))
           (run_tasks single_pilot_config frame42_pilot_tasks (clear_slot 2 stale_state))
   \<and> frame42_pilot_tasks \<noteq> []
   \<and> symbol_idx_ul single_pilot_config (hd frame42_pilot_tasks) = 0
   \<and> sc_id (hd frame42_pilot_tasks) = 0
   \<and> 0 < max_sc_ite single_pilot_config 0
   \<and> (0::nat) < UeNum single_pilot_config * ClientUlPilotSymbols single_pilot_config
   \<and> ue_spec_pilot_buffer
        (projr (run_tasks single_pilot_config frame42_pilot_tasks stale_state)) 1 0 = 0"
proof -
  have h: "list_all (\<lambda>tag. frame_id tag = 42
        \<and> symbol_idx_ul single_pilot_config tag < ClientUlPilotSymbols single_pilot_config)
      frame42_pilot_tasks"
    "2 \<le> kFrameWnd single_pilot_config" "(1::nat) \<le> 42" "(42::nat) < 2 ^ 64"
    by (simp_all add: frame42_pilot_tasks_def single_pilot_config_def example_config_def
        symbol_idx_ul_def)
  have g: "frame42_pilot_tasks \<noteq> []"
    "symbol_idx_ul single_pilot_config (hd frame42_pilot_tasks) = 0"
    "sc_id (hd frame42_pilot_tasks) = 0"
    "0 < max_sc_ite single_pilot_config 0"
    "(0::nat) < UeNum single_pilot_config * ClientUlPilotSymbols single_pilot_config"
    by (simp_all add: frame42_pilot_tasks_def single_pilot_config_def example_config_def
        symbol_idx_ul_def max_sc_ite_def size_t_sub_def)
  have m: "max_sc_ite single_pilot_config 0 mod kSCsPerCacheline = 0"
    "max_sc_ite single_pilot_config 8 mod kSCsPerCacheline = 0"
    by (simp_all add: single_pilot_config_def example_config_def max_sc_ite_def size_t_sub_def
        kSCsPerCacheline_def)
  have "run_tasks single_pilot_config frame42_pilot_tasks stale_state
      = Inr (Launch_state single_pilot_config \<lparr>frame_id = 42, symbol_id = 0, sc_id = 8\<rparr>
              (Launch_state single_pilot_config \<lparr>frame_id = 42, symbol_id = 0, sc_id = 0\<rparr>
                 stale_state))"
    unfolding frame42_pilot_tasks_def by (rule run_two_tasks) (simp_all add: m)
  then have r: "run_tasks single_pilot_config frame42_pilot_tasks stale_state
      = Inr (projr (run_tasks single_pilot_config frame42_pilot_tasks stale_state))"
    by simp
  have w: "42 mod kFrameWnd single_pilot_config = 2" "(42 - 1) mod kFrameWnd single_pilot_config = 1"
    by (simp_all add: single_pilot_config_def example_config_def)
  have s5: "ue_spec_pilot_buffer stale_state 2 = (\<lambda>k. 5)"
    by (simp add: stale_state_def)
  note t = C1_pilot_accumulators [OF h, of stale_state
      "projr (run_tasks single_pilot_config frame42_pilot_tasks stale_state)" 0, unfolded w s5]
  from t g r have "ue_spec_pilot_buffer
        (projr (run_tasks single_pilot_config frame42_pilot_tasks stale_state)) 1 0 = 0"
    by blast
  with t h g show ?thesis by blast
qed

subsection \<open>The export flag\<close>

lemma export_flag_irrelevant [simp]:
  "symbol_idx_ul (c\<lparr>kExportConstellation := b\<rparr>) = symbol_idx_ul c"
  "total_data_symbol_idx_ul (c\<lparr>kExportConstellation := b\<rparr>) = total_data_symbol_idx_ul c"
  "frame_slot (c\<lparr>kExportConstellation := b\<rparr>) = frame_slot c"
  "max_sc_ite (c\<lparr>kExportConstellation := b\<rparr>) = max_sc_ite c"
  by (simp_all add: fun_eq_iff symbol_idx_ul_def total_data_symbol_idx_ul_def frame_slot_def
      max_sc_ite_def)

lemma gather_stage_export_flag [simp]:
  "gather_stage (c\<lparr>kExportConstellation := b\<rparr>) = gather_stage c"
proof -
  have 1: "partial_transpose_block_base (c\<lparr>kExportConstellation := b\<rparr>) = partial_transpose_block_base c"
    by (simp add: fun_eq_iff partial_transpose_block_base_def)
  have 2: "gather_sample (c\<lparr>kExportConstellation := b\<rparr>) = (gather_sample c :: (nat \<Rightarrow> 'a) \<Rightarrow> _)"
    by (simp add: fun_eq_iff gather_sample_def 1)
  have 3: "data_rx (c\<lparr>kExportConstellation := b\<rparr>) = (data_rx c :: (nat \<Rightarrow> 'a) \<Rightarrow> _)"
    by (simp add: fun_eq_iff data_rx_def cong: if_cong)
  have 4: "ant_num_per_simd (c\<lparr>kExportConstellation := b\<rparr>) = ant_num_per_simd c"
    by (simp add: ant_num_per_simd_def)
  have 5: "gather_simd (c\<lparr>kExportConstellation := b\<rparr>) = (gather_simd c :: (nat \<Rightarrow> 'a) \<Rightarrow> _)"
    by (simp add: fun_eq_iff gather_simd_def 1 3 4)
  have 6: "gather_scalar (c\<lparr>kExportConstellation := b\<rparr>) = (gather_scalar c :: (nat \<Rightarrow> 'a) \<Rightarrow> _)"
    by (simp add: fun_eq_iff gather_scalar_def 2)
  show ?thesis
    by (simp add: fun_eq_iff gather_stage_def 5 6 cong: if_cong)
qed

lemma mat_phase_correct_export_flag:
  "ue_spec_pilot_buffer s = ue_spec_pilot_buffer t \<Longrightarrow>
   mat_phase_correct (c\<lparr>kExportConstellation := b\<rparr>) tag s = mat_phase_correct c tag t"
  by (simp add: fun_eq_iff mat_phase_correct_def cur_theta_def theta_inc_def theta_mat_def)

lemma store_vec_cong:
  "(\<And>u. u < n \<Longrightarrow> v u = w u) \<Longrightarrow> store_vec b off n v = store_vec b off n w"
  by (auto simp: store_vec_def fun_eq_iff)

lemma mm_store_ps_cong:
  "(\<And>k. k < w \<Longrightarrow> v k = v' k) \<Longrightarrow> mm_store_ps w p v t = mm_store_ps w p v' t"
  by (auto simp: mm_store_ps_def fun_eq_iff)

lemma export_rel_mono: "export_rel c tag (Suc n) s t \<Longrightarrow> export_rel c tag n s t"
  by (simp add: export_rel_def)

lemma export_rel_read:
  assumes "export_rel c tag (Suc n) s t" "u < UeNum c"
  shows "mat_equaled (exported c) tag (sc_id tag + n) s u
       = mat_equaled (scratch c) tag (sc_id tag + n) t u"
proof -
  have "n * UeNum c + u < Suc n * UeNum c" using assms(2) by simp
  then have "equal_buffer s (total_data_symbol_idx_ul c tag) (sc_id tag * UeNum c + (n * UeNum c + u))
       = equaled_buffer_temp t (n * UeNum c + u)"
    using assms(1) unfolding export_rel_def by blast
  then show ?thesis by (simp add: mat_equaled_def add_mult_distrib add.assoc)
qed

lemma export_rel_write:
  assumes "export_rel c tag n s t" "\<And>u. u < UeNum c \<Longrightarrow> v u = w u"
  shows "export_rel c tag (Suc n)
           (set_mat_equaled (exported c) tag (sc_id tag + n) v s)
           (set_mat_equaled (scratch c) tag (sc_id tag + n) w t)"
proof -
  let ?U = "UeNum c"
  have s: "same_but_equalized (set_mat_equaled (exported c) tag (sc_id tag + n) v s)
           (set_mat_equaled (scratch c) tag (sc_id tag + n) w t)"
    using assms(1) by (simp add: export_rel_def same_but_equalized_def)
  have "equal_buffer (set_mat_equaled (exported c) tag (sc_id tag + n) v s)
            (total_data_symbol_idx_ul c tag) (sc_id tag * ?U + q)
        = equaled_buffer_temp (set_mat_equaled (scratch c) tag (sc_id tag + n) w t) q"
    if q: "q < Suc n * ?U" for q
  proof (cases "q < n * ?U")
    case True
    then have "equal_buffer s (total_data_symbol_idx_ul c tag) (sc_id tag * ?U + q)
       = equaled_buffer_temp t q"
      using assms(1) unfolding export_rel_def by blast
    then show ?thesis using True
      by (simp add: set_mat_equaled_def store_vec_def add_mult_distrib)
  next
    case False
    then have r: "n * ?U \<le> q" "q - n * ?U < ?U" using q by simp_all
    have "sc_id tag * ?U + q - (sc_id tag * ?U + n * ?U) = q - n * ?U" by simp
    then show ?thesis using r q assms(2) [of "q - n * ?U"]
      by (simp add: set_mat_equaled_def store_vec_def add_mult_distrib)
  qed
  then show ?thesis using s by (simp add: export_rel_def)
qed

subsection \<open>The steps keep the two runs together\<close>

lemma export_rel_same: "export_rel c tag n s t \<Longrightarrow> same_but_equalized s t"
  by (simp add: export_rel_def)

lemma export_rel_other_fields:
  assumes "export_rel c tag n s t"
    and "same_but_equalized s' t'"
    and "equal_buffer s' = equal_buffer s" and "equaled_buffer_temp t' = equaled_buffer_temp t"
  shows "export_rel c tag n s' t'"
  using assms by (simp add: export_rel_def)

lemma WorkerRdtsc_rel:
  assumes "export_rel c tag n s t"
  shows "fst (WorkerRdtsc s) = fst (WorkerRdtsc t)"
    and "export_rel c tag n (snd (WorkerRdtsc s)) (snd (WorkerRdtsc t))"
proof -
  have e: "same_but_equalized s t" using assms by (rule export_rel_same)
  then show "fst (WorkerRdtsc s) = fst (WorkerRdtsc t)"
    by (simp add: WorkerRdtsc_def same_but_equalized_def)
  show "export_rel c tag n (snd (WorkerRdtsc s)) (snd (WorkerRdtsc t))"
    using assms
  proof (rule export_rel_other_fields)
    show "same_but_equalized (snd (WorkerRdtsc s)) (snd (WorkerRdtsc t))"
      using e by (simp add: WorkerRdtsc_def same_but_equalized_def)
  qed simp_all
qed

lemma add_task_duration_rel:
  assumes "export_rel c tag n s t"
  shows "export_rel c tag n (add_task_duration k x s) (add_task_duration k x t)"
  using assms
proof (rule export_rel_other_fields)
  show "same_but_equalized (add_task_duration k x s) (add_task_duration k x t)"
    using export_rel_same [OF assms] by (simp add: add_task_duration_def same_but_equalized_def)
qed simp_all

lemma task_count_rel:
  assumes "export_rel c tag n s t"
  shows "export_rel c tag n (s\<lparr>task_count := task_count s + 1\<rparr>) (t\<lparr>task_count := task_count t + 1\<rparr>)"
  using assms
proof (rule export_rel_other_fields)
  show "same_but_equalized (s\<lparr>task_count := task_count s + 1\<rparr>) (t\<lparr>task_count := task_count t + 1\<rparr>)"
    using export_rel_same [OF assms] by (simp add: same_but_equalized_def)
qed simp_all

lemma debug_print_rel:
  assumes "export_rel c tag n s t"
  shows "export_rel c tag n (debug_print_in_task (exported c) tag s)
           (debug_print_in_task (scratch c) tag t)"
  using assms
proof (rule export_rel_other_fields)
  show "same_but_equalized (debug_print_in_task (exported c) tag s)
           (debug_print_in_task (scratch c) tag t)"
    using export_rel_same [OF assms] by (simp add: debug_print_in_task_def same_but_equalized_def)
qed (simp_all add: debug_print_in_task_def)

lemma gather_step_rel:
  assumes "export_rel c tag n s t"
  shows "export_rel c tag n (gather_step (exported c) tag i s) (gather_step (scratch c) tag i t)"
  using assms
proof (rule export_rel_other_fields)
  show "same_but_equalized (gather_step (exported c) tag i s) (gather_step (scratch c) tag i t)"
    using export_rel_same [OF assms]
    by (simp add: gather_step_def Let_def split_def WorkerRdtsc_def add_task_duration_def
        same_but_equalized_def)
qed simp_all

lemma calc_phase_shift_alt:
  "calc_phase_shift c tag cur s =
     (let prev = size_t_sub (frame_id tag) 1 mod kFrameWnd c;
          b = (if symbol_idx_ul c tag = 0 \<and> cur = 0
               then (ue_spec_pilot_buffer s)
                      (prev := store_vec (ue_spec_pilot_buffer s prev) 0
                                 (UeNum c * ClientUlPilotSymbols c) (\<lambda>_. 0))
               else ue_spec_pilot_buffer s);
          slot = frame_id tag mod kFrameWnd c
      in s\<lparr>ue_spec_pilot_buffer := b
            (slot := store_vec (b slot) (symbol_idx_ul c tag * UeNum c) (UeNum c)
               (\<lambda>u. b slot (symbol_idx_ul c tag * UeNum c + u)
                      + sgn (mat_equaled c tag cur s u * cnj (ue_pilot_data s u cur))))\<rparr>)"
  by (simp add: calc_phase_shift_def Let_def mat_equaled_def cong: if_cong)

lemma calc_phase_shift_rel:
  assumes "export_rel c tag (Suc n) s t"
  shows "export_rel c tag (Suc n)
           (calc_phase_shift (exported c) tag (sc_id tag + n) s)
           (calc_phase_shift (scratch c) tag (sc_id tag + n) t)"
  using assms
proof (rule export_rel_other_fields)
  let ?cur = "sc_id tag + n"
  have e: "same_but_equalized s t" using assms by (rule export_rel_same)
  have p: "ue_spec_pilot_buffer s = ue_spec_pilot_buffer t" "ue_pilot_data s = ue_pilot_data t"
    using e by (simp_all add: same_but_equalized_def)
  define b where "b = (if symbol_idx_ul c tag = 0 \<and> ?cur = 0
               then (ue_spec_pilot_buffer t)
                      (size_t_sub (frame_id tag) 1 mod kFrameWnd c :=
                         store_vec (ue_spec_pilot_buffer t (size_t_sub (frame_id tag) 1 mod kFrameWnd c)) 0
                                 (UeNum c * ClientUlPilotSymbols c) (\<lambda>_. 0))
               else ue_spec_pilot_buffer t)"
  define acc where "acc = (\<lambda>sh :: nat \<Rightarrow> complex.
      b (frame_id tag mod kFrameWnd c :=
           store_vec (b (frame_id tag mod kFrameWnd c)) (symbol_idx_ul c tag * UeNum c) (UeNum c)
             (\<lambda>u. b (frame_id tag mod kFrameWnd c) (symbol_idx_ul c tag * UeNum c + u) + sh u)))"
  have l: "ue_spec_pilot_buffer (calc_phase_shift (exported c) tag ?cur s)
      = acc (\<lambda>u. sgn (mat_equaled (exported c) tag ?cur s u * cnj (ue_pilot_data t u ?cur)))"
    unfolding calc_phase_shift_alt Let_def acc_def b_def by (simp add: p cong: if_cong)
  have r: "ue_spec_pilot_buffer (calc_phase_shift (scratch c) tag ?cur t)
      = acc (\<lambda>u. sgn (mat_equaled (scratch c) tag ?cur t u * cnj (ue_pilot_data t u ?cur)))"
    unfolding calc_phase_shift_alt Let_def acc_def b_def by (simp cong: if_cong)
  have "acc (\<lambda>u. sgn (mat_equaled (exported c) tag ?cur s u * cnj (ue_pilot_data t u ?cur)))
      = acc (\<lambda>u. sgn (mat_equaled (scratch c) tag ?cur t u * cnj (ue_pilot_data t u ?cur)))"
    unfolding acc_def
    by (rule arg_cong [where f = "fun_upd b (frame_id tag mod kFrameWnd c)"], rule store_vec_cong)
       (simp add: export_rel_read [OF assms])
  then have "ue_spec_pilot_buffer (calc_phase_shift (exported c) tag ?cur s)
      = ue_spec_pilot_buffer (calc_phase_shift (scratch c) tag ?cur t)"
    using l r by simp
  then show "same_but_equalized (calc_phase_shift (exported c) tag ?cur s)
           (calc_phase_shift (scratch c) tag ?cur t)"
    using e unfolding same_but_equalized_def
    by (simp add: calc_phase_shift_alt Let_def)
qed (simp_all add: calc_phase_shift_alt Let_def)

lemma phy_stats_rel:
  assumes "export_rel c tag n s t"
  shows "export_rel c tag n (s\<lparr>phy_stats := phy_stats s @ xs\<rparr>) (t\<lparr>phy_stats := phy_stats t @ xs\<rparr>)"
  using assms
proof (rule export_rel_other_fields)
  show "same_but_equalized (s\<lparr>phy_stats := phy_stats s @ xs\<rparr>) (t\<lparr>phy_stats := phy_stats t @ xs\<rparr>)"
    using export_rel_same [OF assms] by (simp add: same_but_equalized_def)
qed simp_all

lemma apply_phase_shift_alt:
  "apply_phase_shift c tag cur s =
     (let s1 = set_mat_equaled c tag cur
                 (\<lambda>u. mat_equaled c tag cur s u * mat_phase_correct c tag s u) s;
          calls = (if symbol_idx_ul c tag = ClientUlPilotSymbols c
                   then UpdateEvmStats (frame_id tag) cur (map (mat_equaled c tag cur s1) [0..<UeNum c])
                        # (if kPrintPhyStats c \<and> cur = 0
                           then [PrintEvmStats (size_t_sub (frame_id tag) 1)] else [])
                   else [])
      in s1\<lparr>phy_stats := phy_stats s1 @ calls\<rparr>)"
  by (simp add: apply_phase_shift_def Let_def)

lemma apply_phase_shift_rel:
  assumes "export_rel c tag (Suc n) s t"
  shows "export_rel c tag (Suc n)
           (apply_phase_shift (exported c) tag (sc_id tag + n) s)
           (apply_phase_shift (scratch c) tag (sc_id tag + n) t)"
proof -
  let ?cur = "sc_id tag + n"
  define s1 where "s1 = set_mat_equaled (exported c) tag ?cur
                (\<lambda>u. mat_equaled (exported c) tag ?cur s u * mat_phase_correct (exported c) tag s u) s"
  define t1 where "t1 = set_mat_equaled (scratch c) tag ?cur
                (\<lambda>u. mat_equaled (scratch c) tag ?cur t u * mat_phase_correct (scratch c) tag t u) t"
  define calls where "calls = (\<lambda>xs.
       if symbol_idx_ul c tag = ClientUlPilotSymbols c
       then UpdateEvmStats (frame_id tag) ?cur xs
            # (if kPrintPhyStats c \<and> ?cur = 0
               then [PrintEvmStats (size_t_sub (frame_id tag) 1)] else [])
       else [])"
  have p: "ue_spec_pilot_buffer s = ue_spec_pilot_buffer t"
    using export_rel_same [OF assms] by (simp add: same_but_equalized_def)
  have m: "mat_phase_correct (exported c) tag s = mat_phase_correct (scratch c) tag t"
    using p by (simp add: mat_phase_correct_export_flag)
  have 1: "export_rel c tag (Suc n) s1 t1"
    unfolding s1_def t1_def using export_rel_mono [OF assms]
    by (rule export_rel_write) (simp add: export_rel_read [OF assms] m)
  have l: "map (mat_equaled (exported c) tag ?cur s1) [0..<UeNum c]
         = map (mat_equaled (scratch c) tag ?cur t1) [0..<UeNum c]"
    by (rule map_cong) (simp_all add: export_rel_read [OF 1])
  have a: "apply_phase_shift (exported c) tag ?cur s
      = s1\<lparr>phy_stats := phy_stats s1 @ calls (map (mat_equaled (exported c) tag ?cur s1) [0..<UeNum c])\<rparr>"
    unfolding apply_phase_shift_alt Let_def s1_def calls_def by simp
  have b: "apply_phase_shift (scratch c) tag ?cur t
      = t1\<lparr>phy_stats := phy_stats t1 @ calls (map (mat_equaled (scratch c) tag ?cur t1) [0..<UeNum c])\<rparr>"
    unfolding apply_phase_shift_alt Let_def t1_def calls_def by simp
  show ?thesis unfolding a b l using 1 by (rule phy_stats_rel)
qed

lemma phase_tracker_rel:
  assumes "export_rel c tag (Suc n) s t"
  shows "export_rel c tag (Suc n)
           (phase_tracker (exported c) tag (sc_id tag + n) s)
           (phase_tracker (scratch c) tag (sc_id tag + n) t)"
  using assms by (simp add: phase_tracker_def calc_phase_shift_rel apply_phase_shift_rel)

lemma equalize_sc_alt:
  "equalize_sc c tag i j s =
     (let cur = sc_id tag + (i + j);
          s1 = set_mat_equaled c tag cur
                 (mat_mult_vec (UeNum c) (BsAntNum c)
                    (ul_zf_matrices s (frame_slot c tag) (GetZfScId c cur))
                    (\<lambda>a. data_gather_buffer s (j * BsAntNum c + a)))
                 (snd (WorkerRdtsc s));
          s2 = phase_tracker c tag cur s1;
          s3 = add_task_duration 2 (fst (WorkerRdtsc s2) - fst (WorkerRdtsc s)) (snd (WorkerRdtsc s2))
      in s3\<lparr>task_count := task_count s3 + 1\<rparr>)"
  by (simp add: equalize_sc_def Let_def split_def add.assoc)

lemma equalize_sc_rel:
  assumes "export_rel c tag (i + j) s t"
  shows "export_rel c tag (Suc (i + j))
           (equalize_sc (exported c) tag i j s) (equalize_sc (scratch c) tag i j t)"
proof -
  let ?cur = "sc_id tag + (i + j)"
  have e: "same_but_equalized s t" using assms by (rule export_rel_same)
  define v where "v = mat_mult_vec (UeNum c) (BsAntNum c)
               (ul_zf_matrices t (frame_slot c tag) (GetZfScId c ?cur))
               (\<lambda>a. data_gather_buffer t (j * BsAntNum c + a))"
  have v': "mat_mult_vec (UeNum c) (BsAntNum c)
               (ul_zf_matrices s (frame_slot c tag) (GetZfScId c ?cur))
               (\<lambda>a. data_gather_buffer s (j * BsAntNum c + a)) = v"
    using e by (simp add: v_def same_but_equalized_def)
  define s1 where "s1 = set_mat_equaled (exported c) tag ?cur v (snd (WorkerRdtsc s))"
  define t1 where "t1 = set_mat_equaled (scratch c) tag ?cur v (snd (WorkerRdtsc t))"
  define s2 where "s2 = phase_tracker (exported c) tag ?cur s1"
  define t2 where "t2 = phase_tracker (scratch c) tag ?cur t1"
  define s3 where "s3 = add_task_duration 2 (fst (WorkerRdtsc s2) - fst (WorkerRdtsc s)) (snd (WorkerRdtsc s2))"
  define t3 where "t3 = add_task_duration 2 (fst (WorkerRdtsc t2) - fst (WorkerRdtsc t)) (snd (WorkerRdtsc t2))"
  have 1: "export_rel c tag (Suc (i + j)) s1 t1"
    unfolding s1_def t1_def using WorkerRdtsc_rel(2) [OF assms] by (rule export_rel_write) simp
  have 2: "export_rel c tag (Suc (i + j)) s2 t2"
    unfolding s2_def t2_def using 1 by (rule phase_tracker_rel)
  have c0: "fst (WorkerRdtsc s) = fst (WorkerRdtsc t)" using assms by (rule WorkerRdtsc_rel(1))
  have c1: "fst (WorkerRdtsc s2) = fst (WorkerRdtsc t2)" using 2 by (rule WorkerRdtsc_rel(1))
  have 3: "export_rel c tag (Suc (i + j)) s3 t3"
    unfolding s3_def t3_def c0 c1
    by (intro add_task_duration_rel WorkerRdtsc_rel(2) 2)
  have a: "equalize_sc (exported c) tag i j s = s3\<lparr>task_count := task_count s3 + 1\<rparr>"
    unfolding equalize_sc_alt Let_def s3_def s2_def s1_def by (simp add: v')
  have b: "equalize_sc (scratch c) tag i j t = t3\<lparr>task_count := task_count t3 + 1\<rparr>"
    unfolding equalize_sc_alt Let_def t3_def t2_def t1_def v_def by simp
  show ?thesis unfolding a b using 3 by (rule task_count_rel)
qed

lemma for_loop_upto_rel:
  assumes "R i s t" and "i \<le> n"
    and "\<And>k s t. i \<le> k \<Longrightarrow> k < n \<Longrightarrow> R k s t \<Longrightarrow> R (Suc k) (f k s) (g k t)"
  shows "R n (for_loop i n 1 f s) (for_loop i n 1 g t)"
proof -
  define P where "P = (\<lambda>k (p :: 'a \<times> 'b). R k (fst p) (snd p))"
  have "P n (for_loop i n 1 (\<lambda>k (s, t). (f k s, g k t)) (s, t))"
  proof (rule for_loop_upto_inv [where P = P])
    show "P i (s, t)" using assms(1) by (simp add: P_def)
    show "i \<le> n" by (rule assms(2))
    fix k p assume "i \<le> k" "k < n" "P k p"
    then show "P (Suc k) (case p of (s, t) \<Rightarrow> (f k s, g k t))"
      using assms(3) by (cases p) (simp add: P_def)
  qed
  then show ?thesis by (simp add: P_def for_loop_pair)
qed

lemma for_loop_stride_rel:
  assumes "R 0 s t" and "0 < d"
    and "\<And>k s t. k < m \<Longrightarrow> R k s t \<Longrightarrow> R (Suc k) (f (k * d) s) (g (k * d) t)"
  shows "R m (for_loop 0 (m * d) d f s) (for_loop 0 (m * d) d g t)"
proof -
  define P where "P = (\<lambda>k (p :: 'a \<times> 'b). R k (fst p) (snd p))"
  have "P m (for_loop 0 (m * d) d (\<lambda>k (s, t). (f k s, g k t)) (s, t))"
  proof (rule for_loop_stride_inv [where P = P])
    show "P 0 (s, t)" using assms(1) by (simp add: P_def)
    show "0 < d" by (rule assms(2))
    fix k p assume "k < m" "P k p"
    then show "P (Suc k) (case p of (s, t) \<Rightarrow> (f (k * d) s, g (k * d) t))"
      using assms(3) by (cases p) (simp add: P_def)
  qed
  then show ?thesis by (simp add: P_def for_loop_pair)
qed

lemma cacheline_rel:
  assumes "export_rel c tag i s t"
  shows "export_rel c tag (i + kSCsPerCacheline)
           (cacheline (exported c) tag i s) (cacheline (scratch c) tag i t)"
  unfolding cacheline_def
proof (rule for_loop_upto_rel [where R = "\<lambda>j. export_rel c tag (i + j)" and i = 0])
  show "export_rel c tag (i + 0) (gather_step (exported c) tag i s) (gather_step (scratch c) tag i t)"
    using assms by (simp add: gather_step_rel)
  show "0 \<le> kSCsPerCacheline" by simp
  fix k s t assume "export_rel c tag (i + k) s t"
  then have "export_rel c tag (Suc (i + k))
           (equalize_sc (exported c) tag i k s) (equalize_sc (scratch c) tag i k t)"
    by (rule equalize_sc_rel)
  then show "export_rel c tag (i + Suc k)
           (equalize_sc (exported c) tag i k s) (equalize_sc (scratch c) tag i k t)"
    by simp
qed

lemma demul_cachelines_rel:
  assumes "export_rel c tag 0 s t" and "max_sc_ite c (sc_id tag) mod kSCsPerCacheline = 0"
  shows "export_rel c tag (max_sc_ite c (sc_id tag))
           (demul_cachelines (exported c) tag s) (demul_cachelines (scratch c) tag t)"
proof -
  obtain m where m: "max_sc_ite c (sc_id tag) = m * kSCsPerCacheline"
    using assms(2) by (auto simp: mod_eq_0_iff_dvd dvd_def mult.commute)
  have "export_rel c tag (m * kSCsPerCacheline)
          (for_loop 0 (m * kSCsPerCacheline) kSCsPerCacheline (cacheline (exported c) tag) s)
          (for_loop 0 (m * kSCsPerCacheline) kSCsPerCacheline (cacheline (scratch c) tag) t)"
  proof (rule for_loop_stride_rel [where R = "\<lambda>k. export_rel c tag (k * kSCsPerCacheline)"])
    show "export_rel c tag (0 * kSCsPerCacheline) s t" using assms(1) by simp
    show "0 < kSCsPerCacheline" by (simp add: kSCsPerCacheline_def)
    fix k s t assume "export_rel c tag (k * kSCsPerCacheline) s t"
    then have "export_rel c tag (k * kSCsPerCacheline + kSCsPerCacheline)
           (cacheline (exported c) tag (k * kSCsPerCacheline) s)
           (cacheline (scratch c) tag (k * kSCsPerCacheline) t)"
      by (rule cacheline_rel)
    then show "export_rel c tag (Suc k * kSCsPerCacheline)
           (cacheline (exported c) tag (k * kSCsPerCacheline) s)
           (cacheline (scratch c) tag (k * kSCsPerCacheline) t)"
      by (simp add: add.commute)
  qed
  then show ?thesis by (simp add: demul_cachelines_def m)
qed

subsection \<open>The loop over the users reads the same samples\<close>

lemma transposed_export_flag:
  assumes r: "export_rel c tag (max_sc_ite c (sc_id tag)) s t" and i: "i < UeNum c"
  shows "equaled_buffer_temp_transposed (transpose_ue (exported c) tag i s)
       = equaled_buffer_temp_transposed (transpose_ue (scratch c) tag i t)"
proof -
  let ?U = "UeNum c"
  let ?N = "max_sc_ite c (sc_id tag)"
  let ?M = "?N div k_num_double_in_sim_d256"
  let ?row = "equal_buffer s (total_data_symbol_idx_ul c tag)"
  define f where "f = (\<lambda>(j::nat) (a, e, b).
      (a + (4::nat), e + ?U * k_num_double_in_sim_d256, mm_store_ps 4 a (\<lambda>k. ?row (e + k * ?U)) b))"
  define g where "g = (\<lambda>(j::nat) (a, e, b).
      (a + (4::nat), e + ?U * k_num_double_in_sim_d256,
       mm_store_ps 4 a (\<lambda>k. equaled_buffer_temp t (e + k * ?U)) b))"
  define P where "P = (\<lambda>(j::nat) (p :: (nat \<times> nat \<times> (nat \<Rightarrow> complex)) \<times> (nat \<times> nat \<times> (nat \<Rightarrow> complex))).
      fst (fst p) = fst (snd p)
      \<and> fst (snd (snd p)) = i + j * (?U * 4)
      \<and> fst (snd (fst p)) = sc_id tag * ?U + fst (snd (snd p))
      \<and> snd (snd (fst p)) = snd (snd (snd p)))"
  have b: "equaled_buffer_temp_transposed s = equaled_buffer_temp_transposed t"
    using export_rel_same [OF r] by (simp add: same_but_equalized_def)
  have rd: "?row (sc_id tag * ?U + (i + j * (?U * 4)) + k * ?U)
          = equaled_buffer_temp t (i + j * (?U * 4) + k * ?U)"
    if "j < ?M" "k < 4" for j k
  proof -
    have "4 * j + k < 4 * ?M" using that by simp
    also have "\<dots> \<le> ?N" by (simp add: k_num_double_in_sim_d256_def)
    finally have "Suc (4 * j + k) \<le> ?N" by simp
    then have "Suc (4 * j + k) * ?U \<le> ?N * ?U" by (rule mult_le_mono1)
    moreover have "i + j * (?U * 4) + k * ?U < Suc (4 * j + k) * ?U"
      using i by (simp add: algebra_simps)
    ultimately have "i + j * (?U * 4) + k * ?U < ?N * ?U" by simp
    then have "?row (sc_id tag * ?U + (i + j * (?U * 4) + k * ?U))
          = equaled_buffer_temp t (i + j * (?U * 4) + k * ?U)"
      using r unfolding export_rel_def by blast
    then show ?thesis by (simp add: add.assoc)
  qed
  have "P ?M (for_loop 0 ?M 1 (\<lambda>j (x, y). (f j x, g j y))
                ((0, sc_id tag * ?U + i, equaled_buffer_temp_transposed s),
                 (0, i, equaled_buffer_temp_transposed t)))"
  proof (rule for_loop_upto_inv [where P = P])
    show "P 0 ((0, sc_id tag * ?U + i, equaled_buffer_temp_transposed s),
               (0, i, equaled_buffer_temp_transposed t))"
      by (simp add: P_def b)
    show "0 \<le> ?M" by simp
    fix j p assume j: "0 \<le> j" "j < ?M" and p: "P j p"
    obtain a e v a' e' v' where pp: "p = ((a, e, v), (a', e', v'))"
      by (metis prod.collapse)
    have q: "a = a'" "e' = i + j * (?U * 4)" "e = sc_id tag * ?U + e'" "v = v'"
      using p by (simp_all add: P_def pp)
    have st: "mm_store_ps 4 a (\<lambda>k. ?row (e + k * ?U)) v
            = mm_store_ps 4 a (\<lambda>k. equaled_buffer_temp t (e' + k * ?U)) v"
      by (rule mm_store_ps_cong) (simp add: q rd [OF j(2)])
    show "P (Suc j) (case p of (x, y) \<Rightarrow> (f j x, g j y))"
      using st by (simp add: pp P_def f_def g_def q k_num_double_in_sim_d256_def)
  qed
  then have "snd (snd (for_loop 0 ?M 1 f (0, sc_id tag * ?U + i, equaled_buffer_temp_transposed s)))
           = snd (snd (for_loop 0 ?M 1 g (0, i, equaled_buffer_temp_transposed t)))"
    by (simp add: P_def for_loop_pair)
  then show ?thesis
    by (simp add: transpose_ue_def equal_src_def f_def g_def split_def Let_def)
qed

lemma transpose_ue_rel:
  assumes r: "export_rel c tag (max_sc_ite c (sc_id tag)) s t" and i: "i < UeNum c"
  shows "export_rel c tag (max_sc_ite c (sc_id tag))
           (transpose_ue (exported c) tag i s) (transpose_ue (scratch c) tag i t)"
  using r
proof (rule export_rel_other_fields)
  show "same_but_equalized (transpose_ue (exported c) tag i s) (transpose_ue (scratch c) tag i t)"
    using export_rel_same [OF r] transposed_export_flag [OF r i]
    by (simp add: same_but_equalized_def)
qed simp_all

lemma run_kernel_rel:
  assumes r: "export_rel c tag n s t"
  shows "export_rel c tag n (run_kernel kern (exported c) tag i s) (run_kernel kern (scratch c) tag i t)"
  using r
proof (rule export_rel_other_fields)
  show "same_but_equalized (run_kernel kern (exported c) tag i s) (run_kernel kern (scratch c) tag i t)"
    using export_rel_same [OF r] by (simp add: same_but_equalized_def run_kernel_def Let_def)
qed (simp_all add: run_kernel_def Let_def)

lemma demod_switch_rel:
  assumes r: "export_rel c tag n s t"
  shows "export_rel c tag n (demod_switch (exported c) tag i s) (demod_switch (scratch c) tag i t)"
proof -
  have p: "export_rel c tag n (s\<lparr>stdout := stdout s @ [ModulationNotSupported (Modulation c)]\<rparr>)
             (t\<lparr>stdout := stdout t @ [ModulationNotSupported (Modulation c)]\<rparr>)"
    using r
  proof (rule export_rel_other_fields)
    show "same_but_equalized (s\<lparr>stdout := stdout s @ [ModulationNotSupported (Modulation c)]\<rparr>)
             (t\<lparr>stdout := stdout t @ [ModulationNotSupported (Modulation c)]\<rparr>)"
      using export_rel_same [OF r] by (simp add: same_but_equalized_def)
  qed simp_all
  show ?thesis
    unfolding demod_switch_def using p run_kernel_rel [OF r] by simp
qed

lemma demod_ue_rel:
  assumes "export_rel c tag (max_sc_ite c (sc_id tag)) s t" and "i < UeNum c"
  shows "export_rel c tag (max_sc_ite c (sc_id tag))
           (demod_ue (exported c) tag i s) (demod_ue (scratch c) tag i t)"
  unfolding demod_ue_def by (intro demod_switch_rel transpose_ue_rel assms)

lemma demul_users_rel:
  assumes "export_rel c tag (max_sc_ite c (sc_id tag)) s t"
  shows "export_rel c tag (max_sc_ite c (sc_id tag))
           (demul_users (exported c) tag s) (demul_users (scratch c) tag t)"
proof -
  have "export_rel c tag (max_sc_ite c (sc_id tag))
          (for_loop 0 (UeNum c) 1 (demod_ue (exported c) tag) s)
          (for_loop 0 (UeNum c) 1 (demod_ue (scratch c) tag) t)"
  proof (rule for_loop_upto_rel [where R = "\<lambda>j. export_rel c tag (max_sc_ite c (sc_id tag))" and i = 0])
    show "export_rel c tag (max_sc_ite c (sc_id tag)) s t" by (rule assms)
    show "0 \<le> UeNum c" by simp
    fix k s t assume "k < UeNum c" "export_rel c tag (max_sc_ite c (sc_id tag)) s t"
    then show "export_rel c tag (max_sc_ite c (sc_id tag))
                 (demod_ue (exported c) tag k s) (demod_ue (scratch c) tag k t)"
      by (simp add: demod_ue_rel)
  qed
  then show ?thesis by (simp add: demul_users_def)
qed

lemma Launch_state_rel:
  assumes "max_sc_ite c (sc_id tag) mod kSCsPerCacheline = 0"
  shows "same_but_equalized (Launch_state (exported c) tag s) (Launch_state (scratch c) tag s)"
proof -
  let ?N = "max_sc_ite c (sc_id tag)"
  define s0 where "s0 = debug_print_in_task (exported c) tag (snd (WorkerRdtsc s))"
  define t0 where "t0 = debug_print_in_task (scratch c) tag (snd (WorkerRdtsc s))"
  define s1 where "s1 = demul_cachelines (exported c) tag s0"
  define t1 where "t1 = demul_cachelines (scratch c) tag t0"
  define s2 where "s2 = demul_users (exported c) tag (snd (WorkerRdtsc s1))"
  define t2 where "t2 = demul_users (scratch c) tag (snd (WorkerRdtsc t1))"
  define s3 where "s3 = add_task_duration 3 (fst (WorkerRdtsc s2) - fst (WorkerRdtsc s1)) (snd (WorkerRdtsc s2))"
  define t3 where "t3 = add_task_duration 3 (fst (WorkerRdtsc t2) - fst (WorkerRdtsc t1)) (snd (WorkerRdtsc t2))"
  define s4 where "s4 = add_task_duration 0 (fst (WorkerRdtsc s3) - fst (WorkerRdtsc s)) (snd (WorkerRdtsc s3))"
  define t4 where "t4 = add_task_duration 0 (fst (WorkerRdtsc t3) - fst (WorkerRdtsc s)) (snd (WorkerRdtsc t3))"
  have "export_rel c tag 0 s s" by (simp add: export_rel_def same_but_equalized_def)
  then have "export_rel c tag 0 (snd (WorkerRdtsc s)) (snd (WorkerRdtsc s))" by (rule WorkerRdtsc_rel(2))
  then have 0: "export_rel c tag 0 s0 t0" unfolding s0_def t0_def by (rule debug_print_rel)
  have 1: "export_rel c tag ?N s1 t1"
    unfolding s1_def t1_def using 0 assms by (rule demul_cachelines_rel)
  have c1: "fst (WorkerRdtsc s1) = fst (WorkerRdtsc t1)" using 1 by (rule WorkerRdtsc_rel(1))
  have 2: "export_rel c tag ?N s2 t2"
    unfolding s2_def t2_def by (intro demul_users_rel WorkerRdtsc_rel(2) 1)
  have c2: "fst (WorkerRdtsc s2) = fst (WorkerRdtsc t2)" using 2 by (rule WorkerRdtsc_rel(1))
  have 3: "export_rel c tag ?N s3 t3"
    unfolding s3_def t3_def c1 c2 by (intro add_task_duration_rel WorkerRdtsc_rel(2) 2)
  have c3: "fst (WorkerRdtsc s3) = fst (WorkerRdtsc t3)" using 3 by (rule WorkerRdtsc_rel(1))
  have 4: "export_rel c tag ?N s4 t4"
    unfolding s4_def t4_def c3 by (intro add_task_duration_rel WorkerRdtsc_rel(2) 3)
  have a: "Launch_state (exported c) tag s = s4"
    by (simp add: Launch_state_def Let_def s4_def s3_def s2_def s1_def s0_def)
  have b: "Launch_state (scratch c) tag s = t4"
    by (simp add: Launch_state_def Let_def t4_def t3_def t2_def t1_def t0_def)
  show ?thesis unfolding a b using 4 by (rule export_rel_same)
qed

text \<open>
  In the newer variant the flag is neutral. A task run with the equalized samples
  kept in the exported buffer (\<^verbatim>\<open>kExportConstellation\<close> set) and the same task run
  from the same state with the samples kept in the scratch buffer give the same
  result as far as the buffers of demodulated bytes go: both fail the assertion or
  both return, and then \<^verbatim>\<open>demod_buffers_\<close> holds the same bytes for every frame
  slot, symbol and user.
\<close>

lemma Launch_export_flag_same_llr:
  "map_sum id (\<lambda>r. demod_buffers (fst r)) (Launch (c\<lparr>kExportConstellation := True\<rparr>) tag s)
   = map_sum id (\<lambda>r. demod_buffers (fst r)) (Launch (c\<lparr>kExportConstellation := False\<rparr>) tag s)"
proof (cases "max_sc_ite c (sc_id tag) mod kSCsPerCacheline = 0")
  case True
  then have "demod_buffers (Launch_state (exported c) tag s)
           = demod_buffers (Launch_state (scratch c) tag s)"
    using Launch_state_rel [of c tag s] by (simp add: same_but_equalized_def)
  then show ?thesis using True by (simp add: Launch_unfold)
next
  case False
  then show ?thesis by (simp add: Launch_unfold)
qed

subsection \<open>The older variant: the loop over the cache lines\<close>

lemma worker_rdtsc_fields [simp]:
  "fst (worker_rdtsc s) = tsc_m s (tsc_reads_m s)"
  "data_buffer_m (snd (worker_rdtsc s)) = data_buffer_m s"
  "precoder_buffer (snd (worker_rdtsc s)) = precoder_buffer s"
  "equal_buffer_m (snd (worker_rdtsc s)) = equal_buffer_m s"
  "demod_hard_buffer (snd (worker_rdtsc s)) = demod_hard_buffer s"
  "demod_soft_buffer (snd (worker_rdtsc s)) = demod_soft_buffer s"
  "spm_buffer (snd (worker_rdtsc s)) = spm_buffer s"
  "equaled_buffer_temp_m (snd (worker_rdtsc s)) = equaled_buffer_temp_m s"
  "equaled_buffer_temp_transposed_m (snd (worker_rdtsc s)) = equaled_buffer_temp_transposed_m s"
  by (simp_all add: worker_rdtsc_def)

lemma add_task_duration_m_fields [simp]:
  "data_buffer_m (add_task_duration_m k t s) = data_buffer_m s"
  "precoder_buffer (add_task_duration_m k t s) = precoder_buffer s"
  "equal_buffer_m (add_task_duration_m k t s) = equal_buffer_m s"
  "demod_hard_buffer (add_task_duration_m k t s) = demod_hard_buffer s"
  "demod_soft_buffer (add_task_duration_m k t s) = demod_soft_buffer s"
  "spm_buffer (add_task_duration_m k t s) = spm_buffer s"
  "equaled_buffer_temp_m (add_task_duration_m k t s) = equaled_buffer_temp_m s"
  "equaled_buffer_temp_transposed_m (add_task_duration_m k t s) = equaled_buffer_temp_transposed_m s"
  by (simp_all add: add_task_duration_m_def)

lemma hard_demod_fields [simp]:
  "data_buffer_m (hard_demod c tag cur s) = data_buffer_m s"
  "precoder_buffer (hard_demod c tag cur s) = precoder_buffer s"
  "equal_buffer_m (hard_demod c tag cur s) = equal_buffer_m s"
  "demod_soft_buffer (hard_demod c tag cur s) = demod_soft_buffer s"
  "spm_buffer (hard_demod c tag cur s) = spm_buffer s"
  "equaled_buffer_temp_m (hard_demod c tag cur s) = equaled_buffer_temp_m s"
  "equaled_buffer_temp_transposed_m (hard_demod c tag cur s) = equaled_buffer_temp_transposed_m s"
  by (simp_all add: hard_demod_def Let_def)

lemma set_mat_equaled_m_fields [simp]:
  "data_buffer_m (set_mat_equaled_m c tag cur v s) = data_buffer_m s"
  "precoder_buffer (set_mat_equaled_m c tag cur v s) = precoder_buffer s"
  "demod_hard_buffer (set_mat_equaled_m c tag cur v s) = demod_hard_buffer s"
  "demod_soft_buffer (set_mat_equaled_m c tag cur v s) = demod_soft_buffer s"
  "spm_buffer (set_mat_equaled_m c tag cur v s) = spm_buffer s"
  "equaled_buffer_temp_transposed_m (set_mat_equaled_m c tag cur v s) = equaled_buffer_temp_transposed_m s"
  by (simp_all add: set_mat_equaled_m_def)




lemma equalize_sc_m_fields [simp]:
  "data_buffer_m (equalize_sc_m c tag i j s) = data_buffer_m s"
  "precoder_buffer (equalize_sc_m c tag i j s) = precoder_buffer s"
  "demod_soft_buffer (equalize_sc_m c tag i j s) = demod_soft_buffer s"
  "spm_buffer (equalize_sc_m c tag i j s) = spm_buffer s"
  "equaled_buffer_temp_transposed_m (equalize_sc_m c tag i j s) = equaled_buffer_temp_transposed_m s"
  by (simp_all add: equalize_sc_m_def Let_def split_def)

lemma equalize_sc_m_scratch:
  "equaled_buffer_temp_m (equalize_sc_m c tag i j s)
     = (if EXPORT_CONSTELLATION c then equaled_buffer_temp_m s
        else store_vec (equaled_buffer_temp_m s) ((i * 8 + j) * UE_NUM c) (UE_NUM c)
               (mat_mult_vec (UE_NUM c) (BS_ANT_NUM c)
                  (precoder_buffer s (precoder_offset c tag (i * 8 + j + sc_id tag)))
                  (\<lambda>a. spm_buffer s (j * BS_ANT_NUM c + a))))"
  by (simp add: equalize_sc_m_def Let_def split_def set_mat_equaled_m_def)

lemma cacheline_m_fields [simp]:
  "data_buffer_m (cacheline_m c tag i s) = data_buffer_m s"
  "precoder_buffer (cacheline_m c tag i s) = precoder_buffer s"
  "demod_soft_buffer (cacheline_m c tag i s) = demod_soft_buffer s"
  "equaled_buffer_temp_transposed_m (cacheline_m c tag i s) = equaled_buffer_temp_transposed_m s"
  "spm_buffer (cacheline_m c tag i s)
     = gather_m c (data_buffer_m s (total_data_symbol_idx c tag)) (sc_id tag) i (spm_buffer s)"
  unfolding cacheline_m_def Let_def split_def
  apply (subst for_loop_preserves [where f = data_buffer_m]; simp)
  apply (subst for_loop_preserves [where f = precoder_buffer]; simp)
  apply (subst for_loop_preserves [where f = demod_soft_buffer]; simp)
  apply (subst for_loop_preserves [where f = equaled_buffer_temp_transposed_m]; simp)
  apply (subst for_loop_preserves [where f = spm_buffer]; simp)
  done

lemma cacheline_m_scratch_export:
  assumes "EXPORT_CONSTELLATION c"
  shows "equaled_buffer_temp_m (cacheline_m c tag i s) = equaled_buffer_temp_m s"
  unfolding cacheline_m_def Let_def split_def
  by (subst for_loop_preserves [where f = equaled_buffer_temp_m]) (simp_all add: equalize_sc_m_scratch assms)

text \<open>
  Without \<^verbatim>\<open>EXPORT_CONSTELLATION\<close>, a cache line leaves in the scratch buffer, for each
  of its eight subcarriers, the product of the precoder and the gathered row.
\<close>

lemma cacheline_m_scratch:
  assumes e: "\<not> EXPORT_CONSTELLATION c" and j: "j < 8" and u: "u < UE_NUM c"
  shows "equaled_buffer_temp_m (cacheline_m c tag i s) ((i * 8 + j) * UE_NUM c + u)
       = mat_mult_vec (UE_NUM c) (BS_ANT_NUM c)
           (precoder_buffer s (precoder_offset c tag (i * 8 + j + sc_id tag)))
           (\<lambda>a. gather_m c (data_buffer_m s (total_data_symbol_idx c tag)) (sc_id tag) i
                   (spm_buffer s) (j * BS_ANT_NUM c + a)) u"
proof -
  let ?U = "UE_NUM c"
  define s0 where "s0 =
     add_task_duration_m 1 (fst (worker_rdtsc
          (snd (worker_rdtsc s)\<lparr>spm_buffer := gather_m c (data_buffer_m s (total_data_symbol_idx c tag))
                       (sc_id tag) i (spm_buffer s)\<rparr>)) - fst (worker_rdtsc s))
       (snd (worker_rdtsc
          (snd (worker_rdtsc s)\<lparr>spm_buffer := gather_m c (data_buffer_m s (total_data_symbol_idx c tag))
                       (sc_id tag) i (spm_buffer s)\<rparr>)))"
  define prod where "prod = (\<lambda>j. mat_mult_vec ?U (BS_ANT_NUM c)
           (precoder_buffer s0 (precoder_offset c tag (i * 8 + j + sc_id tag)))
           (\<lambda>a. spm_buffer s0 (j * BS_ANT_NUM c + a)))"
  define P where "P = (\<lambda>(k::nat) (t::millipede_state).
      spm_buffer t = spm_buffer s0 \<and> precoder_buffer t = precoder_buffer s0
      \<and> (\<forall>j u. j < k \<longrightarrow> u < ?U \<longrightarrow> equaled_buffer_temp_m t ((i * 8 + j) * ?U + u) = prod j u))"
  have c: "cacheline_m c tag i s = for_loop 0 8 1 (equalize_sc_m c tag i) s0"
    by (simp add: cacheline_m_def Let_def split_def s0_def)
  have "P 8 (for_loop 0 8 1 (equalize_sc_m c tag i) s0)"
  proof (rule for_loop_upto_inv [where P = P])
    show "P 0 s0" by (simp add: P_def)
    show "(0::nat) \<le> 8" by simp
    fix k t assume k: "0 \<le> k" "k < 8" and p: "P k t"
    have "equaled_buffer_temp_m (equalize_sc_m c tag i k t) ((i * 8 + j') * ?U + u') = prod j' u'"
      if "j' < Suc k" "u' < ?U" for j' u'
    proof (cases "j' < k")
      case True
      then have "(i * 8 + j') * ?U + u' < (i * 8 + k) * ?U"
      proof -
        have "(i * 8 + j') * ?U + u' < Suc (i * 8 + j') * ?U" using that(2) by simp
        also have "\<dots> \<le> (i * 8 + k) * ?U" using True by (intro mult_le_mono1) simp
        finally show ?thesis .
      qed
      then show ?thesis using p True that(2) e
        by (simp add: equalize_sc_m_scratch store_vec_def P_def)
    next
      case False
      then have "j' = k" using that(1) by simp
      then show ?thesis using p that(2) e
        by (simp add: equalize_sc_m_scratch store_vec_def P_def prod_def)
    qed
    then show "P (Suc k) (equalize_sc_m c tag i k t)" using p by (simp add: P_def)
  qed
  then have "equaled_buffer_temp_m (cacheline_m c tag i s) ((i * 8 + j) * ?U + u) = prod j u"
    using j u by (simp add: P_def c)
  then show ?thesis by (simp add: prod_def s0_def)
qed

subsection \<open>The soft demodulator of the older variant\<close>

lemma launch_soft:
  assumes "USE_LDPC c"
  shows "demod_soft_buffer (fst (launch c tag s))
       = demod_soft_buffer (snd (for_loop 0 (UE_NUM c) 1 (soft_demod_ue c tag)
           (0, for_loop 0 (max_sc_ite_m c (sc_id tag) div 8) 1 (cacheline_m c tag)
                 (if kDebugPrintInTask_m c
                  then snd (worker_rdtsc s)\<lparr>stdout_m := stdout_m (snd (worker_rdtsc s)) @
                         [InDoDemulTid (tid_m c) (frame_id tag) (symbol_id tag) (sc_id tag)]\<rparr>
                  else snd (worker_rdtsc s)))))"
  using assms by (simp add: launch_def Let_def split_def)

text \<open>
  The soft demodulation of one user reads the scratch buffer, the transposed buffer
  and the buffer of demodulated bytes, and nothing else of the state.
\<close>

lemma soft_demod_ue_reads:
  assumes "fst x = fst y"
    and "equaled_buffer_temp_m (snd x) = equaled_buffer_temp_m (snd y)"
    and "equaled_buffer_temp_transposed_m (snd x) = equaled_buffer_temp_transposed_m (snd y)"
    and "demod_soft_buffer (snd x) = demod_soft_buffer (snd y)"
  shows "fst (soft_demod_ue c tag i x) = fst (soft_demod_ue c tag i y)"
    and "equaled_buffer_temp_m (snd (soft_demod_ue c tag i x))
       = equaled_buffer_temp_m (snd (soft_demod_ue c tag i y))"
    and "equaled_buffer_temp_transposed_m (snd (soft_demod_ue c tag i x))
       = equaled_buffer_temp_transposed_m (snd (soft_demod_ue c tag i y))"
    and "demod_soft_buffer (snd (soft_demod_ue c tag i x))
       = demod_soft_buffer (snd (soft_demod_ue c tag i y))"
  using assms
  by (simp_all add: soft_demod_ue_def run_soft_kernel_def Let_def split_def)

text \<open>
  In a build with \<^verbatim>\<open>EXPORT_CONSTELLATION\<close> and \<^verbatim>\<open>USE_LDPC\<close> the loop over the cache
  lines writes the equalized samples to the exported buffer and leaves the scratch
  buffer as it was, and the soft demodulator reads the scratch buffer: the bytes it
  writes are those it would write had the task not equalized anything.
\<close>

lemma launch_export_reads_scratch:
  assumes e: "EXPORT_CONSTELLATION c" and l: "USE_LDPC c"
  shows "demod_soft_buffer (fst (launch c tag s))
       = demod_soft_buffer (snd (for_loop 0 (UE_NUM c) 1 (soft_demod_ue c tag) (0, s)))"
proof -
  define s0 where "s0 = (if kDebugPrintInTask_m c
                  then snd (worker_rdtsc s)\<lparr>stdout_m := stdout_m (snd (worker_rdtsc s)) @
                         [InDoDemulTid (tid_m c) (frame_id tag) (symbol_id tag) (sc_id tag)]\<rparr>
                  else snd (worker_rdtsc s))"
  define s1 where "s1 = for_loop 0 (max_sc_ite_m c (sc_id tag) div 8) 1 (cacheline_m c tag) s0"
  define R where "R = (\<lambda>(k::nat) (x :: nat \<times> millipede_state) (y :: nat \<times> millipede_state).
      fst x = fst y
      \<and> equaled_buffer_temp_m (snd x) = equaled_buffer_temp_m (snd y)
      \<and> equaled_buffer_temp_transposed_m (snd x) = equaled_buffer_temp_transposed_m (snd y)
      \<and> demod_soft_buffer (snd x) = demod_soft_buffer (snd y))"
  have 1: "equaled_buffer_temp_m s1 = equaled_buffer_temp_m s0"
    unfolding s1_def by (rule for_loop_preserves) (simp add: cacheline_m_scratch_export e)
  have 2: "equaled_buffer_temp_transposed_m s1 = equaled_buffer_temp_transposed_m s0"
    unfolding s1_def by (rule for_loop_preserves) simp
  have 3: "demod_soft_buffer s1 = demod_soft_buffer s0"
    unfolding s1_def by (rule for_loop_preserves) simp
  have 0: "equaled_buffer_temp_m s0 = equaled_buffer_temp_m s"
    "equaled_buffer_temp_transposed_m s0 = equaled_buffer_temp_transposed_m s"
    "demod_soft_buffer s0 = demod_soft_buffer s"
    by (simp_all add: s0_def)
  have "R (UE_NUM c) (for_loop 0 (UE_NUM c) 1 (soft_demod_ue c tag) (0, s1))
                     (for_loop 0 (UE_NUM c) 1 (soft_demod_ue c tag) (0, s))"
  proof (rule for_loop_upto_rel [where R = R])
    show "R 0 (0, s1) (0, s)" by (simp add: R_def 0 1 2 3)
    show "0 \<le> UE_NUM c" by simp
    fix k x y assume "R k x y"
    then show "R (Suc k) (soft_demod_ue c tag k x) (soft_demod_ue c tag k y)"
      unfolding R_def by (intro conjI soft_demod_ue_reads) simp_all
  qed
  then show ?thesis unfolding launch_soft [OF l] s1_def s0_def by (simp add: R_def)
qed

lemma soft_first_byte:
  "demod_soft_buffer (snd (for_loop 0 (UE_NUM (millipede_example_config\<lparr>EXPORT_CONSTELLATION := b\<rparr>)) 1
       (soft_demod_ue (millipede_example_config\<lparr>EXPORT_CONSTELLATION := b\<rparr>) millipede_example_tag)
       (0, s))) 140 0
   = (if Re (equaled_buffer_temp_m s 0) < 0 then - 1 else 1)"
  by (simp add: for_loop_step for_loop_done soft_demod_ue_def run_soft_kernel_def Let_def split_def
      max_sc_ite_m_def size_t_sub_def millipede_example_config_def millipede_example_tag_def
      total_data_symbol_idx_def mm_store_ps_def store_vec_def)

lemma gather_m_example:
  "a < 4 \<Longrightarrow> gather_m (millipede_example_config\<lparr>EXPORT_CONSTELLATION := b\<rparr>) (\<lambda>k. of_nat k) 0 0 g a
     = (of_nat (a * 8) :: complex)"
  by (simp add: gather_m_def Let_def for_loop_step for_loop_done millipede_example_config_def
      mm_store_ps_def)

text \<open>
  Claim C8, at a concrete input of the older variant. In a build with
  \<^verbatim>\<open>USE_LDPC\<close>, the task of subcarriers 0 to 7 of symbol 0 of frame 2 (row 140 of the
  buffers) equalizes subcarrier 0 of user 0 to \<open>- (0 + 8 + 16 + 24) = - 48\<close>. Without
  \<^verbatim>\<open>EXPORT_CONSTELLATION\<close> the first demodulated byte of user 0 is the one of
  \<open>- 48\<close>; with it, the byte is the one of the zero that the scratch buffer holds,
  since the equalized sample went to the exported buffer and the transposition read
  the scratch buffer all the same. The flag changes the demodulated bytes.
\<close>

theorem C8_millipede_export_flag_changes_llr:
  "USE_LDPC millipede_example_config
   \<and> demod_soft_buffer (fst (launch (millipede_example_config\<lparr>EXPORT_CONSTELLATION := False\<rparr>)
         millipede_example_tag millipede_example_state)) 140 0 = - 1
   \<and> demod_soft_buffer (fst (launch (millipede_example_config\<lparr>EXPORT_CONSTELLATION := True\<rparr>)
         millipede_example_tag millipede_example_state)) 140 0 = 1"
proof -
  let ?e = "millipede_example_config\<lparr>EXPORT_CONSTELLATION := True\<rparr>"
  let ?n = "millipede_example_config\<lparr>EXPORT_CONSTELLATION := False\<rparr>"
  let ?s0 = "snd (worker_rdtsc millipede_example_state)"
  have l: "USE_LDPC millipede_example_config" "USE_LDPC ?e" "USE_LDPC ?n"
    by (simp_all add: millipede_example_config_def)
  have x: "EXPORT_CONSTELLATION ?e" by simp
  have "demod_soft_buffer (fst (launch ?e millipede_example_tag millipede_example_state)) 140 0
      = (if Re (equaled_buffer_temp_m millipede_example_state 0) < 0 then - 1 else 1)"
    unfolding launch_export_reads_scratch [OF x l(2)] by (rule soft_first_byte)
  then have e: "demod_soft_buffer (fst (launch ?e millipede_example_tag millipede_example_state)) 140 0 = 1"
    by (simp add: millipede_example_state_def)
  have p: "UE_NUM millipede_example_config = 2" "BS_ANT_NUM millipede_example_config = 4"
    by (simp_all add: millipede_example_config_def)
  have sum4: "mat_mult_vec U 4 z d u
      = z (0 * U + u) * d 0 + z (1 * U + u) * d 1 + z (2 * U + u) * d 2 + z (3 * U + u) * d 3"
    for U z d u
    by (simp add: mat_mult_vec_def numeral_eq_Suc)
  have k: "\<not> kDebugPrintInTask_m millipede_example_config" by (simp add: millipede_example_config_def)
  have m: "max_sc_ite_m ?n (sc_id millipede_example_tag) div 8 = 1"
    by (simp add: max_sc_ite_m_def size_t_sub_def millipede_example_config_def millipede_example_tag_def)
  have "equaled_buffer_temp_m (cacheline_m ?n millipede_example_tag 0 ?s0) ((0 * 8 + 0) * UE_NUM ?n + 0)
      = mat_mult_vec (UE_NUM ?n) (BS_ANT_NUM ?n)
           (precoder_buffer ?s0 (precoder_offset ?n millipede_example_tag (0 * 8 + 0 + sc_id millipede_example_tag)))
           (\<lambda>a. gather_m ?n (data_buffer_m ?s0 (total_data_symbol_idx ?n millipede_example_tag))
                   (sc_id millipede_example_tag) 0 (spm_buffer ?s0) (0 * BS_ANT_NUM ?n + a)) 0"
    by (rule cacheline_m_scratch) (simp_all add: millipede_example_config_def)
  also have "\<dots> = - 48"
    by (simp add: p sum4 gather_m_example millipede_example_state_def millipede_example_tag_def)
  finally have q: "equaled_buffer_temp_m (cacheline_m ?n millipede_example_tag 0 ?s0) 0 = - 48"
    by simp
  have st: "for_loop 0 (max_sc_ite_m ?n (sc_id millipede_example_tag) div 8) 1
              (cacheline_m ?n millipede_example_tag)
              (if kDebugPrintInTask_m ?n
               then ?s0\<lparr>stdout_m := stdout_m ?s0 @
                      [InDoDemulTid (tid_m ?n) (frame_id millipede_example_tag)
                         (symbol_id millipede_example_tag) (sc_id millipede_example_tag)]\<rparr>
               else ?s0)
            = cacheline_m ?n millipede_example_tag 0 ?s0"
    by (simp add: m k for_loop_step for_loop_done)
  have "demod_soft_buffer (fst (launch ?n millipede_example_tag millipede_example_state)) 140 0
      = (if Re (equaled_buffer_temp_m (cacheline_m ?n millipede_example_tag 0 ?s0) 0) < 0 then - 1 else 1)"
    unfolding launch_soft [OF l(3)] st by (rule soft_first_byte)
  then have n: "demod_soft_buffer (fst (launch ?n millipede_example_tag millipede_example_state)) 140 0 = - 1"
    unfolding q by simp
  from l(1) n e show ?thesis by simp
qed

subsection \<open>The gather as the task runs it\<close>

lemma gather_step_buffer:
  "data_gather_buffer (gather_step c tag i s)
     = gather_stage c (data_buffer s (total_data_symbol_idx_ul c tag)) (sc_id tag) i
         (data_gather_buffer s)"
  by (simp add: gather_step_def Let_def split_def WorkerRdtsc_def add_task_duration_def)

text \<open>
  Step 1 of the task fills the gather buffer as the layout says wherever it runs the
  scalar loop, or the vector loop with a number of antennas that is a multiple of the
  vector width.
\<close>

lemma gather_step_layout:
  assumes "j < kSCsPerCacheline" and "ant < BsAntNum c"
    and "kUsePartialTrans c \<Longrightarrow> 0 < kTransposeBlockSize c"
    and "kUsePartialTrans c \<Longrightarrow> kSCsPerCacheline dvd kTransposeBlockSize c"
    and "kUsePartialTrans c \<Longrightarrow> kSCsPerCacheline dvd sc_id tag + i"
    and "ant_num_per_simd c dvd BsAntNum c \<or> BsAntNum c mod 4 \<noteq> 0 \<or> \<not> kUsePartialTrans c"
  shows "data_gather_buffer (gather_step c tag i s) (j * BsAntNum c + ant) =
     (if kUsePartialTrans c
      then data_buffer s (total_data_symbol_idx_ul c tag)
             ((sc_id tag + i + j) div kTransposeBlockSize c
                        * (kTransposeBlockSize c * BsAntNum c)
                      + ant * kTransposeBlockSize c
                      + (sc_id tag + i + j) mod kTransposeBlockSize c)
      else data_buffer s (total_data_symbol_idx_ul c tag)
             (ant * OfdmDataNum c + (sc_id tag + i + j)))"
proof -
  let ?d = "data_buffer s (total_data_symbol_idx_ul c tag)"
  have "gather_stage c ?d (sc_id tag) i (data_gather_buffer s)
      = gather_scalar c ?d (sc_id tag) i 0 (data_gather_buffer s)"
  proof (cases "kUsePartialTrans c")
    case True
    then have "ant_num_per_simd c dvd BsAntNum c \<or> BsAntNum c mod 4 \<noteq> 0"
      using assms(6) by blast
    then show ?thesis using assms(3-5) [OF True] by (rule gather_stage_scalar)
  next
    case False
    then show ?thesis by (simp add: gather_stage_def)
  qed
  then show ?thesis
    unfolding gather_step_buffer
    using gather_scalar_layout [OF assms(1-5), of ?d "data_gather_buffer s"] by simp
qed

text \<open>
  Claim C6, at a concrete input. In an AVX512 build with 12 antennas and the
  partial-transpose layout (blocks of 8 subcarriers), step 1 of the task of
  subcarriers 0 to 7 takes the vector path. Row 1, column 0 of the gather buffer
  should hold the sample of antenna 0 and subcarrier 1, at offset
  \<open>block_base + 0 * 8 + 1 mod 8 = 1\<close> of the received symbol, which is 1 here; it holds
  sample 96, which the second pass of 8 antennas stored there.
\<close>

theorem C6_gather_step_avx512_twelve_antennas:
  "data_gather_buffer (gather_step avx512_twelve_config first_block_tag 0 example_state)
     (1 * BsAntNum avx512_twelve_config + 0) = 96
   \<and> data_buffer example_state (total_data_symbol_idx_ul avx512_twelve_config first_block_tag)
       ((sc_id first_block_tag + 0 + 1) div kTransposeBlockSize avx512_twelve_config
          * (kTransposeBlockSize avx512_twelve_config * BsAntNum avx512_twelve_config)
        + 0 * kTransposeBlockSize avx512_twelve_config
        + (sc_id first_block_tag + 0 + 1) mod kTransposeBlockSize avx512_twelve_config) = 1"
proof -
  have "gather_stage avx512_twelve_config (\<lambda>k. of_nat k) 0 0 (\<lambda>k. 0) 12 = (96::complex)"
    by (simp add: gather_stage_def gather_simd_def kUseSIMDGather_def ant_num_per_simd_def
        data_rx_def partial_transpose_block_base_def kSCsPerCacheline_def mm_store_ps_def
        avx512_twelve_config_def example_config_def Let_def for_loop_step for_loop_done)
  then have "data_gather_buffer (gather_step avx512_twelve_config first_block_tag 0 example_state) 12 = 96"
    by (simp add: gather_step_buffer example_state_def first_block_tag_def)
  moreover have "BsAntNum avx512_twelve_config = 12" "kTransposeBlockSize avx512_twelve_config = 8"
    by (simp_all add: avx512_twelve_config_def example_config_def)
  ultimately show ?thesis
    by (simp add: example_state_def first_block_tag_def)
qed

subsection \<open>The equalization\<close>

lemma mat_mult_vec_sum:
  "mat_mult_vec ue_num bs_ant_num ul_zf mat_data u
     = (\<Sum>a = 0..<bs_ant_num. ul_zf (a * ue_num + u) * mat_data a)"
  by (simp add: mat_mult_vec_def interv_sum_list_conv_sum_set_nat)

lemma equalization_equaled:
  assumes "u < UeNum c"
  shows "mat_equaled c tag (sc_id tag + i + j) (equalization c tag i j s) u
       = (\<Sum>a = 0..<BsAntNum c.
            ul_zf_matrices s (frame_slot c tag) (GetZfScId c (sc_id tag + i + j)) (a * UeNum c + u)
            * data_gather_buffer s (j * BsAntNum c + a))"
  using assms
  by (simp add: equalization_def Let_def split_def mat_equaled_set mat_mult_vec_sum)

lemma equalize_sc_equalization:
  "equalize_sc c tag i j s
     = (let s2 = phase_tracker c tag (sc_id tag + i + j) (equalization c tag i j s);
            s3 = add_task_duration 2 (fst (WorkerRdtsc s2) - fst (WorkerRdtsc s)) (snd (WorkerRdtsc s2))
        in s3\<lparr>task_count := task_count s3 + 1\<rparr>)"
  by (simp add: equalize_sc_def equalization_def Let_def split_def)

text \<open>
  What the loop body leaves in the view of the equalized samples: the product, and
  on a data symbol of a frame with pilot symbols the product rotated by the phase
  tracker (Claim C4).
\<close>

lemma equalize_sc_equaled:
  assumes u: "u < UeNum c"
  shows "mat_equaled c tag (sc_id tag + i + j) (equalize_sc c tag i j s) u
       = (\<Sum>a = 0..<BsAntNum c.
            ul_zf_matrices s (frame_slot c tag) (GetZfScId c (sc_id tag + i + j)) (a * UeNum c + u)
            * data_gather_buffer s (j * BsAntNum c + a))
         * (if ClientUlPilotSymbols c \<le> symbol_idx_ul c tag \<and> 0 < ClientUlPilotSymbols c
            then exp (- (\<i> * complex_of_real (cur_theta c tag s u))) else 1)"
proof -
  let ?cur = "sc_id tag + i + j"
  let ?s1 = "equalization c tag i j s"
  let ?s2 = "phase_tracker c tag ?cur ?s1"
  have "mat_equaled c tag ?cur (equalize_sc c tag i j s) = mat_equaled c tag ?cur ?s2"
    unfolding equalize_sc_equalization Let_def
    by (rule mat_equaled_cong) (simp_all add: add_task_duration_def WorkerRdtsc_def)
  moreover have "mat_equaled c tag ?cur ?s2 u
       = mat_equaled c tag ?cur ?s1 u
         * (if ClientUlPilotSymbols c \<le> symbol_idx_ul c tag \<and> 0 < ClientUlPilotSymbols c
            then exp (- (\<i> * complex_of_real (cur_theta c tag s u))) else 1)"
  proof (cases "ClientUlPilotSymbols c \<le> symbol_idx_ul c tag \<and> 0 < ClientUlPilotSymbols c")
    case True
    have "ue_spec_pilot_buffer ?s1 = ue_spec_pilot_buffer s"
      by (simp add: equalization_def Let_def split_def WorkerRdtsc_def)
    then have "cur_theta c tag ?s1 u = cur_theta c tag s u"
      by (simp add: cur_theta_def theta_inc_def theta_mat_def)
    then show ?thesis
      using True phase_tracker_correction [of c tag u ?cur ?s1] u by simp
  next
    case False
    have "mat_equaled c tag ?cur ?s2 = mat_equaled c tag ?cur ?s1"
      by (rule mat_equaled_cong)
         (use False in \<open>auto simp add: phase_tracker_def calc_phase_shift_def Let_def\<close>)
    then show ?thesis using False by auto
  qed
  ultimately show ?thesis using u by (simp add: equalization_equaled)
qed





end
